theory Spec2Isabelle
  imports Main "HOL-Library.Word"
begin

section \<open>Parsed JSON and the path extractor (lib/browser/oauth2.go)\<close>

text \<open>
  \<open>json.Unmarshal\<close> into an \<open>interface{}\<close> yields \<open>nil\<close>, \<open>bool\<close>, \<open>float64\<close>, \<open>string\<close>,
  \<open>[]interface{}\<close> or \<open>map[string]interface{}\<close>. A number is kept as its literal, since no
  function here looks into it. A map is given as the list of its entries in the order in
  which \<open>range\<close> visits them (Go leaves that order open), with pairwise distinct keys; the
  lookup \<open>v[key]\<close> is \<open>map_of\<close>.
\<close>

datatype json =
    JNull
  | JBool bool
  | JNumber string
  | JString string
  | JArray "json list"
  | JObject "(string \<times> json) list"

text \<open>\<open>strings.Split(s, sep)\<close> for a separator of one byte: \<open>Split "" "." = [""]\<close>.\<close>

fun Split :: "string \<Rightarrow> char \<Rightarrow> string list" where
  "Split [] sep = [[]]"
| "Split (c # s) sep =
     (if c = sep then [] # Split s sep
      else (case Split s sep of [] \<Rightarrow> [[c]] | w # ws \<Rightarrow> (c # w) # ws))"

text \<open>
  The loop over a sequence once the keys are used up:
  \<open>for _, item := range v { if str, ok := item.(string); ok { results = append(results, str) } }\<close>.
\<close>

fun stringItems :: "json list \<Rightarrow> string list" where
  "stringItems [] = []"
| "stringItems (JString str # v) = str # stringItems v"
| "stringItems (_ # v) = stringItems v"

lemma size_map_of_value:
  "map_of v key = Some val \<Longrightarrow> size val < Suc (size_list (size_prod (\<lambda>_. 0) size) v)"
  by (induction v) (auto split: if_splits)

lemma size_array_item:
  "item \<in> set v \<Longrightarrow> size item < Suc (size_list size v)"
  by (induction v) auto

lemma size_object_value:
  "(k, val) \<in> set v \<Longrightarrow> size val < Suc (size_list (size_prod (\<lambda>_. 0) size) v)"
  by (induction v) auto

text \<open>
  \<open>extractJsonRecursive\<close>, branch by branch as in the source: first the test
  \<open>len(keys) == 0\<close> with its type switch, then \<open>key := keys[0]\<close>, \<open>remainingKeys := keys[1:]\<close>
  and the second type switch. Each \<open>results = append(results, ...)\<close> in a loop is a
  concatenation in loop order.
\<close>

function extractJsonRecursive :: "json \<Rightarrow> string list \<Rightarrow> string list" where
  "extractJsonRecursive data keys =
     (if length keys = 0 then
        (case data of
           JString v \<Rightarrow> [v]
         | JArray v \<Rightarrow> stringItems v
         | _ \<Rightarrow> [])
      else
        (let key = hd keys; remainingKeys = tl keys in
         case data of
           JObject v \<Rightarrow>
             (case map_of v key of
                Some val \<Rightarrow> extractJsonRecursive val remainingKeys
              | None \<Rightarrow> concat (map (\<lambda>(k, val). extractJsonRecursive val keys) v))
         | JArray v \<Rightarrow> concat (map (\<lambda>item. extractJsonRecursive item keys) v)
         | _ \<Rightarrow> []))"
  by pat_completeness auto
termination
  by (relation "measure (\<lambda>(data, keys). size data)")
     (auto dest: size_map_of_value size_array_item size_object_value)

declare extractJsonRecursive.simps [simp del]

definition extractJsonValue :: "json \<Rightarrow> string \<Rightarrow> string list" where
  "extractJsonValue data path = (let keys = Split path CHR ''.'' in extractJsonRecursive data keys)"

text \<open>
  The extractor in the words of the specification, to compare with the code: a string
  leaf contributes itself and a sequence its string elements once the keys are used up;
  a mapping descends into the value of the current key when it has one and otherwise
  searches all its values with the same keys; a sequence searches all its elements with
  the same keys; everything else contributes nothing.
\<close>

fun isString :: "json \<Rightarrow> bool" where
  "isString (JString s) = True"
| "isString _ = False"

fun theString :: "json \<Rightarrow> string" where
  "theString (JString s) = s"
| "theString _ = []"

function extract_spec :: "json \<Rightarrow> string list \<Rightarrow> string list" where
  "extract_spec (JString s) [] = [s]"
| "extract_spec (JArray items) [] = map theString (filter isString items)"
| "extract_spec (JObject fields) (key # rest) =
     (if key \<in> fst ` set fields then extract_spec (the (map_of fields key)) rest
      else concat (map (\<lambda>val. extract_spec val (key # rest)) (map snd fields)))"
| "extract_spec (JArray items) (key # rest) =
     concat (map (\<lambda>item. extract_spec item (key # rest)) items)"
| "extract_spec JNull keys = []"
| "extract_spec (JBool b) keys = []"
| "extract_spec (JNumber n) keys = []"
| "extract_spec (JObject fields) [] = []"
| "extract_spec (JString s) (key # rest) = []"
  by pat_completeness auto
termination
proof (relation "measure (\<lambda>(data, keys). size data)", goal_cases)
  case 1
  show ?case by simp
next
  case (2 fields key rest)
  then obtain val where "map_of fields key = Some val"
    by (metis domD dom_map_of_conv_image_fst)
  then show ?case
    by (auto dest: size_map_of_value)
next
  case (3 fields key rest val)
  then show ?case
    by (auto dest: size_object_value)
next
  case (4 items key rest item)
  then show ?case
    by (auto dest: size_array_item)
qed


section \<open>Recipes, steps and results\<close>

text \<open>
  Modelled from the spec: the declarations of \<open>parser.Recipe\<close>, \<open>parser.Step\<close>,
  \<open>utils.StepResult\<close>, \<open>utils.RecipeResult\<close>, \<open>vault.Credentials\<close> and
  \<open>secrets.Oauth2Tokens\<close> are not among the sources. The records below have the fields
  that the code under \<open>lib/browser\<close> reads and writes, with the types it uses them at.
  Go's \<open>int\<close> is \<open>int\<close> here: the counters of this program count steps and files and
  stay far from \<open>2^63\<close>. \<open>browser.go\<close> names the recipe's owner \<open>Provider\<close>,
  \<open>oauth2.go\<close> names it \<open>Supplier\<close>; the record has both.
\<close>

record Oauth2 =
  AuthUrl :: string
  TokenUrl :: string
  RedirectUrl :: string
  ClientId :: string
  Scope :: string
  PkceMethod :: string
  PkceVerifierLength :: int

record Step =
  Action :: string
  Description :: string
  Selector :: string
  Value :: string
  URL :: string
  Body :: string
  Headers :: "(string \<times> string) list"
  Oauth2 :: Oauth2
  ExtractDocumentIds :: string
  ExtractDocumentFilenames :: string
  DocumentUrl :: string
  DocumentRequestMethod :: string
  DocumentRequestHeaders :: "(string \<times> string) list"

record Recipe =
  Provider :: string
  Supplier :: string
  Version :: string
  Steps :: "Step list"

record Credentials =
  Id :: string
  Username :: string
  Password :: string
  Totp :: string

record Oauth2Tokens =
  AccessToken :: string
  RefreshToken :: string
  CreatedAt :: int
  ExpiresIn :: int

record RecipeResult =
  Status :: string
  StatusText :: string
  StatusTextFormatted :: string
  LastStepId :: string
  LastStepDescription :: string
  LastErrorMessage :: string
  NewFilesCount :: int

record StepResult =
  Status :: string
  Message :: string
  Break :: bool

text \<open>The zero value of \<open>utils.RecipeResult\<close>, which \<open>var result utils.RecipeResult\<close> declares.\<close>

definition zeroRecipeResult :: RecipeResult where
  "zeroRecipeResult =
     \<lparr> RecipeResult.Status = [], StatusText = [], StatusTextFormatted = [], LastStepId = [],
       LastStepDescription = [], LastErrorMessage = [], NewFilesCount = 0 \<rparr>"

subsection \<open>Decimal rendering\<close>

text \<open>\<open>strconv.Itoa\<close>, which is also what \<open>fmt.Sprintf\<close> prints for \<open>%d\<close>.\<close>

definition digit :: "nat \<Rightarrow> char" where
  "digit d = ''0123456789'' ! d"

function decimal :: "nat \<Rightarrow> string" where
  "decimal m = (if m < 10 then [digit m] else decimal (m div 10) @ [digit (m mod 10)])"
  by pat_completeness auto
termination
  by (relation "measure id") auto

declare decimal.simps [simp del]

definition Itoa :: "int \<Rightarrow> string" where
  "Itoa i = (if i < 0 then CHR ''-'' # decimal (nat (- i)) else decimal (nat i))"

subsection \<open>What a run does to the outside\<close>

text \<open>
  The percentage is computed in \<open>float64\<close>. Rounding is outside this development, so a
  \<open>float64\<close> is kept as the expression that computes it: \<open>Float64 i\<close> is the conversion
  \<open>float64(i)\<close>, \<open>Add\<close> and \<open>Quo\<close> are \<open>+\<close> and \<open>/\<close> on \<open>float64\<close>.
\<close>

datatype float64 =
    Float64 int
  | Add float64 float64
  | Quo float64 float64

text \<open>
  The messages that \<open>p.Send\<close> hands to the terminal program: \<open>browser.go\<close> sends the two
  \<open>Result...\<close> messages, \<open>oauth2.go\<close> the two \<open>ViewMsg...\<close> messages. The first argument of a
  title message is its \<open>Title\<close>, the second its \<open>Description\<close>; a progress message carries
  its \<open>Percent\<close>.
\<close>

datatype msg =
    ResultTitleAndDescriptionUpdate string string
  | ResultProgressUpdate float64
  | ViewMsgStatusAndDescriptionUpdate string string
  | ViewMsgProgressUpdate float64

text \<open>
  The effects of the loop of \<open>RunRecipe\<close>, in program order: a message sent, or the staging
  directory emptied by \<open>utils.TruncateDirectory\<close> (its error is only printed).
\<close>

datatype effect =
    Send msg
  | TruncateDirectory string

subsection \<open>Step handlers as seen by the dispatcher\<close>

text \<open>
  A handler drives the browser and the network. The dispatcher starts it in a goroutine
  of its own and then waits in \<open>select\<close> for the handler's \<open>StepResult\<close> on a channel of
  capacity one, or for \<open>time.After(b.recipeTimeout)\<close>. What the dispatcher can observe of
  one handler run is therefore: when the result is sent and what it is (\<open>sends\<close>, the time
  in nanoseconds since the step began; \<open>None\<close> when nothing is ever sent), and the fields
  of the driver as \<open>select\<close> leaves them (\<open>driver_then\<close>; the handlers are methods of the
  driver and assign to its fields). A result sent exactly when the timer fires is taken
  as late.
\<close>

record 'b handler_run =
  sends :: "(nat \<times> StepResult) option"
  driver_then :: 'b

definition Second :: int where
  "Second = 1000000000"

definition select_result :: "int \<Rightarrow> 'b handler_run \<Rightarrow> StepResult option" where
  "select_result timeout run =
     (case sends run of
        None \<Rightarrow> None
      | Some (t, lsr) \<Rightarrow> if int t < timeout then Some lsr else None)"

text \<open>
  One pass through the loop body either returns from \<open>RunRecipe\<close> (\<open>Return\<close>: the result,
  the driver, the effects so far) or goes on to the next step (\<open>Next\<close>: the driver, the
  counter \<open>n\<close>, the variable \<open>result\<close>, the effects so far).
\<close>

datatype 'b flow =
    Return RecipeResult 'b "effect list"
  | Next 'b int RecipeResult "effect list"

text \<open>
  The three statements that choose \<open>newDocumentsText\<close>: the default
  \<open>strconv.Itoa(b.newFilesCount) + " new documents"\<close>, overwritten for 1 and then for 0.
\<close>

definition newDocumentsText :: "int \<Rightarrow> string" where
  "newDocumentsText count =
     (let text = Itoa count @ '' new documents'';
          text = (if count = 1 then ''One new document'' else text);
          text = (if count = 0 then ''No new documents'' else text)
      in text)"

text \<open>
  What happens before the loop, as the values that the outside returns to \<open>RunRecipe\<close>:
  the error of \<open>cu.New\<close>; the error of reading the version of Chrome, or the text read;
  the result of \<open>utils.InitProviderDirectories\<close> (\<open>utils.InitSupplierDirectories\<close> in
  \<open>oauth2.go\<close>): the staging directory, the documents directory and the error; and the
  error of the \<open>chromedp.Run\<close> that allows downloads, which only \<open>browser.go\<close> calls.
\<close>

record startup =
  new_context :: "string option"
  version_probe :: "string + string"
  init_directories :: "string \<times> string \<times> string option"
  download_behavior :: "string option"

text \<open>\<open>strings.TrimSpace\<close> on the ASCII white space.\<close>

definition isSpace :: "char \<Rightarrow> bool" where
  "isSpace c = (c \<in> set [CHR '' '', CHR 0x09, CHR 0x0A, CHR 0x0B, CHR 0x0C, CHR 0x0D])"

definition TrimSpace :: "string \<Rightarrow> string" where
  "TrimSpace s = rev (dropWhile isSpace (rev (dropWhile isSpace s)))"


section \<open>The browser-driven dispatcher (lib/browser/browser.go)\<close>

text \<open>
  The fields of \<open>BrowserDriver\<close> that hold data. The logger, the document archive and the
  browser context are handles to the outside and have no field here.
  \<open>recipeTimeout\<close> is a \<open>time.Duration\<close>, a count of nanoseconds.
\<close>

record BrowserDriver =
  credentials :: Credentials
  buchhalterDirectory :: string
  ChromeVersion :: string
  downloadsDirectory :: string
  documentsDirectory :: string
  recipeTimeout :: int
  newFilesCount :: int

definition NewBrowserDriver :: "Credentials \<Rightarrow> string \<Rightarrow> BrowserDriver" where
  "NewBrowserDriver creds dir =
     \<lparr> credentials = creds,
       buchhalterDirectory = dir,
       ChromeVersion = [],
       downloadsDirectory = [],
       documentsDirectory = [],
       recipeTimeout = 60 * Second,
       newFilesCount = 0 \<rparr>"

text \<open>
  The goroutine of the loop body: a \<open>switch\<close> on \<open>step.Action\<close> with eleven cases and no
  default, so for any other action nothing is ever sent and the driver stays as it is.
  The handlers themselves are the parameter \<open>handler\<close>, applied to the counter \<open>n\<close>, the
  driver and the step.
\<close>

definition BrowserDriver_actions :: "string list" where
  "BrowserDriver_actions =
     [''open'', ''removeElement'', ''click'', ''type'', ''sleep'', ''waitFor'', ''downloadAll'',
      ''transform'', ''move'', ''runScript'', ''runScriptDownloadUrls'']"

definition BrowserDriver_go ::
  "(int \<Rightarrow> BrowserDriver \<Rightarrow> Step \<Rightarrow> BrowserDriver handler_run) \<Rightarrow>
   int \<Rightarrow> BrowserDriver \<Rightarrow> Step \<Rightarrow> BrowserDriver handler_run" where
  "BrowserDriver_go handler n b step =
     (if Action step \<in> set BrowserDriver_actions then handler n b step
      else \<lparr> sends = None, driver_then = b \<rparr>)"

definition BrowserDriver_LastStepId :: "Recipe \<Rightarrow> int \<Rightarrow> Step \<Rightarrow> string" where
  "BrowserDriver_LastStepId recipe n step =
     Provider recipe @ ''-'' @ Version recipe @ ''-'' @ Itoa n @ ''-'' @ Action step"

text \<open>
  The body of \<open>for _, step := range recipe.Steps\<close>. \<open>textStyleBold\<close> is the renderer of
  the terminal library; \<open>tsc\<close>, \<open>scs\<close> and \<open>bcs\<close> are the parameters of \<open>RunRecipe\<close>.
\<close>

definition BrowserDriver_iteration ::
  "(int \<Rightarrow> BrowserDriver \<Rightarrow> Step \<Rightarrow> BrowserDriver handler_run) \<Rightarrow> (string \<Rightarrow> string) \<Rightarrow>
   int \<Rightarrow> int \<Rightarrow> int \<Rightarrow> Recipe \<Rightarrow> Step \<Rightarrow>
   BrowserDriver \<Rightarrow> int \<Rightarrow> RecipeResult \<Rightarrow> effect list \<Rightarrow> BrowserDriver flow" where
  "BrowserDriver_iteration handler textStyleBold tsc scs bcs recipe step b0 n result0 done =
     (let sent = done @ [Send (ResultTitleAndDescriptionUpdate
                   (''Downloading invoices from '' @ Provider recipe @ '' ('' @ Itoa n @ ''/''
                      @ Itoa scs @ ''):'')
                   (Description step))];
          run = BrowserDriver_go handler n b0 step;
          b = driver_then run
      in case select_result (BrowserDriver.recipeTimeout b0) run of
           Some lsr \<Rightarrow>
             if StepResult.Status lsr = ''success'' then
               Next b (n + 1)
                 \<lparr> RecipeResult.Status = ''success'',
                   StatusText = Provider recipe @ '': '' @ newDocumentsText (BrowserDriver.newFilesCount b),
                   StatusTextFormatted = ''- '' @ textStyleBold (Provider recipe) @ '': ''
                      @ newDocumentsText (BrowserDriver.newFilesCount b),
                   LastStepId = BrowserDriver_LastStepId recipe n step,
                   LastStepDescription = Description step,
                   LastErrorMessage = [],
                   NewFilesCount = BrowserDriver.newFilesCount b \<rparr>
                 (sent @ [Send (ResultProgressUpdate (Quo (Add (Float64 bcs) (Float64 n)) (Float64 tsc)))])
             else
               Return
                 \<lparr> RecipeResult.Status = ''error'',
                   StatusText = Provider recipe @ ''aborted with error.'',
                   StatusTextFormatted = ''x '' @ textStyleBold (Provider recipe) @ '' aborted with error.'',
                   LastStepId = BrowserDriver_LastStepId recipe n step,
                   LastStepDescription = Description step,
                   LastErrorMessage = Message lsr,
                   NewFilesCount = BrowserDriver.newFilesCount b \<rparr>
                 b (sent @ [TruncateDirectory (BrowserDriver.downloadsDirectory b)])
         | None \<Rightarrow>
             Return
               \<lparr> RecipeResult.Status = ''error'',
                 StatusText = Provider recipe @ '' aborted with timeout.'',
                 StatusTextFormatted = ''x '' @ textStyleBold (Provider recipe) @ '' aborted with timeout.'',
                 LastStepId = BrowserDriver_LastStepId recipe n step,
                 LastStepDescription = Description step,
                 LastErrorMessage = [],
                 NewFilesCount = BrowserDriver.newFilesCount b \<rparr>
               b (sent @ [TruncateDirectory (BrowserDriver.downloadsDirectory b)]))"

fun BrowserDriver_loop ::
  "(int \<Rightarrow> BrowserDriver \<Rightarrow> Step \<Rightarrow> BrowserDriver handler_run) \<Rightarrow> (string \<Rightarrow> string) \<Rightarrow>
   int \<Rightarrow> int \<Rightarrow> int \<Rightarrow> Recipe \<Rightarrow> Step list \<Rightarrow>
   BrowserDriver \<Rightarrow> int \<Rightarrow> RecipeResult \<Rightarrow> effect list \<Rightarrow> BrowserDriver flow" where
  "BrowserDriver_loop handler textStyleBold tsc scs bcs recipe [] b n result done =
     Next b n result done"
| "BrowserDriver_loop handler textStyleBold tsc scs bcs recipe (step # steps) b n result done =
     (case BrowserDriver_iteration handler textStyleBold tsc scs bcs recipe step b n result done of
        Return r b' done' \<Rightarrow> Return r b' done'
      | Next b' n' result' done' \<Rightarrow>
          BrowserDriver_loop handler textStyleBold tsc scs bcs recipe steps b' n' result' done')"

text \<open>
  \<open>RunRecipe\<close> up to the loop: the browser is started (any error there is a \<open>panic\<close>,
  the \<open>Inl\<close> of the result), the version of Chrome is read once, the two directories are
  set (an error is only printed), downloads are allowed (an error is a \<open>panic\<close>).
\<close>

definition BrowserDriver_start :: "startup \<Rightarrow> BrowserDriver \<Rightarrow> string + BrowserDriver" where
  "BrowserDriver_start env b =
     (case new_context env of
        Some err \<Rightarrow> Inl err
      | None \<Rightarrow>
         (case (if BrowserDriver.ChromeVersion b = []
                then (case version_probe env of
                        Inl err \<Rightarrow> Inl err
                      | Inr version \<Rightarrow> Inr (b\<lparr> BrowserDriver.ChromeVersion := TrimSpace version \<rparr>))
                else Inr b) of
            Inl err \<Rightarrow> Inl err
          | Inr b1 \<Rightarrow>
             (let b2 = b1\<lparr> BrowserDriver.downloadsDirectory := fst (init_directories env),
                          BrowserDriver.documentsDirectory := fst (snd (init_directories env)) \<rparr>
              in case download_behavior env of
                   Some err \<Rightarrow> Inl err
                 | None \<Rightarrow> Inr b2)))"

text \<open>
  \<open>RunRecipe\<close>: after the start the loop runs from \<open>n := 1\<close> with the zero \<open>result\<close>; a
  \<open>return\<close> inside the loop ends the call, and when the loop ends by itself the staging
  directory is emptied and \<open>result\<close> is returned.
\<close>

definition BrowserDriver_RunRecipe ::
  "startup \<Rightarrow> (int \<Rightarrow> BrowserDriver \<Rightarrow> Step \<Rightarrow> BrowserDriver handler_run) \<Rightarrow> (string \<Rightarrow> string) \<Rightarrow>
   BrowserDriver \<Rightarrow> int \<Rightarrow> int \<Rightarrow> int \<Rightarrow> Recipe \<Rightarrow>
   string + (RecipeResult \<times> BrowserDriver \<times> effect list)" where
  "BrowserDriver_RunRecipe env handler textStyleBold b tsc scs bcs recipe =
     (case BrowserDriver_start env b of
        Inl err \<Rightarrow> Inl err
      | Inr b2 \<Rightarrow>
         (case BrowserDriver_loop handler textStyleBold tsc scs bcs recipe (Steps recipe)
                 b2 1 zeroRecipeResult [] of
            Return r b' done \<Rightarrow> Inr (r, b', done)
          | Next b' n result done \<Rightarrow>
              Inr (result, b', done @ [TruncateDirectory (BrowserDriver.downloadsDirectory b')])))"

section \<open>The OAuth2-driven dispatcher (lib/browser/oauth2.go)\<close>

record ClientAuthBrowserDriver =
  credentials :: Credentials
  buchhalterConfigDirectory :: string
  buchhalterDocumentsDirectory :: string
  ChromeVersion :: string
  downloadsDirectory :: string
  documentsDirectory :: string
  recipeTimeout :: int
  newFilesCount :: int
  oauth2AuthToken :: string
  oauth2AuthUrl :: string
  oauth2TokenUrl :: string
  oauth2RedirectUrl :: string
  oauth2ClientId :: string
  oauth2Scope :: string
  oauth2PkceMethod :: string
  oauth2PkceVerifierLength :: int

definition NewClientAuthBrowserDriver :: "Credentials \<Rightarrow> string \<Rightarrow> string \<Rightarrow> ClientAuthBrowserDriver" where
  "NewClientAuthBrowserDriver creds configDir documentsDir =
     \<lparr> credentials = creds,
       buchhalterConfigDirectory = configDir,
       buchhalterDocumentsDirectory = documentsDir,
       ChromeVersion = [],
       downloadsDirectory = [],
       documentsDirectory = [],
       recipeTimeout = 120 * Second,
       newFilesCount = 0,
       oauth2AuthToken = [],
       oauth2AuthUrl = [],
       oauth2TokenUrl = [],
       oauth2RedirectUrl = [],
       oauth2ClientId = [],
       oauth2Scope = [],
       oauth2PkceMethod = [],
       oauth2PkceVerifierLength = 0 \<rparr>"

text \<open>The goroutine of this loop body has four cases and no default.\<close>

definition ClientAuthBrowserDriver_actions :: "string list" where
  "ClientAuthBrowserDriver_actions =
     [''oauth2-setup'', ''oauth2-check-tokens'', ''oauth2-authenticate'', ''oauth2-post-and-get-items'']"

definition ClientAuthBrowserDriver_go ::
  "(int \<Rightarrow> ClientAuthBrowserDriver \<Rightarrow> Step \<Rightarrow> ClientAuthBrowserDriver handler_run) \<Rightarrow>
   int \<Rightarrow> ClientAuthBrowserDriver \<Rightarrow> Step \<Rightarrow> ClientAuthBrowserDriver handler_run" where
  "ClientAuthBrowserDriver_go handler n b step =
     (if Action step \<in> set ClientAuthBrowserDriver_actions then handler n b step
      else \<lparr> sends = None, driver_then = b \<rparr>)"

definition ClientAuthBrowserDriver_LastStepId :: "Recipe \<Rightarrow> int \<Rightarrow> Step \<Rightarrow> string" where
  "ClientAuthBrowserDriver_LastStepId recipe n step =
     Supplier recipe @ ''-'' @ Version recipe @ ''-'' @ Itoa n @ ''-'' @ Action step"

definition ClientAuthBrowserDriver_iteration ::
  "(int \<Rightarrow> ClientAuthBrowserDriver \<Rightarrow> Step \<Rightarrow> ClientAuthBrowserDriver handler_run) \<Rightarrow>
   (string \<Rightarrow> string) \<Rightarrow> int \<Rightarrow> int \<Rightarrow> int \<Rightarrow> Recipe \<Rightarrow> Step \<Rightarrow>
   ClientAuthBrowserDriver \<Rightarrow> int \<Rightarrow> RecipeResult \<Rightarrow> effect list \<Rightarrow> ClientAuthBrowserDriver flow" where
  "ClientAuthBrowserDriver_iteration handler textStyleBold totalStepCount stepCountInCurrentRecipe
      baseCountStep recipe step b0 n result0 done =
     (let sent = done @ [Send (ViewMsgStatusAndDescriptionUpdate
                   (''Downloading invoices from '' @ Supplier recipe @ '' ('' @ Itoa n @ ''/''
                      @ Itoa stepCountInCurrentRecipe @ ''):'')
                   (Description step))];
          run = ClientAuthBrowserDriver_go handler n b0 step;
          b = driver_then run
      in case select_result (recipeTimeout b0) run of
           Some lastStepResult \<Rightarrow>
             if StepResult.Status lastStepResult = ''success'' then
               Next b (n + 1)
                 \<lparr> RecipeResult.Status = ''success'',
                   StatusText = Supplier recipe @ '': '' @ newDocumentsText (newFilesCount b),
                   StatusTextFormatted = ''- '' @ textStyleBold (Supplier recipe) @ '': ''
                      @ newDocumentsText (newFilesCount b),
                   LastStepId = ClientAuthBrowserDriver_LastStepId recipe n step,
                   LastStepDescription = Description step,
                   LastErrorMessage = [],
                   NewFilesCount = newFilesCount b \<rparr>
                 (sent @ [Send (ViewMsgProgressUpdate
                            (Quo (Add (Float64 baseCountStep) (Float64 n)) (Float64 totalStepCount)))])
             else
               (let result =
                  \<lparr> RecipeResult.Status = ''error'',
                    StatusText = Supplier recipe @ '' aborted with error.'',
                    StatusTextFormatted = ''x '' @ textStyleBold (Supplier recipe) @ '' aborted with error.'',
                    LastStepId = ClientAuthBrowserDriver_LastStepId recipe n step,
                    LastStepDescription = Description step,
                    LastErrorMessage = Message lastStepResult,
                    NewFilesCount = newFilesCount b \<rparr>
                in if Break lastStepResult then Return result b sent
                   else Next b (n + 1) result
                          (sent @ [Send (ViewMsgProgressUpdate
                             (Quo (Add (Float64 baseCountStep) (Float64 n)) (Float64 totalStepCount)))]))
         | None \<Rightarrow>
             Return
               \<lparr> RecipeResult.Status = ''error'',
                 StatusText = Supplier recipe @ '' aborted with timeout.'',
                 StatusTextFormatted = ''x '' @ textStyleBold (Supplier recipe) @ '' aborted with timeout.'',
                 LastStepId = ClientAuthBrowserDriver_LastStepId recipe n step,
                 LastStepDescription = Description step,
                 LastErrorMessage = [],
                 NewFilesCount = newFilesCount b \<rparr>
               b sent)"

fun ClientAuthBrowserDriver_loop ::
  "(int \<Rightarrow> ClientAuthBrowserDriver \<Rightarrow> Step \<Rightarrow> ClientAuthBrowserDriver handler_run) \<Rightarrow>
   (string \<Rightarrow> string) \<Rightarrow> int \<Rightarrow> int \<Rightarrow> int \<Rightarrow> Recipe \<Rightarrow> Step list \<Rightarrow>
   ClientAuthBrowserDriver \<Rightarrow> int \<Rightarrow> RecipeResult \<Rightarrow> effect list \<Rightarrow> ClientAuthBrowserDriver flow" where
  "ClientAuthBrowserDriver_loop handler textStyleBold totalStepCount stepCountInCurrentRecipe
      baseCountStep recipe [] b n result done = Next b n result done"
| "ClientAuthBrowserDriver_loop handler textStyleBold totalStepCount stepCountInCurrentRecipe
      baseCountStep recipe (step # steps) b n result done =
     (case ClientAuthBrowserDriver_iteration handler textStyleBold totalStepCount
             stepCountInCurrentRecipe baseCountStep recipe step b n result done of
        Return r b' done' \<Rightarrow> Return r b' done'
      | Next b' n' result' done' \<Rightarrow>
          ClientAuthBrowserDriver_loop handler textStyleBold totalStepCount stepCountInCurrentRecipe
            baseCountStep recipe steps b' n' result' done')"

text \<open>
  \<open>RunRecipe\<close> of this driver: the start is as above without the call that allows
  downloads, and nothing empties the staging directory, on any path.
\<close>

definition ClientAuthBrowserDriver_start ::
  "startup \<Rightarrow> ClientAuthBrowserDriver \<Rightarrow> string + ClientAuthBrowserDriver" where
  "ClientAuthBrowserDriver_start env b =
     (case new_context env of
        Some err \<Rightarrow> Inl err
      | None \<Rightarrow>
         (case (if ChromeVersion b = []
                then (case version_probe env of
                        Inl err \<Rightarrow> Inl err
                      | Inr version \<Rightarrow> Inr (b\<lparr> ChromeVersion := TrimSpace version \<rparr>))
                else Inr b) of
            Inl err \<Rightarrow> Inl err
          | Inr b1 \<Rightarrow>
              Inr (b1\<lparr> downloadsDirectory := fst (init_directories env),
                       documentsDirectory := fst (snd (init_directories env)) \<rparr>)))"

definition ClientAuthBrowserDriver_RunRecipe ::
  "startup \<Rightarrow> (int \<Rightarrow> ClientAuthBrowserDriver \<Rightarrow> Step \<Rightarrow> ClientAuthBrowserDriver handler_run) \<Rightarrow>
   (string \<Rightarrow> string) \<Rightarrow> ClientAuthBrowserDriver \<Rightarrow> int \<Rightarrow> int \<Rightarrow> int \<Rightarrow> Recipe \<Rightarrow>
   string + (RecipeResult \<times> ClientAuthBrowserDriver \<times> effect list)" where
  "ClientAuthBrowserDriver_RunRecipe env handler textStyleBold b totalStepCount
      stepCountInCurrentRecipe baseCountStep recipe =
     (case ClientAuthBrowserDriver_start env b of
        Inl err \<Rightarrow> Inl err
      | Inr b2 \<Rightarrow>
         (case ClientAuthBrowserDriver_loop handler textStyleBold totalStepCount
                 stepCountInCurrentRecipe baseCountStep recipe (Steps recipe)
                 b2 1 zeroRecipeResult [] of
            Return r b' done \<Rightarrow> Inr (r, b', done)
          | Next b' n result done \<Rightarrow> Inr (result, b', done)))"

section \<open>The steps of the OAuth2-driven recipes (lib/browser/oauth2.go)\<close>

subsection \<open>The outside of a step\<close>

text \<open>
  \<open>strings.Replace(s, old, new, -1)\<close> for a non-empty \<open>old\<close>: every occurrence, from the
  left, without overlap. The code calls it with the literals \<open>{{ token }}\<close> and \<open>{{ id }}\<close>
  only; for an empty \<open>old\<close>, which never occurs, the string is returned as it is.
\<close>

function Replace :: "string \<Rightarrow> string \<Rightarrow> string \<Rightarrow> string" where
  "Replace s old new =
     (if old = [] \<or> s = [] then s
      else if take (length old) s = old then new @ Replace (drop (length old) s) old new
      else hd s # Replace (tl s) old new)"
  by pat_completeness auto
termination
  by (relation "measure (\<lambda>(s, old, new). length s)") auto

declare Replace.simps [simp del]

text \<open>
  A request as the code builds it, and what one exchange over HTTP gives back to the
  code, in the order in which the code looks: the error of
  \<open>http.NewRequestWithContext\<close>, the error of \<open>http.DefaultClient.Do\<close>, the error of
  \<open>io.ReadAll\<close>, then the status code and the body.
\<close>

record request =
  Method :: string
  Url :: string
  Header :: "string \<rightharpoonup> string"
  Payload :: string

record http_exchange =
  new_request_error :: "string option"
  do_error :: "string option"
  read_error :: "string option"
  StatusCode :: int
  response_body :: string

text \<open>
  Modelled from the spec: the package \<open>secrets\<close> with \<open>GetOauthAccessTokenFromCache\<close> and
  \<open>SaveOauth2TokensToFile\<close> is not among the sources. The specification describes a token
  cache on disk, keyed by \<open>supplier|credentialId\<close>, read by the check of the tokens and
  written on every successful exchange. The cache is a map from keys to tokens; reading
  a key that is not there is an error; writing fails when the outside says so.
\<close>

definition GetOauthAccessTokenFromCache ::
  "string \<Rightarrow> (string \<rightharpoonup> Oauth2Tokens) \<Rightarrow> string + Oauth2Tokens" where
  "GetOauthAccessTokenFromCache pii cache =
     (case cache pii of
        None \<Rightarrow> Inl ''no oauth2 tokens in cache''
      | Some tokens \<Rightarrow> Inr tokens)"

definition SaveOauth2TokensToFile ::
  "string option \<Rightarrow> string \<Rightarrow> Oauth2Tokens \<Rightarrow> (string \<rightharpoonup> Oauth2Tokens) \<Rightarrow>
   string option \<times> (string \<rightharpoonup> Oauth2Tokens)" where
  "SaveOauth2TokensToFile write_error pii tj cache =
     (case write_error of
        Some err \<Rightarrow> (Some err, cache)
      | None \<Rightarrow> (None, cache(pii \<mapsto> tj)))"

text \<open>
  Everything a step of this driver asks of the outside: the clock (\<open>time.Now().Unix()\<close>),
  the token cache and whether writing it fails, the answer to each request, the result
  of \<open>json.Unmarshal\<close> into a token structure and into an \<open>interface{}\<close> (\<open>Inl\<close> is its
  error), \<open>filepath.Join\<close>, and, by the position \<open>n\<close> of a document in the download loop:
  the errors of \<open>os.Create\<close> and \<open>io.Copy\<close>, the answer of the archive to \<open>FileExists\<close>, and
  the errors of \<open>utils.CopyFile\<close> and of the archive's \<open>AddFile\<close>.
\<close>

record outside =
  now :: int
  token_cache :: "string \<rightharpoonup> Oauth2Tokens"
  write_error :: "string option"
  exchange :: "request \<Rightarrow> http_exchange"
  unmarshal_tokens :: "string \<Rightarrow> string + Oauth2Tokens"
  unmarshal :: "string \<Rightarrow> string + json"
  Join :: "string list \<Rightarrow> string"
  create_error :: "nat \<Rightarrow> string \<Rightarrow> string option"
  copy_error :: "nat \<Rightarrow> string option"
  FileExists :: "nat \<Rightarrow> string \<Rightarrow> bool"
  CopyFile :: "nat \<Rightarrow> string \<Rightarrow> string \<Rightarrow> string option"
  AddFile :: "nat \<Rightarrow> string \<Rightarrow> string option"

definition zeroOauth2Tokens :: Oauth2Tokens where
  "zeroOauth2Tokens = \<lparr> AccessToken = [], RefreshToken = [], CreatedAt = 0, ExpiresIn = 0 \<rparr>"

subsection \<open>Token exchange\<close>

text \<open>
  \<open>getOauth2Tokens\<close>: the tokens and the error as the Go function returns them, and the
  token cache afterwards. \<open>fmt.Errorf("...: %w", err)\<close> is the prefix followed by the text
  of \<open>err\<close>. With an error the callers never read the tokens; after a failed
  \<open>json.Unmarshal\<close> they are given as the zero value.
\<close>

definition getOauth2Tokens ::
  "outside \<Rightarrow> ClientAuthBrowserDriver \<Rightarrow> string \<Rightarrow> string \<Rightarrow>
   Oauth2Tokens \<times> string option \<times> (string \<rightharpoonup> Oauth2Tokens)" where
  "getOauth2Tokens w b payload pii =
     (let tj = zeroOauth2Tokens;
          req = \<lparr> Method = ''POST'', Url = oauth2TokenUrl b,
                  Header = [''Content-Type'' \<mapsto> ''application/json''], Payload = payload \<rparr>;
          resp = exchange w req
      in case new_request_error resp of
           Some err \<Rightarrow> (tj, Some (''failed to create request: '' @ err), token_cache w)
         | None \<Rightarrow>
            (case do_error resp of
               Some err \<Rightarrow> (tj, Some (''failed to send oauth2 token request: '' @ err), token_cache w)
             | None \<Rightarrow>
                (case read_error resp of
                   Some err \<Rightarrow>
                     (tj, Some (''error reading oauth2 token response body: '' @ err), token_cache w)
                 | None \<Rightarrow>
                    if StatusCode resp = 200 then
                      (case unmarshal_tokens w (response_body resp) of
                         Inl err \<Rightarrow> (tj, Some (''error unmarshalling JSON: '' @ err), token_cache w)
                       | Inr tj \<Rightarrow>
                          (case SaveOauth2TokensToFile (write_error w) pii tj (token_cache w) of
                             (Some err, cache) \<Rightarrow>
                               (tj, Some (''error storing Oauth2 token ti file: '' @ err), cache)
                           | (None, cache) \<Rightarrow> (tj, None, cache)))
                    else if StatusCode resp = 400 then
                      (tj, Some ''unauthorized error while trying to get oauth2 access token with refresh token'',
                       token_cache w)
                    else (tj, Some ''unknown error getting oauth2 token'', token_cache w))))"

text \<open>
  A Go \<open>int\<close> on a 64-bit platform holds its value in 64 bits, so that a sum of two of
  them wraps around: \<open>Go_int x\<close> is the value that an \<open>int\<close> has when the integer \<open>x\<close> is
  stored in it.
\<close>

definition Go_int :: "int \<Rightarrow> int" where
  "Go_int x = sint (word_of_int x :: 64 word)"

text \<open>
  \<open>validOauth2AuthToken\<close>: \<open>CreatedAt\<close> and \<open>ExpiresIn\<close> are \<open>int\<close> fields, their sum \<open>vu\<close> is an
  \<open>int\<close>, and it is compared with the clock as an \<open>int\<close>.
\<close>

definition validOauth2AuthToken :: "outside \<Rightarrow> Oauth2Tokens \<Rightarrow> bool" where
  "validOauth2AuthToken w tokens =
     (let n = Go_int (now w);
          vu = Go_int (CreatedAt tokens + ExpiresIn tokens)
      in vu > n)"

subsection \<open>The step handlers\<close>

text \<open>
  A handler returns its \<open>StepResult\<close>, the driver with the fields it has assigned, and
  the token cache afterwards.
\<close>

definition stepOauth2Setup :: "ClientAuthBrowserDriver \<Rightarrow> Step \<Rightarrow> StepResult \<times> ClientAuthBrowserDriver" where
  "stepOauth2Setup b step =
     (\<lparr> StepResult.Status = ''success'', Message = ''Successfully set up OAuth2 settings.'', Break = False \<rparr>,
      b\<lparr> oauth2AuthUrl := AuthUrl (Oauth2 step),
         oauth2TokenUrl := TokenUrl (Oauth2 step),
         oauth2RedirectUrl := RedirectUrl (Oauth2 step),
         oauth2ClientId := ClientId (Oauth2 step),
         oauth2Scope := Scope (Oauth2 step),
         oauth2PkceMethod := PkceMethod (Oauth2 step),
         oauth2PkceVerifierLength := PkceVerifierLength (Oauth2 step) \<rparr>)"

definition refresh_payload :: "ClientAuthBrowserDriver \<Rightarrow> Oauth2Tokens \<Rightarrow> string" where
  "refresh_payload b tokens =
     ''{'' @ [CHR 0x0A] @ ''\"grant_type\": \"refresh_token\",'' @ [CHR 0x0A]
     @ ''\"client_id\": \"'' @ oauth2ClientId b @ ''\",'' @ [CHR 0x0A]
     @ ''\"refresh_token\": \"'' @ RefreshToken tokens @ ''\",'' @ [CHR 0x0A]
     @ ''\"scope\": \"'' @ oauth2Scope b @ ''\"'' @ [CHR 0x0A] @ ''}''"

definition stepOauth2CheckTokens ::
  "outside \<Rightarrow> ClientAuthBrowserDriver \<Rightarrow> Recipe \<Rightarrow> Step \<Rightarrow> Credentials \<Rightarrow>
   StepResult \<times> ClientAuthBrowserDriver \<times> (string \<rightharpoonup> Oauth2Tokens)" where
  "stepOauth2CheckTokens w b recipe step creds =
     (let pii = Supplier recipe @ ''|'' @ Credentials.Id creds;
          nothing_found =
            \<lparr> StepResult.Status = ''error'',
              Message = ''No access token found. New OAuth2 login needed.'', Break = False \<rparr>
      in case GetOauthAccessTokenFromCache pii (token_cache w) of
           Inl err \<Rightarrow> (nothing_found, b, token_cache w)
         | Inr tokens \<Rightarrow>
             if validOauth2AuthToken w tokens then
               (\<lparr> StepResult.Status = ''success'',
                  Message = ''Found valid oauth2 access token in cache'', Break = False \<rparr>,
                b\<lparr> oauth2AuthToken := AccessToken tokens \<rparr>, token_cache w)
             else
               (case getOauth2Tokens w b (refresh_payload b tokens) pii of
                  (nt, None, cache) \<Rightarrow>
                    (\<lparr> StepResult.Status = ''error'',
                       Message = ''Error getting oauth2 access token with refresh token'', Break = True \<rparr>,
                     b\<lparr> oauth2AuthToken := AccessToken nt \<rparr>, cache)
                | (nt, Some err, cache) \<Rightarrow> (nothing_found, b, cache)))"


text \<open>
  What the browser and the helpers of the interactive login give back to
  \<open>stepOauth2Authenticate\<close>: the verifier and the challenge of \<open>utils.Oauth2Pkce\<close> (its
  error is only printed), the error of each of the four \<open>chromedp.Run\<close> calls, the number
  of nodes that the probe for the passcode field has found, the location the browser is
  at in the end, and the \<open>code\<close> parameter that \<open>url.Parse\<close> and \<open>Query().Get\<close> read from
  a location. The login address that the code composes is used by the browser only.
\<close>

record login =
  pkce :: "string \<times> string"
  sign_in_error :: "string option"
  passcode_probe_error :: "string option"
  faNodes :: nat
  passcode_submit_error :: "string option"
  location_error :: "string option"
  location :: string
  code_of :: "string \<Rightarrow> string"

definition code_payload :: "ClientAuthBrowserDriver \<Rightarrow> string \<Rightarrow> string \<Rightarrow> string" where
  "code_payload b verifier code =
     ''{'' @ [CHR 0x0A] @ ''\"grant_type\": \"authorization_code\",'' @ [CHR 0x0A]
     @ ''\"client_id\": \"'' @ oauth2ClientId b @ ''\",'' @ [CHR 0x0A]
     @ ''\"code_verifier\": \"'' @ verifier @ ''\",'' @ [CHR 0x0A]
     @ ''\"code\": \"'' @ code @ ''\",'' @ [CHR 0x0A]
     @ ''\"redirect_uri\": \"'' @ oauth2RedirectUrl b @ ''\"'' @ [CHR 0x0A] @ ''}''"

definition stepOauth2Authenticate ::
  "outside \<Rightarrow> login \<Rightarrow> ClientAuthBrowserDriver \<Rightarrow> Recipe \<Rightarrow> Step \<Rightarrow> Credentials \<Rightarrow>
   StepResult \<times> ClientAuthBrowserDriver \<times> (string \<rightharpoonup> Oauth2Tokens)" where
  "stepOauth2Authenticate w l b recipe step creds =
     (if length (oauth2AuthToken b) > 0 then
        (\<lparr> StepResult.Status = ''success'', Message = [], Break = False \<rparr>, b, token_cache w)
      else
        (let verifier = fst (pkce l) in
         case sign_in_error l of
           Some err \<Rightarrow>
             (\<lparr> StepResult.Status = ''error'', Message = ''error while logging in: '' @ err, Break = False \<rparr>,
              b, token_cache w)
         | None \<Rightarrow>
            (case passcode_probe_error l of
               Some err \<Rightarrow>
                 (\<lparr> StepResult.Status = ''error'', Message = ''error while logging in: '' @ err, Break = False \<rparr>,
                  b, token_cache w)
             | None \<Rightarrow>
                (case (if faNodes l > 0 then passcode_submit_error l else None) of
                   Some err \<Rightarrow>
                     (\<lparr> StepResult.Status = ''error'', Message = ''error while logging in: '' @ err,
                        Break = False \<rparr>, b, token_cache w)
                 | None \<Rightarrow>
                    (case location_error l of
                       Some err \<Rightarrow>
                         (\<lparr> StepResult.Status = ''error'', Message = ''error while logging in: '' @ err,
                            Break = False \<rparr>, b, token_cache w)
                     | None \<Rightarrow>
                        (let code = code_of l (location l);
                             payload = code_payload b verifier code;
                             pii = Supplier recipe @ ''|'' @ Credentials.Id creds
                         in case getOauth2Tokens w b payload pii of
                              (tokens, Some err, cache) \<Rightarrow>
                                (\<lparr> StepResult.Status = ''error'', Message = err, Break = False \<rparr>, b, cache)
                            | (tokens, None, cache) \<Rightarrow>
                                (\<lparr> StepResult.Status = ''success'',
                                   Message = ''Successfully retrieved OAuth2 tokens.'', Break = False \<rparr>,
                                 b\<lparr> oauth2AuthToken := AccessToken tokens \<rparr>, cache)))))))"

text \<open>
  The headers of a request: \<open>Content-Type\<close> first, then every header of the step in the
  order of \<open>range\<close>, the \<open>Authorization\<close> header with its placeholder filled in.
\<close>

definition set_headers :: "ClientAuthBrowserDriver \<Rightarrow> (string \<times> string) list \<Rightarrow> (string \<rightharpoonup> string)" where
  "set_headers b headers =
     fold (\<lambda>(n, h) header.
             header(n \<mapsto> (if n = ''Authorization''
                            then Replace h ''{{ token }}'' (oauth2AuthToken b) else h)))
          headers [''Content-Type'' \<mapsto> ''application/json'']"

text \<open>\<open>doRequest\<close> for the document at position \<open>n\<close>: the flag and the error it returns.\<close>

definition doRequest ::
  "outside \<Rightarrow> ClientAuthBrowserDriver \<Rightarrow> nat \<Rightarrow> string \<Rightarrow> string \<Rightarrow> (string \<times> string) list \<Rightarrow>
   string \<Rightarrow> bool \<times> string option" where
  "doRequest w b n url method headers filename =
     (let req = \<lparr> Method = method, Url = url, Header = set_headers b headers, Payload = [] \<rparr>;
          resp = exchange w req
      in case new_request_error resp of
           Some err \<Rightarrow> (False, Some err)
         | None \<Rightarrow>
            (case do_error resp of
               Some err \<Rightarrow> (False, Some err)
             | None \<Rightarrow>
                if StatusCode resp = 200 then
                  (case create_error w n filename of
                     Some err \<Rightarrow> (False, Some err)
                   | None \<Rightarrow> (copy_error w n = None, copy_error w n))
                else (False, None)))"

text \<open>
  The loop \<open>for _, id := range ids\<close> of \<open>stepOauth2PostAndGetItems\<close>, with its counter \<open>n\<close>.
  \<open>filenames[n]\<close> beyond the end of a non-empty \<open>filenames\<close> is a run-time panic (\<open>Inl\<close>).
\<close>

fun download_documents ::
  "outside \<Rightarrow> Step \<Rightarrow> string list \<Rightarrow> string list \<Rightarrow> nat \<Rightarrow> ClientAuthBrowserDriver \<Rightarrow>
   string + (StepResult \<times> ClientAuthBrowserDriver)" where
  "download_documents w step filenames [] n b =
     Inr (\<lparr> StepResult.Status = ''success'', Message = [], Break = False \<rparr>, b)"
| "download_documents w step filenames (ident # ids) n b =
     (let url = Replace (DocumentUrl step) ''{{ id }}'' ident in
      if length filenames > 0 \<and> length filenames \<le> n then Inl ''index out of range''
      else
        (let f = (if length filenames > 0 then Join w [downloadsDirectory b, filenames ! n]
                  else Join w [downloadsDirectory b, ident, ''.pdf'']);
             filename = (if length filenames > 0 then filenames ! n else Join w [ident, ''.pdf'']);
             downloadSuccessful =
               fst (doRequest w b n url (DocumentRequestMethod step) (DocumentRequestHeaders step) f)
         in if \<not> downloadSuccessful then
              Inr (\<lparr> StepResult.Status = ''error'', Message = ''Error while downloading invoices'',
                     Break = False \<rparr>, b)
            else if \<not> FileExists w n f then
              (let b1 = b\<lparr> newFilesCount := newFilesCount b + 1 \<rparr>;
                   dstFile = Join w [documentsDirectory b, filename]
               in case CopyFile w n f dstFile of
                    Some err \<Rightarrow>
                      Inr (\<lparr> StepResult.Status = ''error'',
                             Message = ''Error while copying file: '' @ err, Break = False \<rparr>, b1)
                  | None \<Rightarrow>
                     (case AddFile w n dstFile of
                        Some err \<Rightarrow>
                          Inr (\<lparr> StepResult.Status = ''error'',
                                 Message = ''Error while adding file '' @ dstFile
                                   @ '' to document archive: '' @ err,
                                 Break = False \<rparr>, b1)
                      | None \<Rightarrow> download_documents w step filenames ids (n + 1) b1))
            else download_documents w step filenames ids (n + 1) b))"

text \<open>
  \<open>stepOauth2PostAndGetItems\<close>. An error of \<open>json.Unmarshal\<close> is a \<open>panic\<close> (\<open>Inl\<close>).
\<close>

definition stepOauth2PostAndGetItems ::
  "outside \<Rightarrow> ClientAuthBrowserDriver \<Rightarrow> Step \<Rightarrow> string + (StepResult \<times> ClientAuthBrowserDriver)" where
  "stepOauth2PostAndGetItems w b step =
     (let payload = Body step;
          req = \<lparr> Method = ''POST'', Url = URL step, Header = set_headers b (Headers step),
                  Payload = payload \<rparr>;
          resp = exchange w req
      in case new_request_error resp of
           Some err \<Rightarrow>
             Inr (\<lparr> StepResult.Status = ''error'', Message = ''error creating post request'',
                    Break = True \<rparr>, b)
         | None \<Rightarrow>
            (case do_error resp of
               Some err \<Rightarrow>
                 Inr (\<lparr> StepResult.Status = ''error'', Message = ''error sending post request: '' @ err,
                        Break = True \<rparr>, b)
             | None \<Rightarrow>
                (case read_error resp of
                   Some err \<Rightarrow> Inr (\<lparr> StepResult.Status = ''error'', Message = [], Break = False \<rparr>, b)
                 | None \<Rightarrow>
                    if StatusCode resp = 200 then
                      (let b0 = b\<lparr> newFilesCount := 0 \<rparr> in
                       case unmarshal w (response_body resp) of
                         Inl err \<Rightarrow> Inl err
                       | Inr jsr \<Rightarrow>
                          (let ids = extractJsonValue jsr (ExtractDocumentIds step) in
                           if length ids = 0 then
                             Inr (\<lparr> StepResult.Status = ''error'', Message = ''No content ids found'',
                                    Break = True \<rparr>, b0)
                           else
                             (let filenames =
                                    (if ExtractDocumentFilenames step \<noteq> []
                                     then extractJsonValue jsr (ExtractDocumentFilenames step) else [])
                              in download_documents w step filenames ids 0 b0)))
                    else if StatusCode resp = 400 then
                      Inr (\<lparr> StepResult.Status = ''error'', Message = [], Break = False \<rparr>, b)
                    else Inr (\<lparr> StepResult.Status = ''error'', Message = [], Break = False \<rparr>, b))))"

section \<open>Steps of the browser-driven recipes (lib/browser/browser.go)\<close>

subsection \<open>The sleep step\<close>

text \<open>
  \<open>strconv.Atoi\<close> of the Go library on a 64-bit platform, which is \<open>ParseInt(s, 10, 0)\<close>:
  an optional sign, then \<open>ParseUint\<close> over the bytes from the left. A byte that is no
  digit is a syntax error with value 0; a value that leaves the range is a range error
  with the largest value of the sign, and \<open>ParseUint\<close> reports it at the digit where the
  range is left, before it looks at the bytes after it. The result is the value together
  with the error, as Go returns both. The \<open>uint64\<close> of \<open>ParseUint\<close> is an \<open>int\<close> here that
  stays between 0 and \<open>maxUint64\<close>.
\<close>

datatype NumError = ErrSyntax | ErrRange

definition isDigit :: "char \<Rightarrow> bool" where
  "isDigit c = (c \<in> set ''0123456789'')"

definition digitValue :: "char \<Rightarrow> int" where
  "digitValue c = of_char c - 48"

definition maxUint64 :: int where
  "maxUint64 = 18446744073709551615"

fun ParseUint_loop :: "string \<Rightarrow> int \<Rightarrow> int \<times> NumError option" where
  "ParseUint_loop [] n = (n, None)"
| "ParseUint_loop (c # s) n =
     (if \<not> isDigit c then (0, Some ErrSyntax)
      else if n \<ge> maxUint64 div 10 + 1 then (maxUint64, Some ErrRange)
      else if n * 10 + digitValue c > maxUint64 then (maxUint64, Some ErrRange)
      else ParseUint_loop s (n * 10 + digitValue c))"

definition ParseUint :: "string \<Rightarrow> int \<times> NumError option" where
  "ParseUint s = (if s = [] then (0, Some ErrSyntax) else ParseUint_loop s 0)"

definition ParseInt :: "string \<Rightarrow> int \<times> NumError option" where
  "ParseInt s0 =
     (if s0 = [] then (0, Some ErrSyntax)
      else
        (let neg = (hd s0 = CHR ''-'');
             s = (if hd s0 = CHR ''+'' \<or> hd s0 = CHR ''-'' then tl s0 else s0);
             un = fst (ParseUint s);
             err = snd (ParseUint s);
             cutoff = (9223372036854775808 :: int)
         in if err = Some ErrSyntax then (0, err)
            else if \<not> neg \<and> un \<ge> cutoff then (cutoff - 1, Some ErrRange)
            else if neg \<and> un > cutoff then (- cutoff, Some ErrRange)
            else (if neg then - un else un, None)))"

definition Atoi :: "string \<Rightarrow> int \<times> NumError option" where
  "Atoi s = ParseInt s"

text \<open>
  \<open>time.Duration(seconds) * time.Second\<close>: a product of two \<open>int64\<close>, which wraps around.
\<close>

definition Duration_seconds :: "int \<Rightarrow> int" where
  "Duration_seconds seconds = sint ((word_of_int seconds :: 64 word) * word_of_int Second)"

text \<open>
  \<open>chromedp.Sleep(d)\<close> waits for a timer of the duration \<open>d\<close>, and a timer whose duration
  is not positive fires at once: the time that a sleep of \<open>d\<close> takes when nothing ends it
  early.
\<close>

definition Sleep_time :: "int \<Rightarrow> int" where
  "Sleep_time d = (if d \<le> 0 then 0 else d)"

text \<open>
  \<open>stepSleep\<close>. The parameter \<open>run\<close> is \<open>chromedp.Run(ctx, chromedp.Sleep(d))\<close> as a function
  of the duration \<open>d\<close>: the error it returns, \<open>None\<close> when the sleep has run to its end
  (at once, when \<open>d\<close> is not positive). The second component of the result is the
  duration that the step has asked for.
\<close>

definition stepSleep :: "(int \<Rightarrow> string option) \<Rightarrow> Step \<Rightarrow> StepResult \<times> int" where
  "stepSleep run step =
     (let seconds = fst (Atoi (Value step));
          d = Duration_seconds seconds
      in case run d of
           Some err \<Rightarrow> (\<lparr> StepResult.Status = ''error'', Message = err, Break = False \<rparr>, d)
         | None \<Rightarrow> (\<lparr> StepResult.Status = ''success'', Message = [], Break = False \<rparr>, d))"

text \<open>
  A decimal integer as a text: an optional sign and then one digit or more.
\<close>

definition decimal_integer :: "string \<Rightarrow> bool" where
  "decimal_integer s =
     (let digits = (if s \<noteq> [] \<and> (hd s = CHR ''+'' \<or> hd s = CHR ''-'') then tl s else s)
      in digits \<noteq> [] \<and> list_all isDigit digits)"

subsection \<open>The step that downloads from all matching nodes\<close>

text \<open>
  Of a \<open>cdp.Node\<close> the step uses its \<open>FullXPath()\<close> only. The step talks to the browser
  through \<open>chromedp.Run\<close> with a list of actions, installs a listener, and uses a
  \<open>sync.WaitGroup\<close> and \<open>time.Sleep\<close>; these calls, and the calls of \<open>wg.Done()\<close> by the
  listener of the step, in the order in which they begin, are its trace.
\<close>

record Node =
  FullXPath :: string

datatype action =
    WaitReady string
  | Nodes string
  | FetchEnable
  | MouseClickNode Node
  | WaitVisible string
  | Click string

datatype call =
    Run "action list"
  | ListenTarget
  | WaitGroupAdd nat
  | WaitGroupDone
  | TimeSleep int
  | WaitGroupWait

definition Millisecond :: int where
  "Millisecond = 1000000"

text \<open>
  What the outside does to one run of the step: the error of the first \<open>chromedp.Run\<close> or
  the nodes it has found; the error of the click run for the node at position \<open>x\<close>; the
  number of download events in state completed that arrive in the sleep after the click
  run at position \<open>x\<close>; and the number of such events that are still to arrive when the
  step calls \<open>wg.Wait()\<close>. Download events are taken to arrive at these times only: none
  before the first click run of the step, and none during a click run that fails.
\<close>

record downloads =
  found :: "string + Node list"
  click_error :: "nat \<Rightarrow> Node \<Rightarrow> string option"
  completed :: "nat \<Rightarrow> nat"
  completed_waiting :: nat

text \<open>
  A step either returns, or waits forever in \<open>wg.Wait()\<close>, or the process ends in a
  \<open>panic\<close>.
\<close>

datatype 'a outcome =
    Returns 'a
  | Blocks
  | Panics string

text \<open>
  \<open>chromedp.ListenTarget(ctx, ...)\<close> adds a listener to the context of the whole recipe
  run, and nothing ever removes one: the listener of every earlier \<open>downloadAll\<close> step is
  still there. Each of these listeners calls \<open>Done()\<close> on the wait group of its own step
  for every download event in state completed. The listeners on the context are given
  here by the counters of their wait groups, oldest first. \<open>Done()\<close> takes one off the
  counter, and a counter that would become negative is a \<open>panic\<close> of the wait group
  (\<open>None\<close>), which ends the process.
\<close>

definition download_completed :: "nat list \<Rightarrow> nat list option" where
  "download_completed wgs = (if 0 \<in> set wgs then None else Some (map (\<lambda>c. c - 1) wgs))"

text \<open>
  \<open>k\<close> download events in state completed, one after the other, while the step runs: the
  wait group of the step itself is the last one, and its \<open>Done()\<close> enters the trace.
\<close>

fun downloads_completed :: "nat \<Rightarrow> nat list \<Rightarrow> call list \<Rightarrow> nat list option \<times> call list" where
  "downloads_completed 0 wgs calls = (Some wgs, calls)"
| "downloads_completed (Suc k) wgs calls =
     (case download_completed wgs of
        None \<Rightarrow> (None, calls)
      | Some wgs' \<Rightarrow> downloads_completed k wgs' (calls @ [WaitGroupDone]))"

text \<open>
  The loop \<open>for _, n := range nodes\<close> with its counter \<open>x\<close>: it stops at \<open>x >= 2\<close>, returns
  at the first click run that fails, and sleeps 1500 milliseconds after every click run
  that did not fail. The result is the error, if any, with the wait groups on the
  context, and the trace.
\<close>

fun click_nodes ::
  "downloads \<Rightarrow> Step \<Rightarrow> Node list \<Rightarrow> nat \<Rightarrow> call list \<Rightarrow> nat list \<Rightarrow>
   (string option \<times> nat list) outcome \<times> call list" where
  "click_nodes env step [] x calls wgs = (Returns (None, wgs), calls)"
| "click_nodes env step (n # nodes) x calls wgs =
     (if x \<ge> 2 then (Returns (None, wgs), calls)
      else
        (let clicked = calls @ [Run [FetchEnable, MouseClickNode n,
                                     WaitVisible (FullXPath n @ Value step),
                                     Click (FullXPath n @ Value step)]]
         in case click_error env x n of
              Some err \<Rightarrow> (Returns (Some err, wgs), clicked)
            | None \<Rightarrow>
               (case downloads_completed (completed env x) wgs
                       (clicked @ [TimeSleep (1500 * Millisecond)]) of
                  (None, slept) \<Rightarrow> (Panics ''sync: negative WaitGroup counter'', slept)
                | (Some wgs', slept) \<Rightarrow> click_nodes env step nodes (x + 1) slept wgs')))"

text \<open>
  \<open>wg.Wait()\<close> returns when the counter of the wait group of the step, the last one, is
  zero. Until then it takes the download events that are still to arrive, one after the
  other; when there is none left, the step waits forever.
\<close>

fun WaitGroup_Wait :: "nat \<Rightarrow> nat list \<Rightarrow> call list \<Rightarrow> nat list outcome \<times> call list" where
  "WaitGroup_Wait 0 wgs calls = (if last wgs = 0 then (Returns wgs, calls) else (Blocks, calls))"
| "WaitGroup_Wait (Suc k) wgs calls =
     (if last wgs = 0 then (Returns wgs, calls)
      else case download_completed wgs of
             None \<Rightarrow> (Panics ''sync: negative WaitGroup counter'', calls)
           | Some wgs' \<Rightarrow> WaitGroup_Wait k wgs' (calls @ [WaitGroupDone]))"

text \<open>
  \<open>stepDownloadAll\<close>, with the wait groups of the listeners that are on the context when
  the step begins. The step adds its own listener with a new wait group, and \<open>wg.Add(dl)\<close>
  sets the counter of that wait group to \<open>dl\<close>. A step that returns leaves its listener
  on the context.
\<close>

definition stepDownloadAll ::
  "downloads \<Rightarrow> nat list \<Rightarrow> Step \<Rightarrow> (StepResult \<times> nat list) outcome \<times> call list" where
  "stepDownloadAll env ctx step =
     (let queried = [Run [WaitReady (Selector step), Nodes (Selector step)]] in
      case found env of
        Inl err \<Rightarrow>
          (Returns (\<lparr> StepResult.Status = ''error'', Message = err, Break = False \<rparr>, ctx), queried)
      | Inr nodes \<Rightarrow>
         (let dl = (if length nodes > 2 then 2 else length nodes);
              prepared = queried @ [ListenTarget, WaitGroupAdd dl]
          in case click_nodes env step nodes 0 prepared (ctx @ [dl]) of
               (Returns (Some err, wgs), calls) \<Rightarrow>
                 (Returns (\<lparr> StepResult.Status = ''error'', Message = err, Break = False \<rparr>, wgs), calls)
             | (Returns (None, wgs), calls) \<Rightarrow>
                 (case WaitGroup_Wait (completed_waiting env) wgs (calls @ [WaitGroupWait]) of
                    (Returns wgs', waited) \<Rightarrow>
                      (Returns (\<lparr> StepResult.Status = ''success'', Message = [], Break = False \<rparr>, wgs'),
                       waited)
                  | (Blocks, waited) \<Rightarrow> (Blocks, waited)
                  | (Panics msg, waited) \<Rightarrow> (Panics msg, waited))
             | (Blocks, calls) \<Rightarrow> (Blocks, calls)
             | (Panics msg, calls) \<Rightarrow> (Panics msg, calls)))"


section \<open>Concrete recipes and handler runs\<close>

text \<open>
  Small inputs on which the definitions above are evaluated further down: one supplier,
  steps that differ in action and description, a start of the browser without error,
  and handlers that follow a script: the \<open>n\<close>-th step of the run behaves as the \<open>n\<close>-th entry
  of the script says (when and what it sends, and which value it leaves in the counter
  of new files).
\<close>

definition example_step :: "string \<Rightarrow> string \<Rightarrow> Step" where
  "example_step action description =
     \<lparr> Action = action, Description = description, Selector = [], Value = [], URL = [], Body = [],
       Headers = [],
       Oauth2 = \<lparr> AuthUrl = [], TokenUrl = [], RedirectUrl = [], ClientId = [], Scope = [],
                  PkceMethod = [], PkceVerifierLength = 0 \<rparr>,
       ExtractDocumentIds = [], ExtractDocumentFilenames = [], DocumentUrl = [],
       DocumentRequestMethod = [], DocumentRequestHeaders = [] \<rparr>"

definition example_recipe :: "Step list \<Rightarrow> Recipe" where
  "example_recipe steps = \<lparr> Provider = ''acme'', Supplier = ''acme'', Version = ''1.0'', Steps = steps \<rparr>"

definition example_credentials :: Credentials where
  "example_credentials = \<lparr> Id = ''c1'', Username = ''user'', Password = ''pass'', Totp = ''000000'' \<rparr>"

definition example_startup :: startup where
  "example_startup =
     \<lparr> new_context = None, version_probe = Inr ''129.0 '',
       init_directories = (''/staging'', ''/documents'', None), download_behavior = None \<rparr>"

definition succeeded :: StepResult where
  "succeeded = \<lparr> StepResult.Status = ''success'', Message = [], Break = False \<rparr>"

definition failed_soft :: StepResult where
  "failed_soft = \<lparr> StepResult.Status = ''error'', Message = ''no token'', Break = False \<rparr>"

definition failed_hard :: StepResult where
  "failed_hard = \<lparr> StepResult.Status = ''error'', Message = ''no ids'', Break = True \<rparr>"

definition BrowserDriver_scripted ::
  "((nat \<times> StepResult) option \<times> int) list \<Rightarrow> int \<Rightarrow> BrowserDriver \<Rightarrow> Step \<Rightarrow> BrowserDriver handler_run" where
  "BrowserDriver_scripted script n b step =
     \<lparr> sends = fst (script ! nat (n - 1)),
       driver_then = b\<lparr> BrowserDriver.newFilesCount := snd (script ! nat (n - 1)) \<rparr> \<rparr>"

definition ClientAuthBrowserDriver_scripted ::
  "((nat \<times> StepResult) option \<times> int) list \<Rightarrow> int \<Rightarrow> ClientAuthBrowserDriver \<Rightarrow> Step \<Rightarrow>
   ClientAuthBrowserDriver handler_run" where
  "ClientAuthBrowserDriver_scripted script n b step =
     \<lparr> sends = fst (script ! nat (n - 1)),
       driver_then = b\<lparr> newFilesCount := snd (script ! nat (n - 1)) \<rparr> \<rparr>"

definition two_clicks :: Recipe where
  "two_clicks = example_recipe [example_step ''click'' ''first'', example_step ''click'' ''second'']"

definition check_then_authenticate :: Recipe where
  "check_then_authenticate =
     example_recipe [example_step ''oauth2-check-tokens'' ''first'',
                     example_step ''oauth2-authenticate'' ''second'']"

definition started_BrowserDriver :: BrowserDriver where
  "started_BrowserDriver =
     \<lparr> BrowserDriver.credentials = example_credentials, buchhalterDirectory = ''/home'',
       ChromeVersion = ''129.0'', downloadsDirectory = ''/staging'',
       documentsDirectory = ''/documents'', recipeTimeout = 60000000000, newFilesCount = 0 \<rparr>"

definition started_ClientAuthBrowserDriver :: ClientAuthBrowserDriver where
  "started_ClientAuthBrowserDriver =
     \<lparr> credentials = example_credentials, buchhalterConfigDirectory = ''/config'',
       buchhalterDocumentsDirectory = ''/home'', ChromeVersion = ''129.0'',
       downloadsDirectory = ''/staging'', documentsDirectory = ''/documents'',
       recipeTimeout = 120000000000, newFilesCount = 0, oauth2AuthToken = [], oauth2AuthUrl = [],
       oauth2TokenUrl = [], oauth2RedirectUrl = [], oauth2ClientId = [], oauth2Scope = [],
       oauth2PkceMethod = [], oauth2PkceVerifierLength = 0 \<rparr>"

text \<open>
  An outside for the steps of the OAuth2-driven recipes: the clock, the token cache and
  the status code of every answer are arguments; every answer has the same body, which
  unmarshals to the tokens \<open>fresh_tokens\<close> and to the JSON value given as argument; no
  file operation fails and the archive knows no file.
\<close>

definition cached_tokens :: Oauth2Tokens where
  "cached_tokens = \<lparr> AccessToken = ''old-access'', RefreshToken = ''old-refresh'',
                      CreatedAt = 1000, ExpiresIn = 50 \<rparr>"

definition overflowing_tokens :: Oauth2Tokens where
  "overflowing_tokens = \<lparr> AccessToken = ''old-access'', RefreshToken = ''old-refresh'',
                           CreatedAt = 9223372036854775807, ExpiresIn = 1 \<rparr>"

definition fresh_tokens :: Oauth2Tokens where
  "fresh_tokens = \<lparr> AccessToken = ''new-access'', RefreshToken = ''new-refresh'',
                     CreatedAt = 1051, ExpiresIn = 3600 \<rparr>"

definition example_outside :: "int \<Rightarrow> (string \<rightharpoonup> Oauth2Tokens) \<Rightarrow> int \<Rightarrow> json \<Rightarrow> outside" where
  "example_outside time cache status parsed =
     \<lparr> now = time, token_cache = cache, write_error = None,
       exchange = (\<lambda>req. \<lparr> new_request_error = None, do_error = None, read_error = None,
                            StatusCode = status, response_body = ''{}'' \<rparr>),
       unmarshal_tokens = (\<lambda>body. Inr fresh_tokens),
       unmarshal = (\<lambda>body. Inr parsed),
       Join = (\<lambda>parts. concat (map (\<lambda>p. CHR ''/'' # p) parts)),
       create_error = (\<lambda>n name. None), copy_error = (\<lambda>n. None),
       FileExists = (\<lambda>n name. False), CopyFile = (\<lambda>n src dst. None), AddFile = (\<lambda>n name. None) \<rparr>"

definition items_step :: Step where
  "items_step =
     (example_step ''oauth2-post-and-get-items'' ''items'')
       \<lparr> URL := ''https://acme.example/api/documents'',
         Body := ''{}'',
         Headers := [(''Authorization'', ''Bearer {{ token }}'')],
         ExtractDocumentIds := ''items.id'',
         DocumentUrl := ''https://acme.example/api/documents/{{ id }}'',
         DocumentRequestMethod := ''GET'' \<rparr>"

definition items_recipe :: Recipe where
  "items_recipe = example_recipe [items_step, example_step ''oauth2-authenticate'' ''second'']"

text \<open>
  Handlers that run the code of a step against a given outside and send the result one
  microsecond after the step began. The handler of the step that fetches the items
  describes the runs in which the step returns (\<open>Inr\<close>): a \<open>panic\<close> of the step ends the Go
  process, and then there is no handler left whose run could be described.
\<close>

definition check_tokens_handler ::
  "outside \<Rightarrow> Recipe \<Rightarrow> int \<Rightarrow> ClientAuthBrowserDriver \<Rightarrow> Step \<Rightarrow> ClientAuthBrowserDriver handler_run" where
  "check_tokens_handler w recipe n b step =
     \<lparr> sends = Some (1000, fst (stepOauth2CheckTokens w b recipe step (credentials b))),
       driver_then = fst (snd (stepOauth2CheckTokens w b recipe step (credentials b))) \<rparr>"

definition post_items_handler ::
  "outside \<Rightarrow> int \<Rightarrow> ClientAuthBrowserDriver \<Rightarrow> Step \<Rightarrow> ClientAuthBrowserDriver handler_run" where
  "post_items_handler w n b step =
     \<lparr> sends = Some (1000, fst (projr (stepOauth2PostAndGetItems w b step))),
       driver_then = snd (projr (stepOauth2PostAndGetItems w b step)) \<rparr>"

definition sleep_step :: "string \<Rightarrow> Step" where
  "sleep_step v = (example_step ''sleep'' ''nap'')\<lparr> Value := v \<rparr>"

definition five_nodes :: "Node list" where
  "five_nodes = map (\<lambda>p. \<lparr> FullXPath = p \<rparr>) [''/a[1]'', ''/a[2]'', ''/a[3]'', ''/a[4]'', ''/a[5]'']"

definition download_step :: Step where
  "download_step =
     (example_step ''downloadAll'' ''invoices'')\<lparr> Selector := ''a.invoice'', Value := ''/span'' \<rparr>"

section \<open>Properties of the path extractor\<close>

lemma stringItems_filter: "stringItems v = map theString (filter isString v)"
  by (induction v rule: stringItems.induct) auto

lemma extractJsonRecursive_refines: "extractJsonRecursive data keys = extract_spec data keys"
proof (induction data keys rule: extract_spec.induct)
  case (3 fields key rest)
  show ?case
  proof (cases "map_of fields key")
    case None
    then have absent: "key \<notin> fst ` set fields"
      by (simp add: map_of_eq_None_iff)
    have "concat (map (\<lambda>(k, val). extractJsonRecursive val (key # rest)) fields)
        = concat (map (\<lambda>val. extract_spec val (key # rest)) (map snd fields))"
      using 3(2)[OF absent]
      by (auto simp: comp_def case_prod_beta intro!: arg_cong[where f = concat])
    then show ?thesis
      using None absent by (simp add: extractJsonRecursive.simps[of "JObject fields"])
  next
    case (Some val)
    then have present: "key \<in> fst ` set fields"
      by (metis domI dom_map_of_conv_image_fst)
    show ?thesis
      using Some present 3(1)[OF present]
      by (simp add: extractJsonRecursive.simps[of "JObject fields"])
  qed
next
  case (4 items key rest)
  then show ?case
    by (simp add: extractJsonRecursive.simps[of "JArray items"] cong: map_cong)
qed (simp_all add: extractJsonRecursive.simps stringItems_filter)

text \<open>
  Claim C3. For every parsed JSON value and every dot-separated path, the extractor of
  the code computes what the recursion of the specification computes (\<open>extract_spec\<close>:
  at a mapping descend into the value of the current key when it is present, otherwise
  search every value with the same keys; at a sequence search every element with the
  same keys; with the keys used up a string gives itself, a sequence gives its string
  elements, anything else gives nothing). The four examples of the specification for
  the path \<open>a.b\<close> come out as \<open>[x]\<close>, \<open>[y]\<close>, \<open>[x, y]\<close> and \<open>[x, y]\<close>.
\<close>

theorem extractJsonValue_follows_spec:
  "extractJsonRecursive data keys = extract_spec data keys
   \<and> extractJsonValue data path = extract_spec data (Split path CHR ''.'')
   \<and> extractJsonValue (JObject [(''a'', JObject [(''b'', JString ''x'')])]) ''a.b'' = [''x'']
   \<and> extractJsonValue (JObject [(''a'', JObject [(''c'', JObject [(''b'', JString ''y'')])])]) ''a.b''
       = [''y'']
   \<and> extractJsonValue
         (JObject [(''a'', JArray [JObject [(''b'', JString ''x'')], JObject [(''b'', JString ''y'')]])])
         ''a.b'' = [''x'', ''y'']
   \<and> extractJsonValue (JObject [(''a'', JObject [(''b'', JArray [JString ''x'', JString ''y''])])]) ''a.b''
       = [''x'', ''y'']"
  by (simp add: extractJsonRecursive_refines extractJsonValue_def)

theorem extractJsonValue_follows_spec_witness:
  "extractJsonValue (JObject [(''data'', JArray [JObject [(''id'', JString ''7''), (''n'', JNumber ''1'')],
                                                 JObject [(''meta'', JObject [(''id'', JString ''8'')])],
                                                 JString ''9''])])
                    ''data.id'' = [''7'', ''8'']"
  using extractJsonValue_follows_spec
          [of "JObject [(''data'', JArray [JObject [(''id'', JString ''7''), (''n'', JNumber ''1'')],
                                           JObject [(''meta'', JObject [(''id'', JString ''8'')])],
                                           JString ''9''])]"
              "[]" "''data.id''"]
  by simp
section \<open>Properties of the two dispatchers\<close>

lemma BrowserDriver_loop_append:
  "BrowserDriver_loop h bold tsc scs bcs recipe (xs @ ys) b n r d =
     (case BrowserDriver_loop h bold tsc scs bcs recipe xs b n r d of
        Return r' b' d' \<Rightarrow> Return r' b' d'
      | Next b' n' r' d' \<Rightarrow> BrowserDriver_loop h bold tsc scs bcs recipe ys b' n' r' d')"
  by (induction xs arbitrary: b n r d) (auto split: flow.splits)

lemma ClientAuthBrowserDriver_loop_append:
  "ClientAuthBrowserDriver_loop h bold tsc scs bcs recipe (xs @ ys) b n r d =
     (case ClientAuthBrowserDriver_loop h bold tsc scs bcs recipe xs b n r d of
        Return r' b' d' \<Rightarrow> Return r' b' d'
      | Next b' n' r' d' \<Rightarrow> ClientAuthBrowserDriver_loop h bold tsc scs bcs recipe ys b' n' r' d')"
  by (induction xs arbitrary: b n r d) (auto split: flow.splits)

lemma BrowserDriver_iteration_Next:
  "BrowserDriver_iteration h bold tsc scs bcs recipe step b n r d = Next b' n' r' d' \<Longrightarrow>
   n' = n + 1 \<and> RecipeResult.Status r' = ''success''
   \<and> NewFilesCount r' = BrowserDriver.newFilesCount b'
   \<and> StatusText r' = Provider recipe @ '': '' @ newDocumentsText (BrowserDriver.newFilesCount b')"
  by (auto simp: BrowserDriver_iteration_def Let_def split: option.splits if_splits)

lemma ClientAuthBrowserDriver_iteration_Next:
  "ClientAuthBrowserDriver_iteration h bold tsc scs bcs recipe step b n r d = Next b' n' r' d' \<Longrightarrow>
   n' = n + 1 \<and> 
   (RecipeResult.Status r' = ''success'' \<longrightarrow>
    NewFilesCount r' = newFilesCount b'
   \<and> StatusText r' = Supplier recipe @ '': '' @ newDocumentsText (newFilesCount b'))"
  by (auto simp: ClientAuthBrowserDriver_iteration_def Let_def split: option.splits if_splits)

lemma BrowserDriver_loop_Next:
  "BrowserDriver_loop h bold tsc scs bcs recipe steps b n r d = Next b' n' r' d' \<Longrightarrow>
   n' = n + int (length steps)
   \<and> (steps \<noteq> [] \<longrightarrow> RecipeResult.Status r' = ''success''
        \<and> NewFilesCount r' = BrowserDriver.newFilesCount b'
        \<and> StatusText r' = Provider recipe @ '': '' @ newDocumentsText (BrowserDriver.newFilesCount b'))"
proof (induction steps arbitrary: b n r d)
  case Nil
  then show ?case by simp
next
  case (Cons step steps)
  from Cons.prems obtain b1 n1 r1 d1
    where first: "BrowserDriver_iteration h bold tsc scs bcs recipe step b n r d = Next b1 n1 r1 d1"
      and rest: "BrowserDriver_loop h bold tsc scs bcs recipe steps b1 n1 r1 d1 = Next b' n' r' d'"
    by (auto split: flow.splits)
  note one = BrowserDriver_iteration_Next[OF first]
  show ?case
  proof (cases steps)
    case Nil
    with rest one show ?thesis by simp
  next
    case (Cons s ss)
    with Cons.IH[OF rest] one show ?thesis by simp
  qed
qed

lemma ClientAuthBrowserDriver_loop_Next:
  "ClientAuthBrowserDriver_loop h bold tsc scs bcs recipe steps b n r d = Next b' n' r' d' \<Longrightarrow>
   n' = n + int (length steps)
   \<and> (steps \<noteq> [] \<longrightarrow> RecipeResult.Status r' = ''success'' \<longrightarrow>
        NewFilesCount r' = newFilesCount b'
        \<and> StatusText r' = Supplier recipe @ '': '' @ newDocumentsText (newFilesCount b'))"
proof (induction steps arbitrary: b n r d)
  case Nil
  then show ?case by simp
next
  case (Cons step steps)
  from Cons.prems obtain b1 n1 r1 d1
    where first: "ClientAuthBrowserDriver_iteration h bold tsc scs bcs recipe step b n r d = Next b1 n1 r1 d1"
      and rest: "ClientAuthBrowserDriver_loop h bold tsc scs bcs recipe steps b1 n1 r1 d1 = Next b' n' r' d'"
    by (auto split: flow.splits)
  note one = ClientAuthBrowserDriver_iteration_Next[OF first]
  show ?case
  proof (cases steps)
    case Nil
    with rest one show ?thesis by simp
  next
    case (Cons s ss)
    with Cons.IH[OF rest] one show ?thesis by simp
  qed
qed

lemma BrowserDriver_iteration_Return:
  "BrowserDriver_iteration h bold tsc scs bcs recipe step b n r d = Return r' b' d' \<Longrightarrow>
   RecipeResult.Status r' = ''error''"
  by (auto simp: BrowserDriver_iteration_def Let_def split: option.splits if_splits)

lemma ClientAuthBrowserDriver_iteration_Return:
  "ClientAuthBrowserDriver_iteration h bold tsc scs bcs recipe step b n r d = Return r' b' d' \<Longrightarrow>
   RecipeResult.Status r' = ''error''"
  by (auto simp: ClientAuthBrowserDriver_iteration_def Let_def split: option.splits if_splits)

lemma BrowserDriver_loop_Return:
  "BrowserDriver_loop h bold tsc scs bcs recipe steps b n r d = Return r' b' d' \<Longrightarrow>
   RecipeResult.Status r' = ''error''"
  by (induction steps arbitrary: b n r d)
     (auto split: flow.splits dest: BrowserDriver_iteration_Return)

lemma ClientAuthBrowserDriver_loop_Return:
  "ClientAuthBrowserDriver_loop h bold tsc scs bcs recipe steps b n r d = Return r' b' d' \<Longrightarrow>
   RecipeResult.Status r' = ''error''"
  by (induction steps arbitrary: b n r d)
     (auto split: flow.splits dest: ClientAuthBrowserDriver_iteration_Return)

lemma newDocumentsText_cases:
  "newDocumentsText count =
     (if count = 0 then ''No new documents''
      else if count = 1 then ''One new document''
      else Itoa count @ '' new documents'')"
  by (simp add: newDocumentsText_def)


lemma BrowserDriver_iteration_result_overwritten:
  "BrowserDriver_iteration h bold tsc scs bcs recipe step b n r d
     = BrowserDriver_iteration h bold tsc scs bcs recipe step b n r0 d"
  by (simp add: BrowserDriver_iteration_def)

lemma ClientAuthBrowserDriver_iteration_result_overwritten:
  "ClientAuthBrowserDriver_iteration h bold tsc scs bcs recipe step b n r d
     = ClientAuthBrowserDriver_iteration h bold tsc scs bcs recipe step b n r0 d"
  by (simp add: ClientAuthBrowserDriver_iteration_def)

lemma BrowserDriver_RunRecipe_at:
  assumes "Steps recipe = pre @ step # post"
    and "BrowserDriver_start env b0 = Inr b1"
    and "BrowserDriver_loop h bold tsc scs bcs recipe pre b1 1 zeroRecipeResult [] = Next b n r d"
  shows "BrowserDriver_RunRecipe env h bold b0 tsc scs bcs recipe =
           (case (case BrowserDriver_iteration h bold tsc scs bcs recipe step b n r d of
                    Return r' b' d' \<Rightarrow> Return r' b' d'
                  | Next b' n' r' d' \<Rightarrow> BrowserDriver_loop h bold tsc scs bcs recipe post b' n' r' d') of
              Return r' b' d' \<Rightarrow> Inr (r', b', d')
            | Next b' n' r' d' \<Rightarrow>
                Inr (r', b', d' @ [TruncateDirectory (BrowserDriver.downloadsDirectory b')]))"
  using assms by (simp add: BrowserDriver_RunRecipe_def BrowserDriver_loop_append)

lemma ClientAuthBrowserDriver_RunRecipe_at:
  assumes "Steps recipe = pre @ step # post"
    and "ClientAuthBrowserDriver_start env b0 = Inr b1"
    and "ClientAuthBrowserDriver_loop h bold tsc scs bcs recipe pre b1 1 zeroRecipeResult [] = Next b n r d"
  shows "ClientAuthBrowserDriver_RunRecipe env h bold b0 tsc scs bcs recipe =
           (case (case ClientAuthBrowserDriver_iteration h bold tsc scs bcs recipe step b n r d of
                    Return r' b' d' \<Rightarrow> Return r' b' d'
                  | Next b' n' r' d' \<Rightarrow> ClientAuthBrowserDriver_loop h bold tsc scs bcs recipe post b' n' r' d') of
              Return r' b' d' \<Rightarrow> Inr (r', b', d')
            | Next b' n' r' d' \<Rightarrow> Inr (r', b', d'))"
  using assms by (simp add: ClientAuthBrowserDriver_RunRecipe_def ClientAuthBrowserDriver_loop_append)


lemma ClientAuthBrowserDriver_loop_result_overwritten:
  "post \<noteq> [] \<Longrightarrow>
   ClientAuthBrowserDriver_loop h bold tsc scs bcs recipe post b n r d
     = ClientAuthBrowserDriver_loop h bold tsc scs bcs recipe post b n r0 d"
  by (cases post)
     (simp_all add: ClientAuthBrowserDriver_iteration_result_overwritten[of _ _ _ _ _ _ _ _ _ r _ r0])

lemma ClientAuthBrowserDriver_error_at:
  assumes steps: "Steps recipe = pre @ step # post"
    and start: "ClientAuthBrowserDriver_start env c0 = Inr c1"
    and before: "ClientAuthBrowserDriver_loop handler' textStyleBold tsc scs bcs recipe pre c1 1
                   zeroRecipeResult [] = Next c n result done"
    and received: "select_result (recipeTimeout c) (ClientAuthBrowserDriver_go handler' n c step) = Some lsr"
    and failed: "StepResult.Status lsr \<noteq> ''success''"
  shows "let c' = driver_then (ClientAuthBrowserDriver_go handler' n c step);
             failed = \<lparr> RecipeResult.Status = ''error'',
                        StatusText = Supplier recipe @ '' aborted with error.'',
                        StatusTextFormatted = ''x '' @ textStyleBold (Supplier recipe) @ '' aborted with error.'',
                        LastStepId = Supplier recipe @ ''-'' @ Version recipe @ ''-'' @ Itoa n @ ''-'' @ Action step,
                        LastStepDescription = Description step,
                        LastErrorMessage = Message lsr,
                        NewFilesCount = newFilesCount c' \<rparr>;
             title = Send (ViewMsgStatusAndDescriptionUpdate
                       (''Downloading invoices from '' @ Supplier recipe @ '' ('' @ Itoa n @ ''/''
                          @ Itoa scs @ ''):'') (Description step));
             progress = Send (ViewMsgProgressUpdate (Quo (Add (Float64 bcs) (Float64 n)) (Float64 tsc)))
         in n = 1 + int (length pre)
          \<and> (Break lsr \<longrightarrow>
               ClientAuthBrowserDriver_RunRecipe env handler' textStyleBold c0 tsc scs bcs recipe
                 = Inr (failed, c', done @ [title]))
          \<and> (\<not> Break lsr \<longrightarrow>
               ClientAuthBrowserDriver_RunRecipe env handler' textStyleBold c0 tsc scs bcs recipe
                 = (case ClientAuthBrowserDriver_loop handler' textStyleBold tsc scs bcs recipe post
                           c' (n + 1) failed (done @ [title, progress]) of
                      Return r' b' d' \<Rightarrow> Inr (r', b', d')
                    | Next b' n' r' d' \<Rightarrow> Inr (r', b', d')))
          \<and> (\<not> Break lsr \<and> post \<noteq> [] \<longrightarrow>
               ClientAuthBrowserDriver_loop handler' textStyleBold tsc scs bcs recipe post
                   c' (n + 1) failed (done @ [title, progress])
                 = ClientAuthBrowserDriver_loop handler' textStyleBold tsc scs bcs recipe post
                     c' (n + 1) zeroRecipeResult (done @ [title, progress]))"
proof -
  note at = ClientAuthBrowserDriver_RunRecipe_at[OF steps start before]
  have idx: "n = 1 + int (length pre)"
    using ClientAuthBrowserDriver_loop_Next[OF before] by simp
  show ?thesis
    unfolding Let_def
    apply (intro conjI impI)
    subgoal by (rule idx)
    subgoal using received failed
      by (simp add: at ClientAuthBrowserDriver_iteration_def ClientAuthBrowserDriver_LastStepId_def Let_def)
    subgoal using received failed
      by (simp add: at ClientAuthBrowserDriver_iteration_def ClientAuthBrowserDriver_LastStepId_def Let_def)
    subgoal by (elim conjE) (rule ClientAuthBrowserDriver_loop_result_overwritten)
    done
qed

lemma BrowserDriver_error_at:
  assumes steps: "Steps recipe = pre @ step # post"
    and start: "BrowserDriver_start env b0 = Inr b1"
    and before: "BrowserDriver_loop handler textStyleBold tsc scs bcs recipe pre b1 1 zeroRecipeResult []
        = Next b m result done"
    and received: "select_result (BrowserDriver.recipeTimeout b) (BrowserDriver_go handler m b step) = Some lsr"
    and failed: "StepResult.Status lsr \<noteq> ''success''"
  shows "let b' = driver_then (BrowserDriver_go handler m b step);
             failed = \<lparr> RecipeResult.Status = ''error'',
                        StatusText = Provider recipe @ ''aborted with error.'',
                        StatusTextFormatted = ''x '' @ textStyleBold (Provider recipe) @ '' aborted with error.'',
                        LastStepId = Provider recipe @ ''-'' @ Version recipe @ ''-'' @ Itoa m @ ''-'' @ Action step,
                        LastStepDescription = Description step,
                        LastErrorMessage = Message lsr,
                        NewFilesCount = BrowserDriver.newFilesCount b' \<rparr>;
             title = Send (ResultTitleAndDescriptionUpdate
                       (''Downloading invoices from '' @ Provider recipe @ '' ('' @ Itoa m @ ''/''
                          @ Itoa scs @ ''):'') (Description step))
         in m = 1 + int (length pre)
          \<and> BrowserDriver_RunRecipe env handler textStyleBold b0 tsc scs bcs recipe
              = Inr (failed, b', done @ [title, TruncateDirectory (BrowserDriver.downloadsDirectory b')])"
proof -
  note at = BrowserDriver_RunRecipe_at[OF steps start before]
  have idx: "m = 1 + int (length pre)"
    using BrowserDriver_loop_Next[OF before] by simp
  show ?thesis
    using received failed
    by (simp add: idx at BrowserDriver_iteration_def BrowserDriver_LastStepId_def Let_def)
qed

text \<open>
  Claim C1, as the code has it. When the handler of a step delivers in time a result
  whose status is not \<open>success\<close>, both dispatchers build an \<open>error\<close> result that carries the
  message of the step and the identifier \<open>owner-version-n-action\<close>, \<open>n\<close> being the position
  of the step counted from 1. The OAuth2-driven dispatcher returns at once exactly when
  the break flag is set: then the run ends with that result and with no effect after
  the title message of the step; when the flag is not set, the progress message is
  sent and the run is the run of the remaining steps, which overwrite the recorded
  result as soon as there is one. The browser-driven dispatcher never reads the break
  flag: it empties the staging directory and returns on every error.
\<close>

theorem error_result_halts_run:
  "(Steps recipe = pre @ step # post
    \<and> ClientAuthBrowserDriver_start env c0 = Inr c1
    \<and> ClientAuthBrowserDriver_loop handler' textStyleBold tsc scs bcs recipe pre c1 1 zeroRecipeResult []
        = Next c n result done
    \<and> select_result (recipeTimeout c) (ClientAuthBrowserDriver_go handler' n c step) = Some lsr
    \<and> StepResult.Status lsr \<noteq> ''success''
    \<longrightarrow> (let c' = driver_then (ClientAuthBrowserDriver_go handler' n c step);
             failed = \<lparr> RecipeResult.Status = ''error'',
                        StatusText = Supplier recipe @ '' aborted with error.'',
                        StatusTextFormatted = ''x '' @ textStyleBold (Supplier recipe) @ '' aborted with error.'',
                        LastStepId = Supplier recipe @ ''-'' @ Version recipe @ ''-'' @ Itoa n @ ''-'' @ Action step,
                        LastStepDescription = Description step,
                        LastErrorMessage = Message lsr,
                        NewFilesCount = newFilesCount c' \<rparr>;
             title = Send (ViewMsgStatusAndDescriptionUpdate
                       (''Downloading invoices from '' @ Supplier recipe @ '' ('' @ Itoa n @ ''/''
                          @ Itoa scs @ ''):'') (Description step));
             progress = Send (ViewMsgProgressUpdate (Quo (Add (Float64 bcs) (Float64 n)) (Float64 tsc)))
         in n = 1 + int (length pre)
          \<and> (Break lsr \<longrightarrow>
               ClientAuthBrowserDriver_RunRecipe env handler' textStyleBold c0 tsc scs bcs recipe
                 = Inr (failed, c', done @ [title]))
          \<and> (\<not> Break lsr \<longrightarrow>
               ClientAuthBrowserDriver_RunRecipe env handler' textStyleBold c0 tsc scs bcs recipe
                 = (case ClientAuthBrowserDriver_loop handler' textStyleBold tsc scs bcs recipe post
                           c' (n + 1) failed (done @ [title, progress]) of
                      Return r' b' d' \<Rightarrow> Inr (r', b', d')
                    | Next b' n' r' d' \<Rightarrow> Inr (r', b', d')))
          \<and> (\<not> Break lsr \<and> post \<noteq> [] \<longrightarrow>
               ClientAuthBrowserDriver_loop handler' textStyleBold tsc scs bcs recipe post
                   c' (n + 1) failed (done @ [title, progress])
                 = ClientAuthBrowserDriver_loop handler' textStyleBold tsc scs bcs recipe post
                     c' (n + 1) zeroRecipeResult (done @ [title, progress]))))
   \<and> (Steps recipe = pre @ step # post
    \<and> BrowserDriver_start env b0 = Inr b1
    \<and> BrowserDriver_loop handler textStyleBold tsc scs bcs recipe pre b1 1 zeroRecipeResult []
        = Next b m result done
    \<and> select_result (BrowserDriver.recipeTimeout b) (BrowserDriver_go handler m b step) = Some lsr
    \<and> StepResult.Status lsr \<noteq> ''success''
    \<longrightarrow> (let b' = driver_then (BrowserDriver_go handler m b step);
             failed = \<lparr> RecipeResult.Status = ''error'',
                        StatusText = Provider recipe @ ''aborted with error.'',
                        StatusTextFormatted = ''x '' @ textStyleBold (Provider recipe) @ '' aborted with error.'',
                        LastStepId = Provider recipe @ ''-'' @ Version recipe @ ''-'' @ Itoa m @ ''-'' @ Action step,
                        LastStepDescription = Description step,
                        LastErrorMessage = Message lsr,
                        NewFilesCount = BrowserDriver.newFilesCount b' \<rparr>;
             title = Send (ResultTitleAndDescriptionUpdate
                       (''Downloading invoices from '' @ Provider recipe @ '' ('' @ Itoa m @ ''/''
                          @ Itoa scs @ ''):'') (Description step))
         in m = 1 + int (length pre)
          \<and> BrowserDriver_RunRecipe env handler textStyleBold b0 tsc scs bcs recipe
              = Inr (failed, b', done @ [title, TruncateDirectory (BrowserDriver.downloadsDirectory b')])))"
  by (intro conjI impI; elim conjE)
     (rule ClientAuthBrowserDriver_error_at BrowserDriver_error_at; assumption)+

theorem error_result_halts_run_witness:
  "ClientAuthBrowserDriver_RunRecipe example_startup
        (ClientAuthBrowserDriver_scripted [(Some (1000, failed_soft), 0), (Some (1000, succeeded), 2)]) id
        (NewClientAuthBrowserDriver example_credentials ''/config'' ''/home'') 4 2 2 check_then_authenticate
     = Inr (\<lparr> RecipeResult.Status = ''success'', StatusText = ''acme: 2 new documents'',
               StatusTextFormatted = ''- acme: 2 new documents'',
               LastStepId = ''acme-1.0-2-oauth2-authenticate'', LastStepDescription = ''second'',
               LastErrorMessage = [], NewFilesCount = 2 \<rparr>,
            started_ClientAuthBrowserDriver\<lparr> newFilesCount := 2 \<rparr>,
            [Send (ViewMsgStatusAndDescriptionUpdate ''Downloading invoices from acme (1/2):'' ''first''),
             Send (ViewMsgProgressUpdate (Quo (Add (Float64 2) (Float64 1)) (Float64 4))),
             Send (ViewMsgStatusAndDescriptionUpdate ''Downloading invoices from acme (2/2):'' ''second''),
             Send (ViewMsgProgressUpdate (Quo (Add (Float64 2) (Float64 2)) (Float64 4)))])
   \<and> ClientAuthBrowserDriver_RunRecipe example_startup
        (ClientAuthBrowserDriver_scripted [(Some (1000, failed_hard), 0), (Some (1000, succeeded), 2)]) id
        (NewClientAuthBrowserDriver example_credentials ''/config'' ''/home'') 4 2 2 check_then_authenticate
     = Inr (\<lparr> RecipeResult.Status = ''error'', StatusText = ''acme aborted with error.'',
               StatusTextFormatted = ''x acme aborted with error.'',
               LastStepId = ''acme-1.0-1-oauth2-check-tokens'', LastStepDescription = ''first'',
               LastErrorMessage = ''no ids'', NewFilesCount = 0 \<rparr>,
            started_ClientAuthBrowserDriver,
            [Send (ViewMsgStatusAndDescriptionUpdate ''Downloading invoices from acme (1/2):'' ''first'')])
   \<and> BrowserDriver_RunRecipe example_startup
        (BrowserDriver_scripted [(Some (1000, succeeded), 1), (Some (1000, failed_hard), 1)]) id
        (NewBrowserDriver example_credentials ''/home'') 2 2 0 two_clicks
     = Inr (\<lparr> RecipeResult.Status = ''error'', StatusText = ''acmeaborted with error.'',
               StatusTextFormatted = ''x acme aborted with error.'',
               LastStepId = ''acme-1.0-2-click'', LastStepDescription = ''second'',
               LastErrorMessage = ''no ids'', NewFilesCount = 1 \<rparr>,
            started_BrowserDriver\<lparr> BrowserDriver.newFilesCount := 1 \<rparr>,
            [Send (ResultTitleAndDescriptionUpdate ''Downloading invoices from acme (1/2):'' ''first''),
             Send (ResultProgressUpdate (Quo (Add (Float64 0) (Float64 1)) (Float64 2))),
             Send (ResultTitleAndDescriptionUpdate ''Downloading invoices from acme (2/2):'' ''second''),
             TruncateDirectory ''/staging''])"
proof -
  have soft:
    "Steps check_then_authenticate
       = [] @ example_step ''oauth2-check-tokens'' ''first'' # [example_step ''oauth2-authenticate'' ''second'']
     \<and> ClientAuthBrowserDriver_start example_startup
           (NewClientAuthBrowserDriver example_credentials ''/config'' ''/home'')
         = Inr started_ClientAuthBrowserDriver
     \<and> ClientAuthBrowserDriver_loop
           (ClientAuthBrowserDriver_scripted [(Some (1000, failed_soft), 0), (Some (1000, succeeded), 2)])
           id 4 2 2 check_then_authenticate [] started_ClientAuthBrowserDriver 1 zeroRecipeResult []
         = Next started_ClientAuthBrowserDriver 1 zeroRecipeResult []
     \<and> select_result (recipeTimeout started_ClientAuthBrowserDriver)
           (ClientAuthBrowserDriver_go
              (ClientAuthBrowserDriver_scripted [(Some (1000, failed_soft), 0), (Some (1000, succeeded), 2)])
              1 started_ClientAuthBrowserDriver (example_step ''oauth2-check-tokens'' ''first''))
         = Some failed_soft
     \<and> StepResult.Status failed_soft \<noteq> ''success''"
    by (simp add: BrowserDriver_RunRecipe_def BrowserDriver_start_def BrowserDriver_iteration_def
        BrowserDriver_go_def BrowserDriver_actions_def BrowserDriver_LastStepId_def NewBrowserDriver_def
        ClientAuthBrowserDriver_RunRecipe_def ClientAuthBrowserDriver_start_def
        ClientAuthBrowserDriver_iteration_def ClientAuthBrowserDriver_go_def
        ClientAuthBrowserDriver_actions_def ClientAuthBrowserDriver_LastStepId_def
        NewClientAuthBrowserDriver_def
        select_result_def Second_def newDocumentsText_def zeroRecipeResult_def
        Itoa_def decimal.simps digit_def Let_def TrimSpace_def isSpace_def example_step_def example_recipe_def example_credentials_def example_startup_def
        succeeded_def failed_soft_def failed_hard_def BrowserDriver_scripted_def ClientAuthBrowserDriver_scripted_def two_clicks_def check_then_authenticate_def started_BrowserDriver_def
        started_ClientAuthBrowserDriver_def)
  have hard:
    "Steps check_then_authenticate
       = [] @ example_step ''oauth2-check-tokens'' ''first'' # [example_step ''oauth2-authenticate'' ''second'']
     \<and> ClientAuthBrowserDriver_start example_startup
           (NewClientAuthBrowserDriver example_credentials ''/config'' ''/home'')
         = Inr started_ClientAuthBrowserDriver
     \<and> ClientAuthBrowserDriver_loop
           (ClientAuthBrowserDriver_scripted [(Some (1000, failed_hard), 0), (Some (1000, succeeded), 2)])
           id 4 2 2 check_then_authenticate [] started_ClientAuthBrowserDriver 1 zeroRecipeResult []
         = Next started_ClientAuthBrowserDriver 1 zeroRecipeResult []
     \<and> select_result (recipeTimeout started_ClientAuthBrowserDriver)
           (ClientAuthBrowserDriver_go
              (ClientAuthBrowserDriver_scripted [(Some (1000, failed_hard), 0), (Some (1000, succeeded), 2)])
              1 started_ClientAuthBrowserDriver (example_step ''oauth2-check-tokens'' ''first''))
         = Some failed_hard
     \<and> StepResult.Status failed_hard \<noteq> ''success''"
    by (simp add: BrowserDriver_RunRecipe_def BrowserDriver_start_def BrowserDriver_iteration_def
        BrowserDriver_go_def BrowserDriver_actions_def BrowserDriver_LastStepId_def NewBrowserDriver_def
        ClientAuthBrowserDriver_RunRecipe_def ClientAuthBrowserDriver_start_def
        ClientAuthBrowserDriver_iteration_def ClientAuthBrowserDriver_go_def
        ClientAuthBrowserDriver_actions_def ClientAuthBrowserDriver_LastStepId_def
        NewClientAuthBrowserDriver_def
        select_result_def Second_def newDocumentsText_def zeroRecipeResult_def
        Itoa_def decimal.simps digit_def Let_def TrimSpace_def isSpace_def example_step_def example_recipe_def example_credentials_def example_startup_def
        succeeded_def failed_soft_def failed_hard_def BrowserDriver_scripted_def ClientAuthBrowserDriver_scripted_def two_clicks_def check_then_authenticate_def started_BrowserDriver_def
        started_ClientAuthBrowserDriver_def)
  have browser:
    "Steps two_clicks = [example_step ''click'' ''first''] @ example_step ''click'' ''second'' # []
     \<and> BrowserDriver_start example_startup (NewBrowserDriver example_credentials ''/home'')
         = Inr started_BrowserDriver
     \<and> BrowserDriver_loop
           (BrowserDriver_scripted [(Some (1000, succeeded), 1), (Some (1000, failed_hard), 1)])
           id 2 2 0 two_clicks [example_step ''click'' ''first''] started_BrowserDriver 1 zeroRecipeResult []
         = Next (started_BrowserDriver\<lparr> BrowserDriver.newFilesCount := 1 \<rparr>) 2
             \<lparr> RecipeResult.Status = ''success'', StatusText = ''acme: One new document'',
               StatusTextFormatted = ''- acme: One new document'',
               LastStepId = ''acme-1.0-1-click'', LastStepDescription = ''first'',
               LastErrorMessage = [], NewFilesCount = 1 \<rparr>
             [Send (ResultTitleAndDescriptionUpdate ''Downloading invoices from acme (1/2):'' ''first''),
              Send (ResultProgressUpdate (Quo (Add (Float64 0) (Float64 1)) (Float64 2)))]
     \<and> select_result (BrowserDriver.recipeTimeout (started_BrowserDriver\<lparr> BrowserDriver.newFilesCount := 1 \<rparr>))
           (BrowserDriver_go
              (BrowserDriver_scripted [(Some (1000, succeeded), 1), (Some (1000, failed_hard), 1)])
              2 (started_BrowserDriver\<lparr> BrowserDriver.newFilesCount := 1 \<rparr>) (example_step ''click'' ''second''))
         = Some failed_hard
     \<and> StepResult.Status failed_hard \<noteq> ''success''"
    by (simp add: BrowserDriver_RunRecipe_def BrowserDriver_start_def BrowserDriver_iteration_def
        BrowserDriver_go_def BrowserDriver_actions_def BrowserDriver_LastStepId_def NewBrowserDriver_def
        ClientAuthBrowserDriver_RunRecipe_def ClientAuthBrowserDriver_start_def
        ClientAuthBrowserDriver_iteration_def ClientAuthBrowserDriver_go_def
        ClientAuthBrowserDriver_actions_def ClientAuthBrowserDriver_LastStepId_def
        NewClientAuthBrowserDriver_def
        select_result_def Second_def newDocumentsText_def zeroRecipeResult_def
        Itoa_def decimal.simps digit_def Let_def TrimSpace_def isSpace_def example_step_def example_recipe_def example_credentials_def example_startup_def
        succeeded_def failed_soft_def failed_hard_def BrowserDriver_scripted_def ClientAuthBrowserDriver_scripted_def two_clicks_def check_then_authenticate_def started_BrowserDriver_def
        started_ClientAuthBrowserDriver_def)
  note a = error_result_halts_run[THEN conjunct1, THEN mp, OF soft]
  note b = error_result_halts_run[THEN conjunct1, THEN mp, OF hard]
  note c = error_result_halts_run[THEN conjunct2, THEN mp, OF browser]
  show ?thesis
    apply (intro conjI)
    subgoal using a by (simp add: BrowserDriver_RunRecipe_def BrowserDriver_start_def BrowserDriver_iteration_def
        BrowserDriver_go_def BrowserDriver_actions_def BrowserDriver_LastStepId_def NewBrowserDriver_def
        ClientAuthBrowserDriver_RunRecipe_def ClientAuthBrowserDriver_start_def
        ClientAuthBrowserDriver_iteration_def ClientAuthBrowserDriver_go_def
        ClientAuthBrowserDriver_actions_def ClientAuthBrowserDriver_LastStepId_def
        NewClientAuthBrowserDriver_def
        select_result_def Second_def newDocumentsText_def zeroRecipeResult_def
        Itoa_def decimal.simps digit_def Let_def TrimSpace_def isSpace_def example_step_def example_recipe_def example_credentials_def example_startup_def
        succeeded_def failed_soft_def failed_hard_def BrowserDriver_scripted_def ClientAuthBrowserDriver_scripted_def two_clicks_def check_then_authenticate_def started_BrowserDriver_def
        started_ClientAuthBrowserDriver_def)
    subgoal using b by (simp add: BrowserDriver_RunRecipe_def BrowserDriver_start_def BrowserDriver_iteration_def
        BrowserDriver_go_def BrowserDriver_actions_def BrowserDriver_LastStepId_def NewBrowserDriver_def
        ClientAuthBrowserDriver_RunRecipe_def ClientAuthBrowserDriver_start_def
        ClientAuthBrowserDriver_iteration_def ClientAuthBrowserDriver_go_def
        ClientAuthBrowserDriver_actions_def ClientAuthBrowserDriver_LastStepId_def
        NewClientAuthBrowserDriver_def
        select_result_def Second_def newDocumentsText_def zeroRecipeResult_def
        Itoa_def decimal.simps digit_def Let_def TrimSpace_def isSpace_def example_step_def example_recipe_def example_credentials_def example_startup_def
        succeeded_def failed_soft_def failed_hard_def BrowserDriver_scripted_def ClientAuthBrowserDriver_scripted_def two_clicks_def check_then_authenticate_def started_BrowserDriver_def
        started_ClientAuthBrowserDriver_def)
    subgoal using c by (simp add: BrowserDriver_RunRecipe_def BrowserDriver_start_def BrowserDriver_iteration_def
        BrowserDriver_go_def BrowserDriver_actions_def BrowserDriver_LastStepId_def NewBrowserDriver_def
        ClientAuthBrowserDriver_RunRecipe_def ClientAuthBrowserDriver_start_def
        ClientAuthBrowserDriver_iteration_def ClientAuthBrowserDriver_go_def
        ClientAuthBrowserDriver_actions_def ClientAuthBrowserDriver_LastStepId_def
        NewClientAuthBrowserDriver_def
        select_result_def Second_def newDocumentsText_def zeroRecipeResult_def
        Itoa_def decimal.simps digit_def Let_def TrimSpace_def isSpace_def example_step_def example_recipe_def example_credentials_def example_startup_def
        succeeded_def failed_soft_def failed_hard_def BrowserDriver_scripted_def ClientAuthBrowserDriver_scripted_def two_clicks_def check_then_authenticate_def started_BrowserDriver_def
        started_ClientAuthBrowserDriver_def)
    done
qed

text \<open>
  Claim C1 as stated fails for the browser-driven dispatcher: the first step delivers an
  error whose break flag is not set, and the run ends there; the second step is never
  announced or started.
\<close>

theorem browser_soft_error_halts:
  "Break failed_soft = False
   \<and> BrowserDriver_RunRecipe example_startup
        (BrowserDriver_scripted [(Some (1000, failed_soft), 0), (Some (1000, succeeded), 0)]) id
        (NewBrowserDriver example_credentials ''/home'') 2 2 0 two_clicks
     = Inr (\<lparr> RecipeResult.Status = ''error'', StatusText = ''acmeaborted with error.'',
               StatusTextFormatted = ''x acme aborted with error.'',
               LastStepId = ''acme-1.0-1-click'', LastStepDescription = ''first'',
               LastErrorMessage = ''no token'', NewFilesCount = 0 \<rparr>,
            started_BrowserDriver,
            [Send (ResultTitleAndDescriptionUpdate ''Downloading invoices from acme (1/2):'' ''first''),
             TruncateDirectory ''/staging''])"
  by (simp add: BrowserDriver_RunRecipe_def BrowserDriver_start_def BrowserDriver_iteration_def
        BrowserDriver_go_def BrowserDriver_actions_def BrowserDriver_LastStepId_def NewBrowserDriver_def
        ClientAuthBrowserDriver_RunRecipe_def ClientAuthBrowserDriver_start_def
        ClientAuthBrowserDriver_iteration_def ClientAuthBrowserDriver_go_def
        ClientAuthBrowserDriver_actions_def ClientAuthBrowserDriver_LastStepId_def
        NewClientAuthBrowserDriver_def
        select_result_def Second_def newDocumentsText_def zeroRecipeResult_def
        Itoa_def decimal.simps digit_def Let_def TrimSpace_def isSpace_def example_step_def example_recipe_def example_credentials_def example_startup_def
        succeeded_def failed_soft_def failed_hard_def BrowserDriver_scripted_def ClientAuthBrowserDriver_scripted_def two_clicks_def check_then_authenticate_def started_BrowserDriver_def
        started_ClientAuthBrowserDriver_def)

text \<open>
  Claim C9. Whenever a dispatcher builds a \<open>success\<close> result (in the pass for a step, and
  so also when a run returns one), its \<open>NewFilesCount\<close> is the counter of new files of the
  driver at that moment, and its status text is the owner of the recipe, a colon and
  \<open>No new documents\<close> for 0, \<open>One new document\<close> for 1, and the decimal numeral followed
  by \<open>new documents\<close> for every other value.
\<close>

theorem success_result_reports_counter:
  "(BrowserDriver_iteration handler textStyleBold tsc scs bcs recipe step b n result done
      = Next b' n' result' done'
    \<longrightarrow> RecipeResult.Status result' = ''success''
      \<and> NewFilesCount result' = BrowserDriver.newFilesCount b'
      \<and> StatusText result' = Provider recipe @ '': '' @
           (if NewFilesCount result' = 0 then ''No new documents''
            else if NewFilesCount result' = 1 then ''One new document''
            else Itoa (NewFilesCount result') @ '' new documents''))
   \<and> (ClientAuthBrowserDriver_iteration handler' textStyleBold tsc scs bcs recipe step c n result done
        = Next c' n' result' done'
      \<and> RecipeResult.Status result' = ''success''
    \<longrightarrow> NewFilesCount result' = newFilesCount c'
      \<and> StatusText result' = Supplier recipe @ '': '' @
           (if NewFilesCount result' = 0 then ''No new documents''
            else if NewFilesCount result' = 1 then ''One new document''
            else Itoa (NewFilesCount result') @ '' new documents''))
   \<and> (BrowserDriver_RunRecipe env handler textStyleBold b tsc scs bcs recipe = Inr (final, b', done')
      \<and> RecipeResult.Status final = ''success''
    \<longrightarrow> NewFilesCount final = BrowserDriver.newFilesCount b'
      \<and> StatusText final = Provider recipe @ '': '' @
           (if NewFilesCount final = 0 then ''No new documents''
            else if NewFilesCount final = 1 then ''One new document''
            else Itoa (NewFilesCount final) @ '' new documents''))
   \<and> (ClientAuthBrowserDriver_RunRecipe env handler' textStyleBold c totalStepCount
         stepCountInCurrentRecipe baseCountStep recipe = Inr (final, c', done')
      \<and> RecipeResult.Status final = ''success''
    \<longrightarrow> NewFilesCount final = newFilesCount c'
      \<and> StatusText final = Supplier recipe @ '': '' @
           (if NewFilesCount final = 0 then ''No new documents''
            else if NewFilesCount final = 1 then ''One new document''
            else Itoa (NewFilesCount final) @ '' new documents''))"
proof (intro conjI impI)
  assume "BrowserDriver_iteration handler textStyleBold tsc scs bcs recipe step b n result done
      = Next b' n' result' done'"
  from BrowserDriver_iteration_Next[OF this]
  show "RecipeResult.Status result' = ''success''"
    and "NewFilesCount result' = BrowserDriver.newFilesCount b'"
    and "StatusText result' = Provider recipe @ '': '' @
           (if NewFilesCount result' = 0 then ''No new documents''
            else if NewFilesCount result' = 1 then ''One new document''
            else Itoa (NewFilesCount result') @ '' new documents'')"
    by (simp_all add: newDocumentsText_cases)
next
  assume a: "ClientAuthBrowserDriver_iteration handler' textStyleBold tsc scs bcs recipe step c n result done
        = Next c' n' result' done' \<and> RecipeResult.Status result' = ''success''"
  from ClientAuthBrowserDriver_iteration_Next[OF conjunct1[OF a]] a
  show "NewFilesCount result' = newFilesCount c'"
    and "StatusText result' = Supplier recipe @ '': '' @
           (if NewFilesCount result' = 0 then ''No new documents''
            else if NewFilesCount result' = 1 then ''One new document''
            else Itoa (NewFilesCount result') @ '' new documents'')"
    by (simp_all add: newDocumentsText_cases)
next
  assume a: "BrowserDriver_RunRecipe env handler textStyleBold b tsc scs bcs recipe = Inr (final, b', done')
      \<and> RecipeResult.Status final = ''success''"
  then obtain b2 n2 d2 where
    loop: "BrowserDriver_loop handler textStyleBold tsc scs bcs recipe (Steps recipe) b2 1 zeroRecipeResult []
             = Next b' n2 final d2"
    by (auto simp: BrowserDriver_RunRecipe_def split: sum.splits flow.splits
             dest: BrowserDriver_loop_Return)
  from a have "Steps recipe \<noteq> []"
    using loop by (auto simp: zeroRecipeResult_def)
  with BrowserDriver_loop_Next[OF loop]
  show "NewFilesCount final = BrowserDriver.newFilesCount b'"
    and "StatusText final = Provider recipe @ '': '' @
           (if NewFilesCount final = 0 then ''No new documents''
            else if NewFilesCount final = 1 then ''One new document''
            else Itoa (NewFilesCount final) @ '' new documents'')"
    by (simp_all add: newDocumentsText_cases)
next
  assume a: "ClientAuthBrowserDriver_RunRecipe env handler' textStyleBold c totalStepCount
         stepCountInCurrentRecipe baseCountStep recipe = Inr (final, c', done')
      \<and> RecipeResult.Status final = ''success''"
  then obtain b2 n2 where
    loop: "ClientAuthBrowserDriver_loop handler' textStyleBold totalStepCount stepCountInCurrentRecipe
             baseCountStep recipe (Steps recipe) b2 1 zeroRecipeResult []
             = Next c' n2 final done'"
    by (auto simp: ClientAuthBrowserDriver_RunRecipe_def split: sum.splits flow.splits
             dest: ClientAuthBrowserDriver_loop_Return)
  from a have "Steps recipe \<noteq> []"
    using loop by (auto simp: zeroRecipeResult_def)
  with ClientAuthBrowserDriver_loop_Next[OF loop] a
  show "NewFilesCount final = newFilesCount c'"
    and "StatusText final = Supplier recipe @ '': '' @
           (if NewFilesCount final = 0 then ''No new documents''
            else if NewFilesCount final = 1 then ''One new document''
            else Itoa (NewFilesCount final) @ '' new documents'')"
    by (simp_all add: newDocumentsText_cases)
qed

theorem success_result_reports_counter_witness:
  "BrowserDriver_RunRecipe example_startup
        (BrowserDriver_scripted [(Some (1000, succeeded), 0), (Some (2000, succeeded), 1)]) id
        (NewBrowserDriver example_credentials ''/home'') 2 2 0 two_clicks
     = Inr (\<lparr> RecipeResult.Status = ''success'', StatusText = ''acme: One new document'',
               StatusTextFormatted = ''- acme: One new document'',
               LastStepId = ''acme-1.0-2-click'', LastStepDescription = ''second'',
               LastErrorMessage = [], NewFilesCount = 1 \<rparr>,
            started_BrowserDriver\<lparr> BrowserDriver.newFilesCount := 1 \<rparr>,
            [Send (ResultTitleAndDescriptionUpdate ''Downloading invoices from acme (1/2):'' ''first''),
             Send (ResultProgressUpdate (Quo (Add (Float64 0) (Float64 1)) (Float64 2))),
             Send (ResultTitleAndDescriptionUpdate ''Downloading invoices from acme (2/2):'' ''second''),
             Send (ResultProgressUpdate (Quo (Add (Float64 0) (Float64 2)) (Float64 2))),
             TruncateDirectory ''/staging''])
   \<and> ClientAuthBrowserDriver_RunRecipe example_startup
        (ClientAuthBrowserDriver_scripted [(Some (1000, succeeded), 0), (Some (1000, succeeded), 12)]) id
        (NewClientAuthBrowserDriver example_credentials ''/config'' ''/home'') 2 2 0 check_then_authenticate
     = Inr (\<lparr> RecipeResult.Status = ''success'', StatusText = ''acme: 12 new documents'',
               StatusTextFormatted = ''- acme: 12 new documents'',
               LastStepId = ''acme-1.0-2-oauth2-authenticate'', LastStepDescription = ''second'',
               LastErrorMessage = [], NewFilesCount = 12 \<rparr>,
            started_ClientAuthBrowserDriver\<lparr> newFilesCount := 12 \<rparr>,
            [Send (ViewMsgStatusAndDescriptionUpdate ''Downloading invoices from acme (1/2):'' ''first''),
             Send (ViewMsgProgressUpdate (Quo (Add (Float64 0) (Float64 1)) (Float64 2))),
             Send (ViewMsgStatusAndDescriptionUpdate ''Downloading invoices from acme (2/2):'' ''second''),
             Send (ViewMsgProgressUpdate (Quo (Add (Float64 0) (Float64 2)) (Float64 2)))])
   \<and> Itoa 12 = ''12''"
proof -
  let ?bs = "BrowserDriver_scripted [(Some (1000, succeeded), 0), (Some (2000, succeeded), 1)]"
  let ?cs = "ClientAuthBrowserDriver_scripted [(Some (1000, succeeded), 0), (Some (1000, succeeded), 12)]"
  have browser:
    "BrowserDriver_RunRecipe example_startup ?bs id
        (NewBrowserDriver example_credentials ''/home'') 2 2 0 two_clicks
     = Inr (\<lparr> RecipeResult.Status = ''success'', StatusText = ''acme: One new document'',
               StatusTextFormatted = ''- acme: One new document'',
               LastStepId = ''acme-1.0-2-click'', LastStepDescription = ''second'',
               LastErrorMessage = [], NewFilesCount = 1 \<rparr>,
            started_BrowserDriver\<lparr> BrowserDriver.newFilesCount := 1 \<rparr>,
            [Send (ResultTitleAndDescriptionUpdate ''Downloading invoices from acme (1/2):'' ''first''),
             Send (ResultProgressUpdate (Quo (Add (Float64 0) (Float64 1)) (Float64 2))),
             Send (ResultTitleAndDescriptionUpdate ''Downloading invoices from acme (2/2):'' ''second''),
             Send (ResultProgressUpdate (Quo (Add (Float64 0) (Float64 2)) (Float64 2))),
             TruncateDirectory ''/staging''])
     \<and> RecipeResult.Status \<lparr> RecipeResult.Status = ''success'', StatusText = ''acme: One new document'',
               StatusTextFormatted = ''- acme: One new document'',
               LastStepId = ''acme-1.0-2-click'', LastStepDescription = ''second'',
               LastErrorMessage = [], NewFilesCount = 1 \<rparr> = ''success''"
    by (simp add: BrowserDriver_RunRecipe_def BrowserDriver_start_def BrowserDriver_iteration_def
        BrowserDriver_go_def BrowserDriver_actions_def BrowserDriver_LastStepId_def NewBrowserDriver_def
        ClientAuthBrowserDriver_RunRecipe_def ClientAuthBrowserDriver_start_def
        ClientAuthBrowserDriver_iteration_def ClientAuthBrowserDriver_go_def
        ClientAuthBrowserDriver_actions_def ClientAuthBrowserDriver_LastStepId_def
        NewClientAuthBrowserDriver_def
        select_result_def Second_def newDocumentsText_def zeroRecipeResult_def
        Itoa_def decimal.simps digit_def Let_def TrimSpace_def isSpace_def example_step_def example_recipe_def example_credentials_def example_startup_def
        succeeded_def BrowserDriver_scripted_def ClientAuthBrowserDriver_scripted_def two_clicks_def check_then_authenticate_def started_BrowserDriver_def
        started_ClientAuthBrowserDriver_def)
  have oauth2:
    "ClientAuthBrowserDriver_RunRecipe example_startup ?cs id
        (NewClientAuthBrowserDriver example_credentials ''/config'' ''/home'') 2 2 0 check_then_authenticate
     = Inr (\<lparr> RecipeResult.Status = ''success'', StatusText = ''acme: 12 new documents'',
               StatusTextFormatted = ''- acme: 12 new documents'',
               LastStepId = ''acme-1.0-2-oauth2-authenticate'', LastStepDescription = ''second'',
               LastErrorMessage = [], NewFilesCount = 12 \<rparr>,
            started_ClientAuthBrowserDriver\<lparr> newFilesCount := 12 \<rparr>,
            [Send (ViewMsgStatusAndDescriptionUpdate ''Downloading invoices from acme (1/2):'' ''first''),
             Send (ViewMsgProgressUpdate (Quo (Add (Float64 0) (Float64 1)) (Float64 2))),
             Send (ViewMsgStatusAndDescriptionUpdate ''Downloading invoices from acme (2/2):'' ''second''),
             Send (ViewMsgProgressUpdate (Quo (Add (Float64 0) (Float64 2)) (Float64 2)))])
     \<and> RecipeResult.Status \<lparr> RecipeResult.Status = ''success'', StatusText = ''acme: 12 new documents'',
               StatusTextFormatted = ''- acme: 12 new documents'',
               LastStepId = ''acme-1.0-2-oauth2-authenticate'', LastStepDescription = ''second'',
               LastErrorMessage = [], NewFilesCount = 12 \<rparr> = ''success''"
    by (simp add: BrowserDriver_RunRecipe_def BrowserDriver_start_def BrowserDriver_iteration_def
        BrowserDriver_go_def BrowserDriver_actions_def BrowserDriver_LastStepId_def NewBrowserDriver_def
        ClientAuthBrowserDriver_RunRecipe_def ClientAuthBrowserDriver_start_def
        ClientAuthBrowserDriver_iteration_def ClientAuthBrowserDriver_go_def
        ClientAuthBrowserDriver_actions_def ClientAuthBrowserDriver_LastStepId_def
        NewClientAuthBrowserDriver_def
        select_result_def Second_def newDocumentsText_def zeroRecipeResult_def
        Itoa_def decimal.simps digit_def Let_def TrimSpace_def isSpace_def example_step_def example_recipe_def example_credentials_def example_startup_def
        succeeded_def BrowserDriver_scripted_def ClientAuthBrowserDriver_scripted_def two_clicks_def check_then_authenticate_def started_BrowserDriver_def
        started_ClientAuthBrowserDriver_def)
  note a = success_result_reports_counter[THEN conjunct2, THEN conjunct2, THEN conjunct1, THEN mp, OF browser]
  note b = success_result_reports_counter[THEN conjunct2, THEN conjunct2, THEN conjunct2, THEN mp, OF oauth2]
  have "Itoa 12 = ''12''"
    using b by (simp add: example_step_def example_recipe_def example_credentials_def example_startup_def
        succeeded_def BrowserDriver_scripted_def ClientAuthBrowserDriver_scripted_def two_clicks_def check_then_authenticate_def started_BrowserDriver_def
        started_ClientAuthBrowserDriver_def)
  with browser oauth2 a show ?thesis by simp
qed

lemma select_result_None_iff:
  "select_result timeout run = None \<longleftrightarrow>
     (sends run = None \<or> (\<exists>t lsr. sends run = Some (t, lsr) \<and> timeout \<le> int t))"
  by (auto simp: select_result_def split: option.splits)

lemma BrowserDriver_start_recipeTimeout:
  "BrowserDriver_start env b0 = Inr b1 \<Longrightarrow> BrowserDriver.recipeTimeout b1 = BrowserDriver.recipeTimeout b0"
  by (auto simp: BrowserDriver_start_def Let_def split: option.splits sum.splits if_splits)

lemma ClientAuthBrowserDriver_start_recipeTimeout:
  "ClientAuthBrowserDriver_start env b0 = Inr b1 \<Longrightarrow> recipeTimeout b1 = recipeTimeout b0"
  by (auto simp: ClientAuthBrowserDriver_start_def Let_def split: option.splits sum.splits if_splits)

lemma BrowserDriver_iteration_recipeTimeout:
  assumes "\<forall>k d s. BrowserDriver.recipeTimeout (driver_then (h k d s)) = BrowserDriver.recipeTimeout d"
    and "BrowserDriver_iteration h bold tsc scs bcs recipe step b n r d = Next b' n' r' d'"
  shows "BrowserDriver.recipeTimeout b' = BrowserDriver.recipeTimeout b"
  using assms
  by (auto simp: BrowserDriver_iteration_def BrowserDriver_go_def Let_def split: option.splits if_splits)

lemma ClientAuthBrowserDriver_iteration_recipeTimeout:
  assumes "\<forall>k d s. recipeTimeout (driver_then (h k d s)) = recipeTimeout d"
    and "ClientAuthBrowserDriver_iteration h bold tsc scs bcs recipe step b n r d = Next b' n' r' d'"
  shows "recipeTimeout b' = recipeTimeout b"
  using assms
  by (auto simp: ClientAuthBrowserDriver_iteration_def ClientAuthBrowserDriver_go_def Let_def
           split: option.splits if_splits)

lemma BrowserDriver_loop_recipeTimeout:
  assumes "\<forall>k d s. BrowserDriver.recipeTimeout (driver_then (h k d s)) = BrowserDriver.recipeTimeout d"
    and "BrowserDriver_loop h bold tsc scs bcs recipe steps b n r d = Next b' n' r' d'"
  shows "BrowserDriver.recipeTimeout b' = BrowserDriver.recipeTimeout b"
  using assms(2)
proof (induction steps arbitrary: b n r d)
  case Nil
  then show ?case by simp
next
  case (Cons step steps)
  from Cons.prems obtain b1 n1 r1 d1
    where first: "BrowserDriver_iteration h bold tsc scs bcs recipe step b n r d = Next b1 n1 r1 d1"
      and rest: "BrowserDriver_loop h bold tsc scs bcs recipe steps b1 n1 r1 d1 = Next b' n' r' d'"
    by (auto split: flow.splits)
  from Cons.IH[OF rest] BrowserDriver_iteration_recipeTimeout[OF assms(1) first]
  show ?case by simp
qed

lemma ClientAuthBrowserDriver_loop_recipeTimeout:
  assumes "\<forall>k d s. recipeTimeout (driver_then (h k d s)) = recipeTimeout d"
    and "ClientAuthBrowserDriver_loop h bold tsc scs bcs recipe steps b n r d = Next b' n' r' d'"
  shows "recipeTimeout b' = recipeTimeout b"
  using assms(2)
proof (induction steps arbitrary: b n r d)
  case Nil
  then show ?case by simp
next
  case (Cons step steps)
  from Cons.prems obtain b1 n1 r1 d1
    where first: "ClientAuthBrowserDriver_iteration h bold tsc scs bcs recipe step b n r d = Next b1 n1 r1 d1"
      and rest: "ClientAuthBrowserDriver_loop h bold tsc scs bcs recipe steps b1 n1 r1 d1 = Next b' n' r' d'"
    by (auto split: flow.splits)
  from Cons.IH[OF rest] ClientAuthBrowserDriver_iteration_recipeTimeout[OF assms(1) first]
  show ?case by simp
qed

lemma BrowserDriver_timeout_at:
  assumes steps: "Steps recipe = pre @ step # post"
    and start: "BrowserDriver_start env b0 = Inr b1"
    and limit: "BrowserDriver.recipeTimeout b0 = 60 * Second"
    and keeps: "\<forall>k d s. BrowserDriver.recipeTimeout (driver_then (handler k d s)) = BrowserDriver.recipeTimeout d"
    and before: "BrowserDriver_loop handler textStyleBold tsc scs bcs recipe pre b1 1 zeroRecipeResult []
                   = Next b m result done"
    and late: "sends (BrowserDriver_go handler m b step) = None
               \<or> (\<exists>t lsr. sends (BrowserDriver_go handler m b step) = Some (t, lsr) \<and> 60 * Second \<le> int t)"
  shows "let b' = driver_then (BrowserDriver_go handler m b step);
             timed_out = \<lparr> RecipeResult.Status = ''error'',
                           StatusText = Provider recipe @ '' aborted with timeout.'',
                           StatusTextFormatted = ''x '' @ textStyleBold (Provider recipe) @ '' aborted with timeout.'',
                           LastStepId = Provider recipe @ ''-'' @ Version recipe @ ''-'' @ Itoa m @ ''-'' @ Action step,
                           LastStepDescription = Description step,
                           LastErrorMessage = [],
                           NewFilesCount = BrowserDriver.newFilesCount b' \<rparr>;
             title = Send (ResultTitleAndDescriptionUpdate
                       (''Downloading invoices from '' @ Provider recipe @ '' ('' @ Itoa m @ ''/''
                          @ Itoa scs @ ''):'') (Description step))
         in m = 1 + int (length pre)
          \<and> BrowserDriver_RunRecipe env handler textStyleBold b0 tsc scs bcs recipe
              = Inr (timed_out, b', done @ [title, TruncateDirectory (BrowserDriver.downloadsDirectory b')])"
proof -
  note at = BrowserDriver_RunRecipe_at[OF steps start before]
  have idx: "m = 1 + int (length pre)"
    using BrowserDriver_loop_Next[OF before] by simp
  have "BrowserDriver.recipeTimeout b = 60 * Second"
    using BrowserDriver_loop_recipeTimeout[OF keeps before] BrowserDriver_start_recipeTimeout[OF start] limit
    by simp
  with late have "select_result (BrowserDriver.recipeTimeout b) (BrowserDriver_go handler m b step) = None"
    by (simp add: select_result_None_iff)
  then show ?thesis
    by (simp add: idx at BrowserDriver_iteration_def BrowserDriver_LastStepId_def Let_def)
qed

lemma ClientAuthBrowserDriver_timeout_at:
  assumes steps: "Steps recipe = pre @ step # post"
    and start: "ClientAuthBrowserDriver_start env c0 = Inr c1"
    and limit: "recipeTimeout c0 = 120 * Second"
    and keeps: "\<forall>k d s. recipeTimeout (driver_then (handler' k d s)) = recipeTimeout d"
    and before: "ClientAuthBrowserDriver_loop handler' textStyleBold tsc scs bcs recipe pre c1 1
                   zeroRecipeResult [] = Next c n result done"
    and late: "sends (ClientAuthBrowserDriver_go handler' n c step) = None
               \<or> (\<exists>t lsr. sends (ClientAuthBrowserDriver_go handler' n c step) = Some (t, lsr)
                           \<and> 120 * Second \<le> int t)"
  shows "let c' = driver_then (ClientAuthBrowserDriver_go handler' n c step);
             timed_out = \<lparr> RecipeResult.Status = ''error'',
                           StatusText = Supplier recipe @ '' aborted with timeout.'',
                           StatusTextFormatted = ''x '' @ textStyleBold (Supplier recipe) @ '' aborted with timeout.'',
                           LastStepId = Supplier recipe @ ''-'' @ Version recipe @ ''-'' @ Itoa n @ ''-'' @ Action step,
                           LastStepDescription = Description step,
                           LastErrorMessage = [],
                           NewFilesCount = newFilesCount c' \<rparr>;
             title = Send (ViewMsgStatusAndDescriptionUpdate
                       (''Downloading invoices from '' @ Supplier recipe @ '' ('' @ Itoa n @ ''/''
                          @ Itoa scs @ ''):'') (Description step))
         in n = 1 + int (length pre)
          \<and> ClientAuthBrowserDriver_RunRecipe env handler' textStyleBold c0 tsc scs bcs recipe
              = Inr (timed_out, c', done @ [title])"
proof -
  note at = ClientAuthBrowserDriver_RunRecipe_at[OF steps start before]
  have idx: "n = 1 + int (length pre)"
    using ClientAuthBrowserDriver_loop_Next[OF before] by simp
  have "recipeTimeout c = 120 * Second"
    using ClientAuthBrowserDriver_loop_recipeTimeout[OF keeps before]
      ClientAuthBrowserDriver_start_recipeTimeout[OF start] limit
    by simp
  with late have "select_result (recipeTimeout c) (ClientAuthBrowserDriver_go handler' n c step) = None"
    by (simp add: select_result_None_iff)
  then show ?thesis
    by (simp add: idx at ClientAuthBrowserDriver_iteration_def ClientAuthBrowserDriver_LastStepId_def Let_def)
qed

text \<open>
  Claim C4, as the code has it. The timeout is 60 seconds for a \<open>BrowserDriver\<close> and 120
  seconds for a \<open>ClientAuthBrowserDriver\<close>, and it stays so when no handler assigns to it.
  When the handler of a step sends nothing, or sends its result only when the timeout
  has passed, the run ends with an \<open>error\<close> result that names the step
  (\<open>owner-version-n-action\<close>) and its description and has no error message; what the
  handler would have sent plays no part. The browser-driven dispatcher empties the
  staging directory before it returns; the OAuth2-driven dispatcher returns without
  touching it.
\<close>

theorem timeout_is_hard_failure:
  "BrowserDriver.recipeTimeout (NewBrowserDriver creds dir) = 60 * Second
   \<and> recipeTimeout (NewClientAuthBrowserDriver creds configDir documentsDir) = 120 * Second
   \<and> Second = 1000000000
   \<and> (Steps recipe = pre @ step # post
      \<and> BrowserDriver_start env b0 = Inr b1
      \<and> BrowserDriver.recipeTimeout b0 = 60 * Second
      \<and> (\<forall>k d s. BrowserDriver.recipeTimeout (driver_then (handler k d s)) = BrowserDriver.recipeTimeout d)
      \<and> BrowserDriver_loop handler textStyleBold tsc scs bcs recipe pre b1 1 zeroRecipeResult []
          = Next b m result done
      \<and> (sends (BrowserDriver_go handler m b step) = None
          \<or> (\<exists>t lsr. sends (BrowserDriver_go handler m b step) = Some (t, lsr) \<and> 60 * Second \<le> int t))
      \<longrightarrow> (let b' = driver_then (BrowserDriver_go handler m b step);
               timed_out = \<lparr> RecipeResult.Status = ''error'',
                             StatusText = Provider recipe @ '' aborted with timeout.'',
                             StatusTextFormatted = ''x '' @ textStyleBold (Provider recipe) @ '' aborted with timeout.'',
                             LastStepId = Provider recipe @ ''-'' @ Version recipe @ ''-'' @ Itoa m @ ''-'' @ Action step,
                             LastStepDescription = Description step,
                             LastErrorMessage = [],
                             NewFilesCount = BrowserDriver.newFilesCount b' \<rparr>;
               title = Send (ResultTitleAndDescriptionUpdate
                         (''Downloading invoices from '' @ Provider recipe @ '' ('' @ Itoa m @ ''/''
                            @ Itoa scs @ ''):'') (Description step))
           in m = 1 + int (length pre)
            \<and> BrowserDriver_RunRecipe env handler textStyleBold b0 tsc scs bcs recipe
                = Inr (timed_out, b', done @ [title, TruncateDirectory (BrowserDriver.downloadsDirectory b')])))
   \<and> (Steps recipe = pre @ step # post
      \<and> ClientAuthBrowserDriver_start env c0 = Inr c1
      \<and> recipeTimeout c0 = 120 * Second
      \<and> (\<forall>k d s. recipeTimeout (driver_then (handler' k d s)) = recipeTimeout d)
      \<and> ClientAuthBrowserDriver_loop handler' textStyleBold tsc scs bcs recipe pre c1 1
           zeroRecipeResult [] = Next c n result done
      \<and> (sends (ClientAuthBrowserDriver_go handler' n c step) = None
          \<or> (\<exists>t lsr. sends (ClientAuthBrowserDriver_go handler' n c step) = Some (t, lsr)
                      \<and> 120 * Second \<le> int t))
      \<longrightarrow> (let c' = driver_then (ClientAuthBrowserDriver_go handler' n c step);
               timed_out = \<lparr> RecipeResult.Status = ''error'',
                             StatusText = Supplier recipe @ '' aborted with timeout.'',
                             StatusTextFormatted = ''x '' @ textStyleBold (Supplier recipe) @ '' aborted with timeout.'',
                             LastStepId = Supplier recipe @ ''-'' @ Version recipe @ ''-'' @ Itoa n @ ''-'' @ Action step,
                             LastStepDescription = Description step,
                             LastErrorMessage = [],
                             NewFilesCount = newFilesCount c' \<rparr>;
               title = Send (ViewMsgStatusAndDescriptionUpdate
                         (''Downloading invoices from '' @ Supplier recipe @ '' ('' @ Itoa n @ ''/''
                            @ Itoa scs @ ''):'') (Description step))
           in n = 1 + int (length pre)
            \<and> ClientAuthBrowserDriver_RunRecipe env handler' textStyleBold c0 tsc scs bcs recipe
                = Inr (timed_out, c', done @ [title])))"
  apply (intro conjI impI)
  subgoal by (simp add: NewBrowserDriver_def)
  subgoal by (simp add: NewClientAuthBrowserDriver_def)
  subgoal by (simp add: Second_def)
  subgoal by (elim conjE) (rule BrowserDriver_timeout_at; assumption)
  subgoal by (elim conjE) (rule ClientAuthBrowserDriver_timeout_at; assumption)
  done

theorem timeout_is_hard_failure_witness:
  "BrowserDriver_RunRecipe example_startup
        (BrowserDriver_scripted [(Some (1000, succeeded), 1), (Some (60000000000, succeeded), 3)]) id
        (NewBrowserDriver example_credentials ''/home'') 2 2 0 two_clicks
     = Inr (\<lparr> RecipeResult.Status = ''error'', StatusText = ''acme aborted with timeout.'',
               StatusTextFormatted = ''x acme aborted with timeout.'',
               LastStepId = ''acme-1.0-2-click'', LastStepDescription = ''second'',
               LastErrorMessage = [], NewFilesCount = 3 \<rparr>,
            started_BrowserDriver\<lparr> BrowserDriver.newFilesCount := 3 \<rparr>,
            [Send (ResultTitleAndDescriptionUpdate ''Downloading invoices from acme (1/2):'' ''first''),
             Send (ResultProgressUpdate (Quo (Add (Float64 0) (Float64 1)) (Float64 2))),
             Send (ResultTitleAndDescriptionUpdate ''Downloading invoices from acme (2/2):'' ''second''),
             TruncateDirectory ''/staging''])
   \<and> ClientAuthBrowserDriver_RunRecipe example_startup
        (ClientAuthBrowserDriver_scripted [(Some (120000000001, succeeded), 0), (Some (1000, succeeded), 2)]) id
        (NewClientAuthBrowserDriver example_credentials ''/config'' ''/home'') 2 2 0 check_then_authenticate
     = Inr (\<lparr> RecipeResult.Status = ''error'', StatusText = ''acme aborted with timeout.'',
               StatusTextFormatted = ''x acme aborted with timeout.'',
               LastStepId = ''acme-1.0-1-oauth2-check-tokens'', LastStepDescription = ''first'',
               LastErrorMessage = [], NewFilesCount = 0 \<rparr>,
            started_ClientAuthBrowserDriver,
            [Send (ViewMsgStatusAndDescriptionUpdate ''Downloading invoices from acme (1/2):'' ''first'')])"
proof -
  have browser:
    "Steps two_clicks = [example_step ''click'' ''first''] @ example_step ''click'' ''second'' # []
     \<and> BrowserDriver_start example_startup (NewBrowserDriver example_credentials ''/home'')
         = Inr started_BrowserDriver
     \<and> BrowserDriver.recipeTimeout (NewBrowserDriver example_credentials ''/home'') = 60 * Second
     \<and> (\<forall>k d s. BrowserDriver.recipeTimeout (driver_then
            (BrowserDriver_scripted [(Some (1000, succeeded), 1), (Some (60000000000, succeeded), 3)] k d s))
          = BrowserDriver.recipeTimeout d)
     \<and> BrowserDriver_loop
           (BrowserDriver_scripted [(Some (1000, succeeded), 1), (Some (60000000000, succeeded), 3)])
           id 2 2 0 two_clicks [example_step ''click'' ''first''] started_BrowserDriver 1 zeroRecipeResult []
         = Next (started_BrowserDriver\<lparr> BrowserDriver.newFilesCount := 1 \<rparr>) 2
             \<lparr> RecipeResult.Status = ''success'', StatusText = ''acme: One new document'',
               StatusTextFormatted = ''- acme: One new document'',
               LastStepId = ''acme-1.0-1-click'', LastStepDescription = ''first'',
               LastErrorMessage = [], NewFilesCount = 1 \<rparr>
             [Send (ResultTitleAndDescriptionUpdate ''Downloading invoices from acme (1/2):'' ''first''),
              Send (ResultProgressUpdate (Quo (Add (Float64 0) (Float64 1)) (Float64 2)))]
     \<and> (sends (BrowserDriver_go
                  (BrowserDriver_scripted [(Some (1000, succeeded), 1), (Some (60000000000, succeeded), 3)])
                  2 (started_BrowserDriver\<lparr> BrowserDriver.newFilesCount := 1 \<rparr>)
                  (example_step ''click'' ''second'')) = None
          \<or> (\<exists>t lsr. sends (BrowserDriver_go
                  (BrowserDriver_scripted [(Some (1000, succeeded), 1), (Some (60000000000, succeeded), 3)])
                  2 (started_BrowserDriver\<lparr> BrowserDriver.newFilesCount := 1 \<rparr>)
                  (example_step ''click'' ''second'')) = Some (t, lsr)
                \<and> 60 * Second \<le> int t))"
    by (simp add: BrowserDriver_RunRecipe_def BrowserDriver_start_def BrowserDriver_iteration_def
        BrowserDriver_go_def BrowserDriver_actions_def BrowserDriver_LastStepId_def NewBrowserDriver_def
        ClientAuthBrowserDriver_RunRecipe_def ClientAuthBrowserDriver_start_def
        ClientAuthBrowserDriver_iteration_def ClientAuthBrowserDriver_go_def
        ClientAuthBrowserDriver_actions_def ClientAuthBrowserDriver_LastStepId_def
        NewClientAuthBrowserDriver_def
        select_result_def Second_def newDocumentsText_def zeroRecipeResult_def
        Itoa_def decimal.simps digit_def Let_def TrimSpace_def isSpace_def example_step_def example_recipe_def example_credentials_def example_startup_def
        succeeded_def BrowserDriver_scripted_def ClientAuthBrowserDriver_scripted_def two_clicks_def check_then_authenticate_def started_BrowserDriver_def
        started_ClientAuthBrowserDriver_def)
  have oauth2:
    "Steps check_then_authenticate
       = [] @ example_step ''oauth2-check-tokens'' ''first'' # [example_step ''oauth2-authenticate'' ''second'']
     \<and> ClientAuthBrowserDriver_start example_startup
           (NewClientAuthBrowserDriver example_credentials ''/config'' ''/home'')
         = Inr started_ClientAuthBrowserDriver
     \<and> recipeTimeout (NewClientAuthBrowserDriver example_credentials ''/config'' ''/home'') = 120 * Second
     \<and> (\<forall>k d s. recipeTimeout (driver_then
            (ClientAuthBrowserDriver_scripted [(Some (120000000001, succeeded), 0), (Some (1000, succeeded), 2)] k d s))
          = recipeTimeout d)
     \<and> ClientAuthBrowserDriver_loop
           (ClientAuthBrowserDriver_scripted [(Some (120000000001, succeeded), 0), (Some (1000, succeeded), 2)])
           id 2 2 0 check_then_authenticate [] started_ClientAuthBrowserDriver 1 zeroRecipeResult []
         = Next started_ClientAuthBrowserDriver 1 zeroRecipeResult []
     \<and> (sends (ClientAuthBrowserDriver_go
                  (ClientAuthBrowserDriver_scripted [(Some (120000000001, succeeded), 0), (Some (1000, succeeded), 2)])
                  1 started_ClientAuthBrowserDriver (example_step ''oauth2-check-tokens'' ''first'')) = None
          \<or> (\<exists>t lsr. sends (ClientAuthBrowserDriver_go
                  (ClientAuthBrowserDriver_scripted [(Some (120000000001, succeeded), 0), (Some (1000, succeeded), 2)])
                  1 started_ClientAuthBrowserDriver (example_step ''oauth2-check-tokens'' ''first'')) = Some (t, lsr)
                \<and> 120 * Second \<le> int t))"
    by (simp add: BrowserDriver_RunRecipe_def BrowserDriver_start_def BrowserDriver_iteration_def
        BrowserDriver_go_def BrowserDriver_actions_def BrowserDriver_LastStepId_def NewBrowserDriver_def
        ClientAuthBrowserDriver_RunRecipe_def ClientAuthBrowserDriver_start_def
        ClientAuthBrowserDriver_iteration_def ClientAuthBrowserDriver_go_def
        ClientAuthBrowserDriver_actions_def ClientAuthBrowserDriver_LastStepId_def
        NewClientAuthBrowserDriver_def
        select_result_def Second_def newDocumentsText_def zeroRecipeResult_def
        Itoa_def decimal.simps digit_def Let_def TrimSpace_def isSpace_def example_step_def example_recipe_def example_credentials_def example_startup_def
        succeeded_def BrowserDriver_scripted_def ClientAuthBrowserDriver_scripted_def two_clicks_def check_then_authenticate_def started_BrowserDriver_def
        started_ClientAuthBrowserDriver_def)
  note rest = timeout_is_hard_failure[THEN conjunct2, THEN conjunct2, THEN conjunct2]
  note a = rest[THEN conjunct1, THEN mp, OF browser]
  note b = rest[THEN conjunct2, THEN mp, OF oauth2]
  show ?thesis
    apply (intro conjI)
    subgoal using a by (simp add: BrowserDriver_RunRecipe_def BrowserDriver_start_def BrowserDriver_iteration_def
        BrowserDriver_go_def BrowserDriver_actions_def BrowserDriver_LastStepId_def NewBrowserDriver_def
        ClientAuthBrowserDriver_RunRecipe_def ClientAuthBrowserDriver_start_def
        ClientAuthBrowserDriver_iteration_def ClientAuthBrowserDriver_go_def
        ClientAuthBrowserDriver_actions_def ClientAuthBrowserDriver_LastStepId_def
        NewClientAuthBrowserDriver_def
        select_result_def Second_def newDocumentsText_def zeroRecipeResult_def
        Itoa_def decimal.simps digit_def Let_def TrimSpace_def isSpace_def example_step_def example_recipe_def example_credentials_def example_startup_def
        succeeded_def BrowserDriver_scripted_def ClientAuthBrowserDriver_scripted_def two_clicks_def check_then_authenticate_def started_BrowserDriver_def
        started_ClientAuthBrowserDriver_def)
    subgoal using b by (simp add: BrowserDriver_RunRecipe_def BrowserDriver_start_def BrowserDriver_iteration_def
        BrowserDriver_go_def BrowserDriver_actions_def BrowserDriver_LastStepId_def NewBrowserDriver_def
        ClientAuthBrowserDriver_RunRecipe_def ClientAuthBrowserDriver_start_def
        ClientAuthBrowserDriver_iteration_def ClientAuthBrowserDriver_go_def
        ClientAuthBrowserDriver_actions_def ClientAuthBrowserDriver_LastStepId_def
        NewClientAuthBrowserDriver_def
        select_result_def Second_def newDocumentsText_def zeroRecipeResult_def
        Itoa_def decimal.simps digit_def Let_def TrimSpace_def isSpace_def example_step_def example_recipe_def example_credentials_def example_startup_def
        succeeded_def BrowserDriver_scripted_def ClientAuthBrowserDriver_scripted_def two_clicks_def check_then_authenticate_def started_BrowserDriver_def
        started_ClientAuthBrowserDriver_def)
    done
qed

text \<open>
  Claim C4 as stated fails for the OAuth2-driven dispatcher: the handler of the first
  step never sends, the run ends with the timeout result, and the staging directory is
  not emptied.
\<close>

theorem oauth2_timeout_leaves_staging:
  "ClientAuthBrowserDriver_RunRecipe example_startup
        (ClientAuthBrowserDriver_scripted [(None, 0), (Some (1000, succeeded), 2)]) id
        (NewClientAuthBrowserDriver example_credentials ''/config'' ''/home'') 2 2 0 check_then_authenticate
     = Inr (\<lparr> RecipeResult.Status = ''error'', StatusText = ''acme aborted with timeout.'',
               StatusTextFormatted = ''x acme aborted with timeout.'',
               LastStepId = ''acme-1.0-1-oauth2-check-tokens'', LastStepDescription = ''first'',
               LastErrorMessage = [], NewFilesCount = 0 \<rparr>,
            started_ClientAuthBrowserDriver,
            [Send (ViewMsgStatusAndDescriptionUpdate ''Downloading invoices from acme (1/2):'' ''first'')])
   \<and> downloadsDirectory started_ClientAuthBrowserDriver = ''/staging''
   \<and> TruncateDirectory ''/staging''
         \<notin> set [Send (ViewMsgStatusAndDescriptionUpdate ''Downloading invoices from acme (1/2):'' ''first'')]"
  by (simp add: BrowserDriver_RunRecipe_def BrowserDriver_start_def BrowserDriver_iteration_def
        BrowserDriver_go_def BrowserDriver_actions_def BrowserDriver_LastStepId_def NewBrowserDriver_def
        ClientAuthBrowserDriver_RunRecipe_def ClientAuthBrowserDriver_start_def
        ClientAuthBrowserDriver_iteration_def ClientAuthBrowserDriver_go_def
        ClientAuthBrowserDriver_actions_def ClientAuthBrowserDriver_LastStepId_def
        NewClientAuthBrowserDriver_def
        select_result_def Second_def newDocumentsText_def zeroRecipeResult_def
        Itoa_def decimal.simps digit_def Let_def TrimSpace_def isSpace_def example_step_def example_recipe_def example_credentials_def example_startup_def
        succeeded_def BrowserDriver_scripted_def ClientAuthBrowserDriver_scripted_def two_clicks_def check_then_authenticate_def started_BrowserDriver_def
        started_ClientAuthBrowserDriver_def)

lemma BrowserDriver_iteration_effects:
  "(case BrowserDriver_iteration h bold tsc scs bcs recipe step b n r d of
      Next b' n' r' d' \<Rightarrow>
        d' = d @ [Send (ResultTitleAndDescriptionUpdate
                     (''Downloading invoices from '' @ Provider recipe @ '' ('' @ Itoa n @ ''/''
                        @ Itoa scs @ ''):'') (Description step)),
                  Send (ResultProgressUpdate (Quo (Add (Float64 bcs) (Float64 n)) (Float64 tsc)))]
        \<and> n' = n + 1
    | Return r' b' d' \<Rightarrow>
        d' = d @ [Send (ResultTitleAndDescriptionUpdate
                     (''Downloading invoices from '' @ Provider recipe @ '' ('' @ Itoa n @ ''/''
                        @ Itoa scs @ ''):'') (Description step)),
                  TruncateDirectory (BrowserDriver.downloadsDirectory b')])"
  by (simp add: BrowserDriver_iteration_def Let_def split: option.splits)

lemma ClientAuthBrowserDriver_iteration_effects:
  "(case ClientAuthBrowserDriver_iteration h bold tsc scs bcs recipe step b n r d of
      Next b' n' r' d' \<Rightarrow>
        d' = d @ [Send (ViewMsgStatusAndDescriptionUpdate
                     (''Downloading invoices from '' @ Supplier recipe @ '' ('' @ Itoa n @ ''/''
                        @ Itoa scs @ ''):'') (Description step)),
                  Send (ViewMsgProgressUpdate (Quo (Add (Float64 bcs) (Float64 n)) (Float64 tsc)))]
        \<and> n' = n + 1
    | Return r' b' d' \<Rightarrow>
        d' = d @ [Send (ViewMsgStatusAndDescriptionUpdate
                     (''Downloading invoices from '' @ Supplier recipe @ '' ('' @ Itoa n @ ''/''
                        @ Itoa scs @ ''):'') (Description step))])"
  by (simp add: ClientAuthBrowserDriver_iteration_def Let_def split: option.splits)

lemma BrowserDriver_iteration_Next_iff:
  "(\<exists>b' n' r' d'. BrowserDriver_iteration h bold tsc scs bcs recipe step b n r d = Next b' n' r' d')
   \<longleftrightarrow> (\<exists>lsr. select_result (BrowserDriver.recipeTimeout b) (BrowserDriver_go h n b step) = Some lsr
              \<and> StepResult.Status lsr = ''success'')"
  by (auto simp: BrowserDriver_iteration_def Let_def split: option.splits)

lemma ClientAuthBrowserDriver_iteration_Next_iff:
  "(\<exists>b' n' r' d'. ClientAuthBrowserDriver_iteration h bold tsc scs bcs recipe step b n r d = Next b' n' r' d')
   \<longleftrightarrow> (\<exists>lsr. select_result (recipeTimeout b) (ClientAuthBrowserDriver_go h n b step) = Some lsr
              \<and> (StepResult.Status lsr = ''success'' \<or> \<not> Break lsr))"
  by (auto simp: ClientAuthBrowserDriver_iteration_def Let_def split: option.splits)

lemma BrowserDriver_loop_effects:
  "BrowserDriver_loop h bold tsc scs bcs recipe steps b (int k) r d = Next b' n' r' d' \<Longrightarrow>
   d' = d @ concat (map (\<lambda>(i, step).
              [Send (ResultTitleAndDescriptionUpdate
                  (''Downloading invoices from '' @ Provider recipe @ '' ('' @ Itoa (int i) @ ''/''
                     @ Itoa scs @ ''):'') (Description step)),
               Send (ResultProgressUpdate (Quo (Add (Float64 bcs) (Float64 (int i))) (Float64 tsc)))])
            (enumerate k steps))"
proof (induction steps arbitrary: b k r d)
  case Nil
  then show ?case by simp
next
  case (Cons step steps)
  from Cons.prems obtain b1 n1 r1 d1
    where first: "BrowserDriver_iteration h bold tsc scs bcs recipe step b (int k) r d = Next b1 n1 r1 d1"
      and rest: "BrowserDriver_loop h bold tsc scs bcs recipe steps b1 n1 r1 d1 = Next b' n' r' d'"
    by (auto split: flow.splits)
  from BrowserDriver_iteration_effects[where h = h and bold = bold and tsc = tsc and scs = scs and bcs = bcs and recipe = recipe and step = step and b = b and n = "int k" and r = r and d = d] first
  have d1: "d1 = d @ [Send (ResultTitleAndDescriptionUpdate
                     (''Downloading invoices from '' @ Provider recipe @ '' ('' @ Itoa (int k) @ ''/''
                        @ Itoa scs @ ''):'') (Description step)),
                  Send (ResultProgressUpdate (Quo (Add (Float64 bcs) (Float64 (int k))) (Float64 tsc)))]"
    and n1: "n1 = int (Suc k)"
    by simp_all
  from Cons.IH[OF rest[unfolded n1]] d1 show ?case by simp
qed

lemma ClientAuthBrowserDriver_loop_effects:
  "ClientAuthBrowserDriver_loop h bold tsc scs bcs recipe steps b (int k) r d = Next b' n' r' d' \<Longrightarrow>
   d' = d @ concat (map (\<lambda>(i, step).
              [Send (ViewMsgStatusAndDescriptionUpdate
                  (''Downloading invoices from '' @ Supplier recipe @ '' ('' @ Itoa (int i) @ ''/''
                     @ Itoa scs @ ''):'') (Description step)),
               Send (ViewMsgProgressUpdate (Quo (Add (Float64 bcs) (Float64 (int i))) (Float64 tsc)))])
            (enumerate k steps))"
proof (induction steps arbitrary: b k r d)
  case Nil
  then show ?case by simp
next
  case (Cons step steps)
  from Cons.prems obtain b1 n1 r1 d1
    where first: "ClientAuthBrowserDriver_iteration h bold tsc scs bcs recipe step b (int k) r d = Next b1 n1 r1 d1"
      and rest: "ClientAuthBrowserDriver_loop h bold tsc scs bcs recipe steps b1 n1 r1 d1 = Next b' n' r' d'"
    by (auto split: flow.splits)
  from ClientAuthBrowserDriver_iteration_effects[where h = h and bold = bold and tsc = tsc and scs = scs and bcs = bcs and recipe = recipe and step = step and b = b and n = "int k" and r = r and d = d] first
  have d1: "d1 = d @ [Send (ViewMsgStatusAndDescriptionUpdate
                     (''Downloading invoices from '' @ Supplier recipe @ '' ('' @ Itoa (int k) @ ''/''
                        @ Itoa scs @ ''):'') (Description step)),
                  Send (ViewMsgProgressUpdate (Quo (Add (Float64 bcs) (Float64 (int k))) (Float64 tsc)))]"
    and n1: "n1 = int (Suc k)"
    by simp_all
  from Cons.IH[OF rest[unfolded n1]] d1 show ?case by simp
qed

lemma BrowserDriver_progress_at:
  assumes steps: "Steps recipe = pre @ step # post"
    and start: "BrowserDriver_start env b0 = Inr b1"
    and before: "BrowserDriver_loop handler textStyleBold tsc scs bcs recipe pre b1 1 zeroRecipeResult []
                   = Next b m result done"
  shows "let title = Send (ResultTitleAndDescriptionUpdate
                       (''Downloading invoices from '' @ Provider recipe @ '' ('' @ Itoa m @ ''/''
                          @ Itoa scs @ ''):'') (Description step));
             progress = Send (ResultProgressUpdate
                          (Quo (Add (Float64 bcs) (Float64 (1 + int (length pre)))) (Float64 tsc)))
         in m = 1 + int (length pre)
          \<and> (case BrowserDriver_iteration handler textStyleBold tsc scs bcs recipe step b m result done of
                Next b' n' r' d' \<Rightarrow> d' = done @ [title, progress]
              | Return r' b' d' \<Rightarrow>
                  d' = done @ [title, TruncateDirectory (BrowserDriver.downloadsDirectory b')]
                  \<and> BrowserDriver_RunRecipe env handler textStyleBold b0 tsc scs bcs recipe = Inr (r', b', d'))
          \<and> ((\<exists>b' n' r' d'. BrowserDriver_iteration handler textStyleBold tsc scs bcs recipe step b m result done
                               = Next b' n' r' d')
              \<longleftrightarrow> (\<exists>lsr. select_result (BrowserDriver.recipeTimeout b) (BrowserDriver_go handler m b step) = Some lsr
                          \<and> StepResult.Status lsr = ''success''))"
proof -
  note at = BrowserDriver_RunRecipe_at[OF steps start before]
  have idx: "m = 1 + int (length pre)"
    using BrowserDriver_loop_Next[OF before] by simp
  show ?thesis
    unfolding Let_def
    apply (intro conjI)
    subgoal by (rule idx)
    subgoal
      using BrowserDriver_iteration_effects[where h = handler and bold = textStyleBold and tsc = tsc and scs = scs and bcs = bcs and recipe = recipe and step = step and b = b and n = m and r = result and d = "done"]
      by (auto simp: at idx split: flow.splits)
    subgoal by (rule BrowserDriver_iteration_Next_iff)
    done
qed

lemma ClientAuthBrowserDriver_progress_at:
  assumes steps: "Steps recipe = pre @ step # post"
    and start: "ClientAuthBrowserDriver_start env c0 = Inr c1"
    and before: "ClientAuthBrowserDriver_loop handler' textStyleBold tsc scs bcs recipe pre c1 1
                   zeroRecipeResult [] = Next c n result done"
  shows "let title = Send (ViewMsgStatusAndDescriptionUpdate
                       (''Downloading invoices from '' @ Supplier recipe @ '' ('' @ Itoa n @ ''/''
                          @ Itoa scs @ ''):'') (Description step));
             progress = Send (ViewMsgProgressUpdate
                          (Quo (Add (Float64 bcs) (Float64 (1 + int (length pre)))) (Float64 tsc)))
         in n = 1 + int (length pre)
          \<and> (case ClientAuthBrowserDriver_iteration handler' textStyleBold tsc scs bcs recipe step c n result done of
                Next c' n' r' d' \<Rightarrow> d' = done @ [title, progress]
              | Return r' c' d' \<Rightarrow>
                  d' = done @ [title]
                  \<and> ClientAuthBrowserDriver_RunRecipe env handler' textStyleBold c0 tsc scs bcs recipe
                      = Inr (r', c', d'))
          \<and> ((\<exists>c' n' r' d'. ClientAuthBrowserDriver_iteration handler' textStyleBold tsc scs bcs recipe step c n
                               result done = Next c' n' r' d')
              \<longleftrightarrow> (\<exists>lsr. select_result (recipeTimeout c) (ClientAuthBrowserDriver_go handler' n c step) = Some lsr
                          \<and> (StepResult.Status lsr = ''success'' \<or> \<not> Break lsr)))"
proof -
  note at = ClientAuthBrowserDriver_RunRecipe_at[OF steps start before]
  have idx: "n = 1 + int (length pre)"
    using ClientAuthBrowserDriver_loop_Next[OF before] by simp
  show ?thesis
    unfolding Let_def
    apply (intro conjI)
    subgoal by (rule idx)
    subgoal
      using ClientAuthBrowserDriver_iteration_effects[where h = handler' and bold = textStyleBold and tsc = tsc and scs = scs and bcs = bcs and recipe = recipe and step = step and b = c and n = n and r = result and d = "done"]
      by (auto simp: at idx split: flow.splits)
    subgoal by (rule ClientAuthBrowserDriver_iteration_Next_iff)
    done
qed

lemma BrowserDriver_progress_all:
  assumes start: "BrowserDriver_start env b0 = Inr b1"
    and loop: "BrowserDriver_loop handler textStyleBold tsc scs bcs recipe (Steps recipe) b1 1
                 zeroRecipeResult [] = Next b' m' result' done'"
  shows "BrowserDriver_RunRecipe env handler textStyleBold b0 tsc scs bcs recipe
           = Inr (result', b',
                  concat (map (\<lambda>(i, step).
                      [Send (ResultTitleAndDescriptionUpdate
                          (''Downloading invoices from '' @ Provider recipe @ '' ('' @ Itoa (int i) @ ''/''
                             @ Itoa scs @ ''):'') (Description step)),
                       Send (ResultProgressUpdate (Quo (Add (Float64 bcs) (Float64 (int i))) (Float64 tsc)))])
                    (enumerate 1 (Steps recipe)))
                  @ [TruncateDirectory (BrowserDriver.downloadsDirectory b')])"
  using BrowserDriver_loop_effects[where k = 1 and d = "[]", simplified, OF loop] loop start
  by (simp add: BrowserDriver_RunRecipe_def)

lemma ClientAuthBrowserDriver_progress_all:
  assumes start: "ClientAuthBrowserDriver_start env c0 = Inr c1"
    and loop: "ClientAuthBrowserDriver_loop handler' textStyleBold tsc scs bcs recipe (Steps recipe) c1 1
                 zeroRecipeResult [] = Next c' n' result' done'"
  shows "ClientAuthBrowserDriver_RunRecipe env handler' textStyleBold c0 tsc scs bcs recipe
           = Inr (result', c',
                  concat (map (\<lambda>(i, step).
                      [Send (ViewMsgStatusAndDescriptionUpdate
                          (''Downloading invoices from '' @ Supplier recipe @ '' ('' @ Itoa (int i) @ ''/''
                             @ Itoa scs @ ''):'') (Description step)),
                       Send (ViewMsgProgressUpdate (Quo (Add (Float64 bcs) (Float64 (int i))) (Float64 tsc)))])
                    (enumerate 1 (Steps recipe))))"
  using ClientAuthBrowserDriver_loop_effects[where k = 1 and d = "[]", simplified, OF loop] loop start
  by (simp add: ClientAuthBrowserDriver_RunRecipe_def)


text \<open>
  Claim C8, as the code has it. Let a run have reached a step, the \<open>n\<close>-th of the recipe
  counted from 1. When the pass through the loop body for this step goes on to the next
  step, it has sent exactly the title message of the step and then one progress message
  whose percentage is \<open>(float64(bcs) + float64(n)) / float64(tsc)\<close>, \<open>bcs\<close> the steps
  completed before this recipe and \<open>tsc\<close> the steps of all recipes; it goes on exactly
  when the result of the handler arrives in time and is a success, or, in the
  OAuth2-driven dispatcher only, an error without the break flag. When the pass returns
  instead (a timeout, or an error that ends the run), no progress message follows the
  title message. A run whose loop ends by itself has sent a title and a progress
  message for every step, in order.
\<close>

theorem progress_after_continuing_step:
  "(Steps recipe = pre @ step # post
    \<and> BrowserDriver_start env b0 = Inr b1
    \<and> BrowserDriver_loop handler textStyleBold tsc scs bcs recipe pre b1 1 zeroRecipeResult []
         = Next b m result done
    \<longrightarrow> (let title = Send (ResultTitleAndDescriptionUpdate
                       (''Downloading invoices from '' @ Provider recipe @ '' ('' @ Itoa m @ ''/''
                          @ Itoa scs @ ''):'') (Description step));
             progress = Send (ResultProgressUpdate
                          (Quo (Add (Float64 bcs) (Float64 (1 + int (length pre)))) (Float64 tsc)))
         in m = 1 + int (length pre)
          \<and> (case BrowserDriver_iteration handler textStyleBold tsc scs bcs recipe step b m result done of
                Next b' n' r' d' \<Rightarrow> d' = done @ [title, progress]
              | Return r' b' d' \<Rightarrow>
                  d' = done @ [title, TruncateDirectory (BrowserDriver.downloadsDirectory b')]
                  \<and> BrowserDriver_RunRecipe env handler textStyleBold b0 tsc scs bcs recipe = Inr (r', b', d'))
          \<and> ((\<exists>b' n' r' d'. BrowserDriver_iteration handler textStyleBold tsc scs bcs recipe step b m result done
                               = Next b' n' r' d')
              \<longleftrightarrow> (\<exists>lsr. select_result (BrowserDriver.recipeTimeout b) (BrowserDriver_go handler m b step) = Some lsr
                          \<and> StepResult.Status lsr = ''success''))))
   \<and> (Steps recipe = pre @ step # post
    \<and> ClientAuthBrowserDriver_start env c0 = Inr c1
    \<and> ClientAuthBrowserDriver_loop handler' textStyleBold tsc scs bcs recipe pre c1 1
         zeroRecipeResult [] = Next c n result done
    \<longrightarrow> (let title = Send (ViewMsgStatusAndDescriptionUpdate
                       (''Downloading invoices from '' @ Supplier recipe @ '' ('' @ Itoa n @ ''/''
                          @ Itoa scs @ ''):'') (Description step));
             progress = Send (ViewMsgProgressUpdate
                          (Quo (Add (Float64 bcs) (Float64 (1 + int (length pre)))) (Float64 tsc)))
         in n = 1 + int (length pre)
          \<and> (case ClientAuthBrowserDriver_iteration handler' textStyleBold tsc scs bcs recipe step c n result done of
                Next c' n' r' d' \<Rightarrow> d' = done @ [title, progress]
              | Return r' c' d' \<Rightarrow>
                  d' = done @ [title]
                  \<and> ClientAuthBrowserDriver_RunRecipe env handler' textStyleBold c0 tsc scs bcs recipe
                      = Inr (r', c', d'))
          \<and> ((\<exists>c' n' r' d'. ClientAuthBrowserDriver_iteration handler' textStyleBold tsc scs bcs recipe step c n
                               result done = Next c' n' r' d')
              \<longleftrightarrow> (\<exists>lsr. select_result (recipeTimeout c) (ClientAuthBrowserDriver_go handler' n c step) = Some lsr
                          \<and> (StepResult.Status lsr = ''success'' \<or> \<not> Break lsr)))))
   \<and> (BrowserDriver_start env b0 = Inr b1
    \<and> BrowserDriver_loop handler textStyleBold tsc scs bcs recipe (Steps recipe) b1 1
         zeroRecipeResult [] = Next b' m' result' done'
    \<longrightarrow> BrowserDriver_RunRecipe env handler textStyleBold b0 tsc scs bcs recipe
           = Inr (result', b',
                  concat (map (\<lambda>(i, step).
                      [Send (ResultTitleAndDescriptionUpdate
                          (''Downloading invoices from '' @ Provider recipe @ '' ('' @ Itoa (int i) @ ''/''
                             @ Itoa scs @ ''):'') (Description step)),
                       Send (ResultProgressUpdate (Quo (Add (Float64 bcs) (Float64 (int i))) (Float64 tsc)))])
                    (enumerate 1 (Steps recipe)))
                  @ [TruncateDirectory (BrowserDriver.downloadsDirectory b')]))
   \<and> (ClientAuthBrowserDriver_start env c0 = Inr c1
    \<and> ClientAuthBrowserDriver_loop handler' textStyleBold tsc scs bcs recipe (Steps recipe) c1 1
         zeroRecipeResult [] = Next c' n' result' done'
    \<longrightarrow> ClientAuthBrowserDriver_RunRecipe env handler' textStyleBold c0 tsc scs bcs recipe
           = Inr (result', c',
                  concat (map (\<lambda>(i, step).
                      [Send (ViewMsgStatusAndDescriptionUpdate
                          (''Downloading invoices from '' @ Supplier recipe @ '' ('' @ Itoa (int i) @ ''/''
                             @ Itoa scs @ ''):'') (Description step)),
                       Send (ViewMsgProgressUpdate (Quo (Add (Float64 bcs) (Float64 (int i))) (Float64 tsc)))])
                    (enumerate 1 (Steps recipe)))))"
  apply (intro conjI impI)
  subgoal by (elim conjE) (rule BrowserDriver_progress_at; assumption)
  subgoal by (elim conjE) (rule ClientAuthBrowserDriver_progress_at; assumption)
  subgoal by (elim conjE) (rule BrowserDriver_progress_all; assumption)
  subgoal by (elim conjE) (rule ClientAuthBrowserDriver_progress_all; assumption)
  done

theorem progress_after_continuing_step_witness:
  "BrowserDriver_RunRecipe example_startup
        (BrowserDriver_scripted [(Some (1000, succeeded), 0), (Some (2000, succeeded), 1)]) id
        (NewBrowserDriver example_credentials ''/home'') 5 2 3 two_clicks
     = Inr (\<lparr> RecipeResult.Status = ''success'', StatusText = ''acme: One new document'',
               StatusTextFormatted = ''- acme: One new document'',
               LastStepId = ''acme-1.0-2-click'', LastStepDescription = ''second'',
               LastErrorMessage = [], NewFilesCount = 1 \<rparr>,
            started_BrowserDriver\<lparr> BrowserDriver.newFilesCount := 1 \<rparr>,
            [Send (ResultTitleAndDescriptionUpdate ''Downloading invoices from acme (1/2):'' ''first''),
             Send (ResultProgressUpdate (Quo (Add (Float64 3) (Float64 1)) (Float64 5))),
             Send (ResultTitleAndDescriptionUpdate ''Downloading invoices from acme (2/2):'' ''second''),
             Send (ResultProgressUpdate (Quo (Add (Float64 3) (Float64 2)) (Float64 5))),
             TruncateDirectory ''/staging''])
   \<and> ClientAuthBrowserDriver_RunRecipe example_startup
        (ClientAuthBrowserDriver_scripted [(Some (1000, failed_soft), 0), (Some (1000, succeeded), 2)]) id
        (NewClientAuthBrowserDriver example_credentials ''/config'' ''/home'') 4 2 2 check_then_authenticate
     = Inr (\<lparr> RecipeResult.Status = ''success'', StatusText = ''acme: 2 new documents'',
               StatusTextFormatted = ''- acme: 2 new documents'',
               LastStepId = ''acme-1.0-2-oauth2-authenticate'', LastStepDescription = ''second'',
               LastErrorMessage = [], NewFilesCount = 2 \<rparr>,
            started_ClientAuthBrowserDriver\<lparr> newFilesCount := 2 \<rparr>,
            [Send (ViewMsgStatusAndDescriptionUpdate ''Downloading invoices from acme (1/2):'' ''first''),
             Send (ViewMsgProgressUpdate (Quo (Add (Float64 2) (Float64 1)) (Float64 4))),
             Send (ViewMsgStatusAndDescriptionUpdate ''Downloading invoices from acme (2/2):'' ''second''),
             Send (ViewMsgProgressUpdate (Quo (Add (Float64 2) (Float64 2)) (Float64 4)))])
   \<and> BrowserDriver_iteration
        (BrowserDriver_scripted [(Some (1000, succeeded), 0), (Some (2000, succeeded), 1)]) id 5 2 3 two_clicks
        (example_step ''click'' ''first'') started_BrowserDriver 1 zeroRecipeResult []
     = Next started_BrowserDriver 2
         \<lparr> RecipeResult.Status = ''success'', StatusText = ''acme: No new documents'',
           StatusTextFormatted = ''- acme: No new documents'',
           LastStepId = ''acme-1.0-1-click'', LastStepDescription = ''first'',
           LastErrorMessage = [], NewFilesCount = 0 \<rparr>
         [Send (ResultTitleAndDescriptionUpdate ''Downloading invoices from acme (1/2):'' ''first''),
          Send (ResultProgressUpdate (Quo (Add (Float64 3) (Float64 1)) (Float64 5)))]
   \<and> ClientAuthBrowserDriver_iteration
        (ClientAuthBrowserDriver_scripted [(Some (1000, failed_hard), 0)]) id 4 2 2 check_then_authenticate
        (example_step ''oauth2-check-tokens'' ''first'') started_ClientAuthBrowserDriver 1 zeroRecipeResult []
     = Return
         \<lparr> RecipeResult.Status = ''error'', StatusText = ''acme aborted with error.'',
           StatusTextFormatted = ''x acme aborted with error.'',
           LastStepId = ''acme-1.0-1-oauth2-check-tokens'', LastStepDescription = ''first'',
           LastErrorMessage = ''no ids'', NewFilesCount = 0 \<rparr>
         started_ClientAuthBrowserDriver
         [Send (ViewMsgStatusAndDescriptionUpdate ''Downloading invoices from acme (1/2):'' ''first'')]"
proof -
  let ?bs = "BrowserDriver_scripted [(Some (1000, succeeded), 0), (Some (2000, succeeded), 1)]"
  let ?cs = "ClientAuthBrowserDriver_scripted [(Some (1000, failed_soft), 0), (Some (1000, succeeded), 2)]"
  let ?ch = "ClientAuthBrowserDriver_scripted [(Some (1000, failed_hard), 0)]"
  have browser_all:
    "BrowserDriver_start example_startup (NewBrowserDriver example_credentials ''/home'')
       = Inr started_BrowserDriver
     \<and> BrowserDriver_loop ?bs id 5 2 3 two_clicks (Steps two_clicks) started_BrowserDriver 1
          zeroRecipeResult []
       = Next (started_BrowserDriver\<lparr> BrowserDriver.newFilesCount := 1 \<rparr>) 3
           \<lparr> RecipeResult.Status = ''success'', StatusText = ''acme: One new document'',
             StatusTextFormatted = ''- acme: One new document'',
             LastStepId = ''acme-1.0-2-click'', LastStepDescription = ''second'',
             LastErrorMessage = [], NewFilesCount = 1 \<rparr>
           [Send (ResultTitleAndDescriptionUpdate ''Downloading invoices from acme (1/2):'' ''first''),
            Send (ResultProgressUpdate (Quo (Add (Float64 3) (Float64 1)) (Float64 5))),
            Send (ResultTitleAndDescriptionUpdate ''Downloading invoices from acme (2/2):'' ''second''),
            Send (ResultProgressUpdate (Quo (Add (Float64 3) (Float64 2)) (Float64 5)))]"
    by (simp add: BrowserDriver_RunRecipe_def BrowserDriver_start_def BrowserDriver_iteration_def
        BrowserDriver_go_def BrowserDriver_actions_def BrowserDriver_LastStepId_def NewBrowserDriver_def
        ClientAuthBrowserDriver_RunRecipe_def ClientAuthBrowserDriver_start_def
        ClientAuthBrowserDriver_iteration_def ClientAuthBrowserDriver_go_def
        ClientAuthBrowserDriver_actions_def ClientAuthBrowserDriver_LastStepId_def
        NewClientAuthBrowserDriver_def
        select_result_def Second_def newDocumentsText_def zeroRecipeResult_def
        Itoa_def decimal.simps digit_def Let_def TrimSpace_def isSpace_def example_step_def example_recipe_def example_credentials_def example_startup_def
        succeeded_def failed_soft_def failed_hard_def BrowserDriver_scripted_def ClientAuthBrowserDriver_scripted_def two_clicks_def check_then_authenticate_def started_BrowserDriver_def
        started_ClientAuthBrowserDriver_def)
  have oauth2_all:
    "ClientAuthBrowserDriver_start example_startup
         (NewClientAuthBrowserDriver example_credentials ''/config'' ''/home'')
       = Inr started_ClientAuthBrowserDriver
     \<and> ClientAuthBrowserDriver_loop ?cs id 4 2 2 check_then_authenticate (Steps check_then_authenticate)
          started_ClientAuthBrowserDriver 1 zeroRecipeResult []
       = Next (started_ClientAuthBrowserDriver\<lparr> newFilesCount := 2 \<rparr>) 3
           \<lparr> RecipeResult.Status = ''success'', StatusText = ''acme: 2 new documents'',
             StatusTextFormatted = ''- acme: 2 new documents'',
             LastStepId = ''acme-1.0-2-oauth2-authenticate'', LastStepDescription = ''second'',
             LastErrorMessage = [], NewFilesCount = 2 \<rparr>
           [Send (ViewMsgStatusAndDescriptionUpdate ''Downloading invoices from acme (1/2):'' ''first''),
            Send (ViewMsgProgressUpdate (Quo (Add (Float64 2) (Float64 1)) (Float64 4))),
            Send (ViewMsgStatusAndDescriptionUpdate ''Downloading invoices from acme (2/2):'' ''second''),
            Send (ViewMsgProgressUpdate (Quo (Add (Float64 2) (Float64 2)) (Float64 4)))]"
    by (simp add: BrowserDriver_RunRecipe_def BrowserDriver_start_def BrowserDriver_iteration_def
        BrowserDriver_go_def BrowserDriver_actions_def BrowserDriver_LastStepId_def NewBrowserDriver_def
        ClientAuthBrowserDriver_RunRecipe_def ClientAuthBrowserDriver_start_def
        ClientAuthBrowserDriver_iteration_def ClientAuthBrowserDriver_go_def
        ClientAuthBrowserDriver_actions_def ClientAuthBrowserDriver_LastStepId_def
        NewClientAuthBrowserDriver_def
        select_result_def Second_def newDocumentsText_def zeroRecipeResult_def
        Itoa_def decimal.simps digit_def Let_def TrimSpace_def isSpace_def example_step_def example_recipe_def example_credentials_def example_startup_def
        succeeded_def failed_soft_def failed_hard_def BrowserDriver_scripted_def ClientAuthBrowserDriver_scripted_def two_clicks_def check_then_authenticate_def started_BrowserDriver_def
        started_ClientAuthBrowserDriver_def)
  have browser_at:
    "Steps two_clicks = [] @ example_step ''click'' ''first'' # [example_step ''click'' ''second'']
     \<and> BrowserDriver_start example_startup (NewBrowserDriver example_credentials ''/home'')
         = Inr started_BrowserDriver
     \<and> BrowserDriver_loop ?bs id 5 2 3 two_clicks [] started_BrowserDriver 1 zeroRecipeResult []
         = Next started_BrowserDriver 1 zeroRecipeResult []"
    by (simp add: BrowserDriver_RunRecipe_def BrowserDriver_start_def BrowserDriver_iteration_def
        BrowserDriver_go_def BrowserDriver_actions_def BrowserDriver_LastStepId_def NewBrowserDriver_def
        ClientAuthBrowserDriver_RunRecipe_def ClientAuthBrowserDriver_start_def
        ClientAuthBrowserDriver_iteration_def ClientAuthBrowserDriver_go_def
        ClientAuthBrowserDriver_actions_def ClientAuthBrowserDriver_LastStepId_def
        NewClientAuthBrowserDriver_def
        select_result_def Second_def newDocumentsText_def zeroRecipeResult_def
        Itoa_def decimal.simps digit_def Let_def TrimSpace_def isSpace_def example_step_def example_recipe_def example_credentials_def example_startup_def
        succeeded_def failed_soft_def failed_hard_def BrowserDriver_scripted_def ClientAuthBrowserDriver_scripted_def two_clicks_def check_then_authenticate_def started_BrowserDriver_def
        started_ClientAuthBrowserDriver_def)
  have oauth2_at:
    "Steps check_then_authenticate
       = [] @ example_step ''oauth2-check-tokens'' ''first'' # [example_step ''oauth2-authenticate'' ''second'']
     \<and> ClientAuthBrowserDriver_start example_startup
           (NewClientAuthBrowserDriver example_credentials ''/config'' ''/home'')
         = Inr started_ClientAuthBrowserDriver
     \<and> ClientAuthBrowserDriver_loop ?ch id 4 2 2 check_then_authenticate [] started_ClientAuthBrowserDriver 1
           zeroRecipeResult []
         = Next started_ClientAuthBrowserDriver 1 zeroRecipeResult []"
    by (simp add: BrowserDriver_RunRecipe_def BrowserDriver_start_def BrowserDriver_iteration_def
        BrowserDriver_go_def BrowserDriver_actions_def BrowserDriver_LastStepId_def NewBrowserDriver_def
        ClientAuthBrowserDriver_RunRecipe_def ClientAuthBrowserDriver_start_def
        ClientAuthBrowserDriver_iteration_def ClientAuthBrowserDriver_go_def
        ClientAuthBrowserDriver_actions_def ClientAuthBrowserDriver_LastStepId_def
        NewClientAuthBrowserDriver_def
        select_result_def Second_def newDocumentsText_def zeroRecipeResult_def
        Itoa_def decimal.simps digit_def Let_def TrimSpace_def isSpace_def example_step_def example_recipe_def example_credentials_def example_startup_def
        succeeded_def failed_soft_def failed_hard_def BrowserDriver_scripted_def ClientAuthBrowserDriver_scripted_def two_clicks_def check_then_authenticate_def started_BrowserDriver_def
        started_ClientAuthBrowserDriver_def)
  note a = progress_after_continuing_step[THEN conjunct2, THEN conjunct2, THEN conjunct1, THEN mp, OF browser_all]
  note b = progress_after_continuing_step[THEN conjunct2, THEN conjunct2, THEN conjunct2, THEN mp, OF oauth2_all]
  note c = progress_after_continuing_step[THEN conjunct1, THEN mp, OF browser_at]
  note d = progress_after_continuing_step[THEN conjunct2, THEN conjunct1, THEN mp, OF oauth2_at]
  show ?thesis
    apply (intro conjI)
    subgoal using a by (simp add: BrowserDriver_RunRecipe_def BrowserDriver_start_def BrowserDriver_iteration_def
        BrowserDriver_go_def BrowserDriver_actions_def BrowserDriver_LastStepId_def NewBrowserDriver_def
        ClientAuthBrowserDriver_RunRecipe_def ClientAuthBrowserDriver_start_def
        ClientAuthBrowserDriver_iteration_def ClientAuthBrowserDriver_go_def
        ClientAuthBrowserDriver_actions_def ClientAuthBrowserDriver_LastStepId_def
        NewClientAuthBrowserDriver_def
        select_result_def Second_def newDocumentsText_def zeroRecipeResult_def
        Itoa_def decimal.simps digit_def Let_def TrimSpace_def isSpace_def example_step_def example_recipe_def example_credentials_def example_startup_def
        succeeded_def failed_soft_def failed_hard_def BrowserDriver_scripted_def ClientAuthBrowserDriver_scripted_def two_clicks_def check_then_authenticate_def started_BrowserDriver_def
        started_ClientAuthBrowserDriver_def enumerate_eq_zip)
    subgoal using b by (simp add: BrowserDriver_RunRecipe_def BrowserDriver_start_def BrowserDriver_iteration_def
        BrowserDriver_go_def BrowserDriver_actions_def BrowserDriver_LastStepId_def NewBrowserDriver_def
        ClientAuthBrowserDriver_RunRecipe_def ClientAuthBrowserDriver_start_def
        ClientAuthBrowserDriver_iteration_def ClientAuthBrowserDriver_go_def
        ClientAuthBrowserDriver_actions_def ClientAuthBrowserDriver_LastStepId_def
        NewClientAuthBrowserDriver_def
        select_result_def Second_def newDocumentsText_def zeroRecipeResult_def
        Itoa_def decimal.simps digit_def Let_def TrimSpace_def isSpace_def example_step_def example_recipe_def example_credentials_def example_startup_def
        succeeded_def failed_soft_def failed_hard_def BrowserDriver_scripted_def ClientAuthBrowserDriver_scripted_def two_clicks_def check_then_authenticate_def started_BrowserDriver_def
        started_ClientAuthBrowserDriver_def enumerate_eq_zip)
    subgoal using c by (simp add: BrowserDriver_RunRecipe_def BrowserDriver_start_def BrowserDriver_iteration_def
        BrowserDriver_go_def BrowserDriver_actions_def BrowserDriver_LastStepId_def NewBrowserDriver_def
        ClientAuthBrowserDriver_RunRecipe_def ClientAuthBrowserDriver_start_def
        ClientAuthBrowserDriver_iteration_def ClientAuthBrowserDriver_go_def
        ClientAuthBrowserDriver_actions_def ClientAuthBrowserDriver_LastStepId_def
        NewClientAuthBrowserDriver_def
        select_result_def Second_def newDocumentsText_def zeroRecipeResult_def
        Itoa_def decimal.simps digit_def Let_def TrimSpace_def isSpace_def example_step_def example_recipe_def example_credentials_def example_startup_def
        succeeded_def failed_soft_def failed_hard_def BrowserDriver_scripted_def ClientAuthBrowserDriver_scripted_def two_clicks_def check_then_authenticate_def started_BrowserDriver_def
        started_ClientAuthBrowserDriver_def)
    subgoal using d by (simp add: BrowserDriver_RunRecipe_def BrowserDriver_start_def BrowserDriver_iteration_def
        BrowserDriver_go_def BrowserDriver_actions_def BrowserDriver_LastStepId_def NewBrowserDriver_def
        ClientAuthBrowserDriver_RunRecipe_def ClientAuthBrowserDriver_start_def
        ClientAuthBrowserDriver_iteration_def ClientAuthBrowserDriver_go_def
        ClientAuthBrowserDriver_actions_def ClientAuthBrowserDriver_LastStepId_def
        NewClientAuthBrowserDriver_def
        select_result_def Second_def newDocumentsText_def zeroRecipeResult_def
        Itoa_def decimal.simps digit_def Let_def TrimSpace_def isSpace_def example_step_def example_recipe_def example_credentials_def example_startup_def
        succeeded_def failed_soft_def failed_hard_def BrowserDriver_scripted_def ClientAuthBrowserDriver_scripted_def two_clicks_def check_then_authenticate_def started_BrowserDriver_def
        started_ClientAuthBrowserDriver_def)
    done
qed

text \<open>
  Claim C8 as stated fails on a step that ends the run: the second step of this run
  delivers an error, and no progress message for it is sent.
\<close>

theorem no_progress_after_failed_step:
  "BrowserDriver_RunRecipe example_startup
        (BrowserDriver_scripted [(Some (1000, succeeded), 0), (Some (2000, failed_soft), 0)]) id
        (NewBrowserDriver example_credentials ''/home'') 5 2 3 two_clicks
     = Inr (\<lparr> RecipeResult.Status = ''error'', StatusText = ''acmeaborted with error.'',
               StatusTextFormatted = ''x acme aborted with error.'',
               LastStepId = ''acme-1.0-2-click'', LastStepDescription = ''second'',
               LastErrorMessage = ''no token'', NewFilesCount = 0 \<rparr>,
            started_BrowserDriver,
            [Send (ResultTitleAndDescriptionUpdate ''Downloading invoices from acme (1/2):'' ''first''),
             Send (ResultProgressUpdate (Quo (Add (Float64 3) (Float64 1)) (Float64 5))),
             Send (ResultTitleAndDescriptionUpdate ''Downloading invoices from acme (2/2):'' ''second''),
             TruncateDirectory ''/staging''])
   \<and> Send (ResultProgressUpdate (Quo (Add (Float64 3) (Float64 2)) (Float64 5)))
         \<notin> set [Send (ResultTitleAndDescriptionUpdate ''Downloading invoices from acme (1/2):'' ''first''),
                 Send (ResultProgressUpdate (Quo (Add (Float64 3) (Float64 1)) (Float64 5))),
                 Send (ResultTitleAndDescriptionUpdate ''Downloading invoices from acme (2/2):'' ''second''),
                 TruncateDirectory ''/staging'']"
  by (simp add: BrowserDriver_RunRecipe_def BrowserDriver_start_def BrowserDriver_iteration_def
        BrowserDriver_go_def BrowserDriver_actions_def BrowserDriver_LastStepId_def NewBrowserDriver_def
        ClientAuthBrowserDriver_RunRecipe_def ClientAuthBrowserDriver_start_def
        ClientAuthBrowserDriver_iteration_def ClientAuthBrowserDriver_go_def
        ClientAuthBrowserDriver_actions_def ClientAuthBrowserDriver_LastStepId_def
        NewClientAuthBrowserDriver_def
        select_result_def Second_def newDocumentsText_def zeroRecipeResult_def
        Itoa_def decimal.simps digit_def Let_def TrimSpace_def isSpace_def example_step_def example_recipe_def example_credentials_def example_startup_def
        succeeded_def failed_soft_def failed_hard_def BrowserDriver_scripted_def ClientAuthBrowserDriver_scripted_def two_clicks_def check_then_authenticate_def started_BrowserDriver_def
        started_ClientAuthBrowserDriver_def)

section \<open>Properties of the OAuth2 steps\<close>

lemma getOauth2Tokens_succeeds_iff:
  "snd (getOauth2Tokens w b payload pii) = (None, cache) \<longleftrightarrow>
     (let resp = exchange w \<lparr> Method = ''POST'', Url = oauth2TokenUrl b,
                              Header = [''Content-Type'' \<mapsto> ''application/json''], Payload = payload \<rparr>
      in new_request_error resp = None \<and> do_error resp = None \<and> read_error resp = None
         \<and> StatusCode resp = 200
         \<and> (\<exists>tj. unmarshal_tokens w (response_body resp) = Inr tj \<and> cache = (token_cache w)(pii \<mapsto> tj))
         \<and> write_error w = None)"
  by (auto simp: getOauth2Tokens_def SaveOauth2TokensToFile_def Let_def
           split: option.splits sum.splits prod.splits)

lemma Go_int_in_range:
  "- (2 ^ 63) \<le> x \<Longrightarrow> x < 2 ^ 63 \<Longrightarrow> Go_int x = x"
  unfolding Go_int_def by (simp add: sint_sbintrunc' signed_take_bit_int_eq_self)

lemma validOauth2AuthToken_in_range:
  assumes "- (2 ^ 63) \<le> now w" and "now w < 2 ^ 63"
    and "- (2 ^ 63) \<le> CreatedAt tokens + ExpiresIn tokens"
    and "CreatedAt tokens + ExpiresIn tokens < 2 ^ 63"
  shows "validOauth2AuthToken w tokens \<longleftrightarrow> now w < CreatedAt tokens + ExpiresIn tokens"
  using assms by (simp add: validOauth2AuthToken_def Go_int_in_range)

lemma validOauth2AuthToken_wraps:
  "\<not> validOauth2AuthToken (example_outside 1000 Map.empty 200 JNull) overflowing_tokens"
  by (simp add: validOauth2AuthToken_def Go_int_def example_outside_def overflowing_tokens_def)

lemma stepOauth2CheckTokens_cases:
  "stepOauth2CheckTokens w b recipe step creds =
     (case token_cache w (Supplier recipe @ ''|'' @ Credentials.Id creds) of
        None \<Rightarrow>
          (\<lparr> StepResult.Status = ''error'',
             Message = ''No access token found. New OAuth2 login needed.'', Break = False \<rparr>,
           b, token_cache w)
      | Some tokens \<Rightarrow>
          if Go_int (now w) < Go_int (CreatedAt tokens + ExpiresIn tokens) then
            (\<lparr> StepResult.Status = ''success'',
               Message = ''Found valid oauth2 access token in cache'', Break = False \<rparr>,
             b\<lparr> oauth2AuthToken := AccessToken tokens \<rparr>, token_cache w)
          else
            (case getOauth2Tokens w b (refresh_payload b tokens)
                    (Supplier recipe @ ''|'' @ Credentials.Id creds) of
               (nt, None, cache) \<Rightarrow>
                 (\<lparr> StepResult.Status = ''error'',
                    Message = ''Error getting oauth2 access token with refresh token'', Break = True \<rparr>,
                  b\<lparr> oauth2AuthToken := AccessToken nt \<rparr>, cache)
             | (nt, Some err, cache) \<Rightarrow>
                 (\<lparr> StepResult.Status = ''error'',
                    Message = ''No access token found. New OAuth2 login needed.'', Break = False \<rparr>,
                  b, cache)))"
  by (simp add: stepOauth2CheckTokens_def GetOauthAccessTokenFromCache_def validOauth2AuthToken_def
        Let_def split: option.splits)

lemma ClientAuthBrowserDriver_iteration_delivered:
  assumes "Action step \<in> set ClientAuthBrowserDriver_actions"
    and "handler n c step = \<lparr> sends = Some (t, lsr), driver_then = c' \<rparr>"
    and "int t < recipeTimeout c"
  shows "ClientAuthBrowserDriver_iteration handler textStyleBold tsc scs bcs recipe step c n result done =
     (let sent = done @ [Send (ViewMsgStatusAndDescriptionUpdate
                   (''Downloading invoices from '' @ Supplier recipe @ '' ('' @ Itoa n @ ''/''
                      @ Itoa scs @ ''):'') (Description step))];
          progress = Send (ViewMsgProgressUpdate (Quo (Add (Float64 bcs) (Float64 n)) (Float64 tsc)))
      in if StepResult.Status lsr = ''success'' then
           Next c' (n + 1)
             \<lparr> RecipeResult.Status = ''success'',
               StatusText = Supplier recipe @ '': '' @ newDocumentsText (newFilesCount c'),
               StatusTextFormatted = ''- '' @ textStyleBold (Supplier recipe) @ '': ''
                  @ newDocumentsText (newFilesCount c'),
               LastStepId = Supplier recipe @ ''-'' @ Version recipe @ ''-'' @ Itoa n @ ''-'' @ Action step,
               LastStepDescription = Description step,
               LastErrorMessage = [],
               NewFilesCount = newFilesCount c' \<rparr>
             (sent @ [progress])
         else if Break lsr then
           Return
             \<lparr> RecipeResult.Status = ''error'',
               StatusText = Supplier recipe @ '' aborted with error.'',
               StatusTextFormatted = ''x '' @ textStyleBold (Supplier recipe) @ '' aborted with error.'',
               LastStepId = Supplier recipe @ ''-'' @ Version recipe @ ''-'' @ Itoa n @ ''-'' @ Action step,
               LastStepDescription = Description step,
               LastErrorMessage = Message lsr,
               NewFilesCount = newFilesCount c' \<rparr>
             c' sent
         else
           Next c' (n + 1)
             \<lparr> RecipeResult.Status = ''error'',
               StatusText = Supplier recipe @ '' aborted with error.'',
               StatusTextFormatted = ''x '' @ textStyleBold (Supplier recipe) @ '' aborted with error.'',
               LastStepId = Supplier recipe @ ''-'' @ Version recipe @ ''-'' @ Itoa n @ ''-'' @ Action step,
               LastStepDescription = Description step,
               LastErrorMessage = Message lsr,
               NewFilesCount = newFilesCount c' \<rparr>
             (sent @ [progress]))"
  using assms
  by (simp add: ClientAuthBrowserDriver_iteration_def ClientAuthBrowserDriver_go_def select_result_def
        ClientAuthBrowserDriver_LastStepId_def Let_def)

text \<open>
  Claim C2. In the step \<open>oauth2-check-tokens\<close>, with the cache key \<open>supplier|credentialId\<close>:
  when the cache has tokens under the key and they are valid (the sum of their creation
  time and their life time, as the Go \<open>int\<close> that the code computes, is greater than the
  clock), the step adopts the cached access token and returns success; when it has tokens that have expired and the
  exchange of the refresh token succeeds, the step adopts the new access token and yet
  returns an error with the break flag set, on which the dispatcher returns at once;
  when the cache has no tokens under the key, the step returns an error without the
  break flag, and the dispatcher goes on to the next step.
\<close>

theorem check_tokens_three_outcomes:
  "(token_cache w (Supplier recipe @ ''|'' @ Credentials.Id creds) = Some tokens
    \<and> Go_int (now w) < Go_int (CreatedAt tokens + ExpiresIn tokens)
    \<longrightarrow> stepOauth2CheckTokens w b recipe step creds
          = (\<lparr> StepResult.Status = ''success'',
               Message = ''Found valid oauth2 access token in cache'', Break = False \<rparr>,
             b\<lparr> oauth2AuthToken := AccessToken tokens \<rparr>, token_cache w))
   \<and> (token_cache w (Supplier recipe @ ''|'' @ Credentials.Id creds) = Some tokens
    \<and> \<not> Go_int (now w) < Go_int (CreatedAt tokens + ExpiresIn tokens)
    \<and> getOauth2Tokens w b (refresh_payload b tokens) (Supplier recipe @ ''|'' @ Credentials.Id creds)
         = (nt, None, cache)
    \<longrightarrow> stepOauth2CheckTokens w b recipe step creds
          = (\<lparr> StepResult.Status = ''error'',
               Message = ''Error getting oauth2 access token with refresh token'', Break = True \<rparr>,
             b\<lparr> oauth2AuthToken := AccessToken nt \<rparr>, cache)
        \<and> (Action step = ''oauth2-check-tokens''
            \<and> handler n b step
                 = \<lparr> sends = Some (t, fst (stepOauth2CheckTokens w b recipe step creds)),
                     driver_then = fst (snd (stepOauth2CheckTokens w b recipe step creds)) \<rparr>
            \<and> int t < recipeTimeout b
            \<longrightarrow> ClientAuthBrowserDriver_iteration handler textStyleBold tsc scs bcs recipe step b n result done
                  = Return
                      \<lparr> RecipeResult.Status = ''error'',
                        StatusText = Supplier recipe @ '' aborted with error.'',
                        StatusTextFormatted = ''x '' @ textStyleBold (Supplier recipe) @ '' aborted with error.'',
                        LastStepId = Supplier recipe @ ''-'' @ Version recipe @ ''-'' @ Itoa n
                                       @ ''-oauth2-check-tokens'',
                        LastStepDescription = Description step,
                        LastErrorMessage = ''Error getting oauth2 access token with refresh token'',
                        NewFilesCount = newFilesCount b \<rparr>
                      (b\<lparr> oauth2AuthToken := AccessToken nt \<rparr>)
                      (done @ [Send (ViewMsgStatusAndDescriptionUpdate
                                 (''Downloading invoices from '' @ Supplier recipe @ '' ('' @ Itoa n @ ''/''
                                    @ Itoa scs @ ''):'') (Description step))])))
   \<and> (token_cache w (Supplier recipe @ ''|'' @ Credentials.Id creds) = None
    \<longrightarrow> stepOauth2CheckTokens w b recipe step creds
          = (\<lparr> StepResult.Status = ''error'',
               Message = ''No access token found. New OAuth2 login needed.'', Break = False \<rparr>,
             b, token_cache w)
        \<and> (Action step = ''oauth2-check-tokens''
            \<and> handler n b step
                 = \<lparr> sends = Some (t, fst (stepOauth2CheckTokens w b recipe step creds)),
                     driver_then = fst (snd (stepOauth2CheckTokens w b recipe step creds)) \<rparr>
            \<and> int t < recipeTimeout b
            \<longrightarrow> ClientAuthBrowserDriver_iteration handler textStyleBold tsc scs bcs recipe step b n result done
                  = Next b (n + 1)
                      \<lparr> RecipeResult.Status = ''error'',
                        StatusText = Supplier recipe @ '' aborted with error.'',
                        StatusTextFormatted = ''x '' @ textStyleBold (Supplier recipe) @ '' aborted with error.'',
                        LastStepId = Supplier recipe @ ''-'' @ Version recipe @ ''-'' @ Itoa n
                                       @ ''-oauth2-check-tokens'',
                        LastStepDescription = Description step,
                        LastErrorMessage = ''No access token found. New OAuth2 login needed.'',
                        NewFilesCount = newFilesCount b \<rparr>
                      (done @ [Send (ViewMsgStatusAndDescriptionUpdate
                                 (''Downloading invoices from '' @ Supplier recipe @ '' ('' @ Itoa n @ ''/''
                                    @ Itoa scs @ ''):'') (Description step)),
                               Send (ViewMsgProgressUpdate
                                 (Quo (Add (Float64 bcs) (Float64 n)) (Float64 tsc)))])))"
proof (intro conjI impI; (elim conjE)?)
  assume "token_cache w (Supplier recipe @ ''|'' @ Credentials.Id creds) = Some tokens"
    and "Go_int (now w) < Go_int (CreatedAt tokens + ExpiresIn tokens)"
  then show "stepOauth2CheckTokens w b recipe step creds
          = (\<lparr> StepResult.Status = ''success'',
               Message = ''Found valid oauth2 access token in cache'', Break = False \<rparr>,
             b\<lparr> oauth2AuthToken := AccessToken tokens \<rparr>, token_cache w)"
    by (simp add: stepOauth2CheckTokens_cases)
next
  assume "token_cache w (Supplier recipe @ ''|'' @ Credentials.Id creds) = Some tokens"
    and "\<not> Go_int (now w) < Go_int (CreatedAt tokens + ExpiresIn tokens)"
    and "getOauth2Tokens w b (refresh_payload b tokens) (Supplier recipe @ ''|'' @ Credentials.Id creds)
         = (nt, None, cache)"
  then show "stepOauth2CheckTokens w b recipe step creds
          = (\<lparr> StepResult.Status = ''error'',
               Message = ''Error getting oauth2 access token with refresh token'', Break = True \<rparr>,
             b\<lparr> oauth2AuthToken := AccessToken nt \<rparr>, cache)"
    by (simp add: stepOauth2CheckTokens_cases)
next
  assume found: "token_cache w (Supplier recipe @ ''|'' @ Credentials.Id creds) = Some tokens"
    and old: "\<not> Go_int (now w) < Go_int (CreatedAt tokens + ExpiresIn tokens)"
    and refreshed: "getOauth2Tokens w b (refresh_payload b tokens) (Supplier recipe @ ''|'' @ Credentials.Id creds)
         = (nt, None, cache)"
    and action: "Action step = ''oauth2-check-tokens''"
    and run: "handler n b step
                 = \<lparr> sends = Some (t, fst (stepOauth2CheckTokens w b recipe step creds)),
                     driver_then = fst (snd (stepOauth2CheckTokens w b recipe step creds)) \<rparr>"
    and early: "int t < recipeTimeout b"
  have known: "Action step \<in> set ClientAuthBrowserDriver_actions"
    by (simp add: action ClientAuthBrowserDriver_actions_def)
  show "ClientAuthBrowserDriver_iteration handler textStyleBold tsc scs bcs recipe step b n result done
                  = Return
                      \<lparr> RecipeResult.Status = ''error'',
                        StatusText = Supplier recipe @ '' aborted with error.'',
                        StatusTextFormatted = ''x '' @ textStyleBold (Supplier recipe) @ '' aborted with error.'',
                        LastStepId = Supplier recipe @ ''-'' @ Version recipe @ ''-'' @ Itoa n
                                       @ ''-oauth2-check-tokens'',
                        LastStepDescription = Description step,
                        LastErrorMessage = ''Error getting oauth2 access token with refresh token'',
                        NewFilesCount = newFilesCount b \<rparr>
                      (b\<lparr> oauth2AuthToken := AccessToken nt \<rparr>)
                      (done @ [Send (ViewMsgStatusAndDescriptionUpdate
                                 (''Downloading invoices from '' @ Supplier recipe @ '' ('' @ Itoa n @ ''/''
                                    @ Itoa scs @ ''):'') (Description step))])"
    using found old refreshed action
    by (simp add: ClientAuthBrowserDriver_iteration_delivered[where handler = handler and n = n and c = b and step = step, OF known run early]
          stepOauth2CheckTokens_cases)
next
  assume "token_cache w (Supplier recipe @ ''|'' @ Credentials.Id creds) = None"
  then show "stepOauth2CheckTokens w b recipe step creds
          = (\<lparr> StepResult.Status = ''error'',
               Message = ''No access token found. New OAuth2 login needed.'', Break = False \<rparr>,
             b, token_cache w)"
    by (simp add: stepOauth2CheckTokens_cases)
next
  assume missing: "token_cache w (Supplier recipe @ ''|'' @ Credentials.Id creds) = None"
    and action: "Action step = ''oauth2-check-tokens''"
    and run: "handler n b step
                 = \<lparr> sends = Some (t, fst (stepOauth2CheckTokens w b recipe step creds)),
                     driver_then = fst (snd (stepOauth2CheckTokens w b recipe step creds)) \<rparr>"
    and early: "int t < recipeTimeout b"
  have known: "Action step \<in> set ClientAuthBrowserDriver_actions"
    by (simp add: action ClientAuthBrowserDriver_actions_def)
  show "ClientAuthBrowserDriver_iteration handler textStyleBold tsc scs bcs recipe step b n result done
                  = Next b (n + 1)
                      \<lparr> RecipeResult.Status = ''error'',
                        StatusText = Supplier recipe @ '' aborted with error.'',
                        StatusTextFormatted = ''x '' @ textStyleBold (Supplier recipe) @ '' aborted with error.'',
                        LastStepId = Supplier recipe @ ''-'' @ Version recipe @ ''-'' @ Itoa n
                                       @ ''-oauth2-check-tokens'',
                        LastStepDescription = Description step,
                        LastErrorMessage = ''No access token found. New OAuth2 login needed.'',
                        NewFilesCount = newFilesCount b \<rparr>
                      (done @ [Send (ViewMsgStatusAndDescriptionUpdate
                                 (''Downloading invoices from '' @ Supplier recipe @ '' ('' @ Itoa n @ ''/''
                                    @ Itoa scs @ ''):'') (Description step)),
                               Send (ViewMsgProgressUpdate
                                 (Quo (Add (Float64 bcs) (Float64 n)) (Float64 tsc)))])"
    using missing action
    by (simp add: ClientAuthBrowserDriver_iteration_delivered[where handler = handler and n = n and c = b and step = step, OF known run early]
          stepOauth2CheckTokens_cases)
qed

theorem check_tokens_three_outcomes_witness:
  "stepOauth2CheckTokens (example_outside 1049 [''acme|c1'' \<mapsto> cached_tokens] 200 JNull)
       started_ClientAuthBrowserDriver check_then_authenticate
       (example_step ''oauth2-check-tokens'' ''first'') example_credentials
     = (\<lparr> StepResult.Status = ''success'',
          Message = ''Found valid oauth2 access token in cache'', Break = False \<rparr>,
        started_ClientAuthBrowserDriver\<lparr> oauth2AuthToken := ''old-access'' \<rparr>,
        [''acme|c1'' \<mapsto> cached_tokens])
   \<and> stepOauth2CheckTokens (example_outside 1051 [''acme|c1'' \<mapsto> cached_tokens] 200 JNull)
       started_ClientAuthBrowserDriver check_then_authenticate
       (example_step ''oauth2-check-tokens'' ''first'') example_credentials
     = (\<lparr> StepResult.Status = ''error'',
          Message = ''Error getting oauth2 access token with refresh token'', Break = True \<rparr>,
        started_ClientAuthBrowserDriver\<lparr> oauth2AuthToken := ''new-access'' \<rparr>,
        [''acme|c1'' \<mapsto> fresh_tokens])
   \<and> stepOauth2CheckTokens (example_outside 1000 [''acme|c1'' \<mapsto> overflowing_tokens] 200 JNull)
       started_ClientAuthBrowserDriver check_then_authenticate
       (example_step ''oauth2-check-tokens'' ''first'') example_credentials
     = (\<lparr> StepResult.Status = ''error'',
          Message = ''Error getting oauth2 access token with refresh token'', Break = True \<rparr>,
        started_ClientAuthBrowserDriver\<lparr> oauth2AuthToken := ''new-access'' \<rparr>,
        [''acme|c1'' \<mapsto> fresh_tokens])
   \<and> ClientAuthBrowserDriver_iteration
        (check_tokens_handler (example_outside 1051 [''acme|c1'' \<mapsto> cached_tokens] 200 JNull)
           check_then_authenticate)
        id 2 2 0 check_then_authenticate (example_step ''oauth2-check-tokens'' ''first'')
        started_ClientAuthBrowserDriver 1 zeroRecipeResult []
     = Return
         \<lparr> RecipeResult.Status = ''error'', StatusText = ''acme aborted with error.'',
           StatusTextFormatted = ''x acme aborted with error.'',
           LastStepId = ''acme-1.0-1-oauth2-check-tokens'', LastStepDescription = ''first'',
           LastErrorMessage = ''Error getting oauth2 access token with refresh token'',
           NewFilesCount = 0 \<rparr>
         (started_ClientAuthBrowserDriver\<lparr> oauth2AuthToken := ''new-access'' \<rparr>)
         [Send (ViewMsgStatusAndDescriptionUpdate ''Downloading invoices from acme (1/2):'' ''first'')]
   \<and> stepOauth2CheckTokens (example_outside 1051 Map.empty 200 JNull)
       started_ClientAuthBrowserDriver check_then_authenticate
       (example_step ''oauth2-check-tokens'' ''first'') example_credentials
     = (\<lparr> StepResult.Status = ''error'',
          Message = ''No access token found. New OAuth2 login needed.'', Break = False \<rparr>,
        started_ClientAuthBrowserDriver, Map.empty)
   \<and> ClientAuthBrowserDriver_iteration
        (check_tokens_handler (example_outside 1051 Map.empty 200 JNull) check_then_authenticate)
        id 2 2 0 check_then_authenticate (example_step ''oauth2-check-tokens'' ''first'')
        started_ClientAuthBrowserDriver 1 zeroRecipeResult []
     = Next started_ClientAuthBrowserDriver 2
         \<lparr> RecipeResult.Status = ''error'', StatusText = ''acme aborted with error.'',
           StatusTextFormatted = ''x acme aborted with error.'',
           LastStepId = ''acme-1.0-1-oauth2-check-tokens'', LastStepDescription = ''first'',
           LastErrorMessage = ''No access token found. New OAuth2 login needed.'',
           NewFilesCount = 0 \<rparr>
         [Send (ViewMsgStatusAndDescriptionUpdate ''Downloading invoices from acme (1/2):'' ''first''),
          Send (ViewMsgProgressUpdate (Quo (Add (Float64 0) (Float64 1)) (Float64 2)))]"
proof -
  let ?step = "example_step ''oauth2-check-tokens'' ''first''"
  let ?valid = "example_outside 1049 [''acme|c1'' \<mapsto> cached_tokens] 200 JNull"
  let ?expired = "example_outside 1051 [''acme|c1'' \<mapsto> cached_tokens] 200 JNull"
  let ?missing = "example_outside 1051 Map.empty 200 JNull"
  let ?wrapped = "example_outside 1000 [''acme|c1'' \<mapsto> overflowing_tokens] 200 JNull"
  have valid:
    "token_cache ?valid (Supplier check_then_authenticate @ ''|'' @ Credentials.Id example_credentials)
       = Some cached_tokens
     \<and> Go_int (now ?valid) < Go_int (CreatedAt cached_tokens + ExpiresIn cached_tokens)"
    by (simp add: stepOauth2CheckTokens_def getOauth2Tokens_def validOauth2AuthToken_def Go_int_in_range
        GetOauthAccessTokenFromCache_def SaveOauth2TokensToFile_def zeroOauth2Tokens_def
        example_outside_def cached_tokens_def fresh_tokens_def check_tokens_handler_def example_step_def example_recipe_def example_credentials_def check_then_authenticate_def started_ClientAuthBrowserDriver_def)
  have expired:
    "token_cache ?expired (Supplier check_then_authenticate @ ''|'' @ Credentials.Id example_credentials)
       = Some cached_tokens
     \<and> \<not> Go_int (now ?expired) < Go_int (CreatedAt cached_tokens + ExpiresIn cached_tokens)
     \<and> getOauth2Tokens ?expired started_ClientAuthBrowserDriver
          (refresh_payload started_ClientAuthBrowserDriver cached_tokens)
          (Supplier check_then_authenticate @ ''|'' @ Credentials.Id example_credentials)
        = (fresh_tokens, None, [''acme|c1'' \<mapsto> fresh_tokens])"
    by (simp add: stepOauth2CheckTokens_def getOauth2Tokens_def validOauth2AuthToken_def Go_int_in_range
        GetOauthAccessTokenFromCache_def SaveOauth2TokensToFile_def zeroOauth2Tokens_def
        example_outside_def cached_tokens_def fresh_tokens_def check_tokens_handler_def example_step_def example_recipe_def example_credentials_def check_then_authenticate_def started_ClientAuthBrowserDriver_def)
  have wrapped:
    "token_cache ?wrapped (Supplier check_then_authenticate @ ''|'' @ Credentials.Id example_credentials)
       = Some overflowing_tokens
     \<and> \<not> Go_int (now ?wrapped) < Go_int (CreatedAt overflowing_tokens + ExpiresIn overflowing_tokens)
     \<and> getOauth2Tokens ?wrapped started_ClientAuthBrowserDriver
          (refresh_payload started_ClientAuthBrowserDriver overflowing_tokens)
          (Supplier check_then_authenticate @ ''|'' @ Credentials.Id example_credentials)
        = (fresh_tokens, None, [''acme|c1'' \<mapsto> fresh_tokens])"
    by (simp add: getOauth2Tokens_def Go_int_def SaveOauth2TokensToFile_def
        example_outside_def overflowing_tokens_def example_recipe_def example_credentials_def
        check_then_authenticate_def started_ClientAuthBrowserDriver_def)
  have missing:
    "token_cache ?missing (Supplier check_then_authenticate @ ''|'' @ Credentials.Id example_credentials)
       = None"
    by (simp add: stepOauth2CheckTokens_def getOauth2Tokens_def validOauth2AuthToken_def Go_int_in_range
        GetOauthAccessTokenFromCache_def SaveOauth2TokensToFile_def zeroOauth2Tokens_def
        example_outside_def cached_tokens_def fresh_tokens_def check_tokens_handler_def example_step_def example_recipe_def example_credentials_def check_then_authenticate_def started_ClientAuthBrowserDriver_def)
  have run_expired:
    "Action ?step = ''oauth2-check-tokens''
     \<and> check_tokens_handler ?expired check_then_authenticate 1 started_ClientAuthBrowserDriver ?step
         = \<lparr> sends = Some (1000, fst (stepOauth2CheckTokens ?expired started_ClientAuthBrowserDriver
                                          check_then_authenticate ?step example_credentials)),
             driver_then = fst (snd (stepOauth2CheckTokens ?expired started_ClientAuthBrowserDriver
                                          check_then_authenticate ?step example_credentials)) \<rparr>
     \<and> int 1000 < recipeTimeout started_ClientAuthBrowserDriver"
    by (simp add: check_tokens_handler_def example_step_def example_recipe_def example_credentials_def check_then_authenticate_def started_ClientAuthBrowserDriver_def)
  have run_missing:
    "Action ?step = ''oauth2-check-tokens''
     \<and> check_tokens_handler ?missing check_then_authenticate 1 started_ClientAuthBrowserDriver ?step
         = \<lparr> sends = Some (1000, fst (stepOauth2CheckTokens ?missing started_ClientAuthBrowserDriver
                                          check_then_authenticate ?step example_credentials)),
             driver_then = fst (snd (stepOauth2CheckTokens ?missing started_ClientAuthBrowserDriver
                                          check_then_authenticate ?step example_credentials)) \<rparr>
     \<and> int 1000 < recipeTimeout started_ClientAuthBrowserDriver"
    by (simp add: check_tokens_handler_def example_step_def example_recipe_def example_credentials_def check_then_authenticate_def started_ClientAuthBrowserDriver_def)
  note a = check_tokens_three_outcomes[THEN conjunct1, THEN mp, OF valid]
  note b = check_tokens_three_outcomes
             [where handler = "check_tokens_handler ?expired check_then_authenticate" and n = 1
                and t = 1000 and textStyleBold = id and tsc = 2 and scs = 2 and bcs = 0
                and result = zeroRecipeResult and ?done = "[]",
              THEN conjunct2, THEN conjunct1, THEN mp, OF expired]
  note c = check_tokens_three_outcomes
             [where handler = "check_tokens_handler ?missing check_then_authenticate" and n = 1
                and t = 1000 and textStyleBold = id and tsc = 2 and scs = 2 and bcs = 0
                and result = zeroRecipeResult and ?done = "[]",
              THEN conjunct2, THEN conjunct2, THEN mp, OF missing]
  note b2 = b[THEN conjunct2, THEN mp, OF run_expired]
  note o = check_tokens_three_outcomes
             [where handler = "check_tokens_handler ?wrapped check_then_authenticate" and n = 1
                and t = 1000 and textStyleBold = id and tsc = 2 and scs = 2 and bcs = 0
                and result = zeroRecipeResult and ?done = "[]",
              THEN conjunct2, THEN conjunct1, THEN mp, OF wrapped, THEN conjunct1]
  note c2 = c[THEN conjunct2, THEN mp, OF run_missing]
  show ?thesis
    apply (intro conjI)
    subgoal using a by (simp add: stepOauth2CheckTokens_def getOauth2Tokens_def validOauth2AuthToken_def Go_int_in_range
        GetOauthAccessTokenFromCache_def SaveOauth2TokensToFile_def zeroOauth2Tokens_def
        example_outside_def cached_tokens_def fresh_tokens_def check_tokens_handler_def example_step_def example_recipe_def example_credentials_def check_then_authenticate_def started_ClientAuthBrowserDriver_def)
    subgoal using b[THEN conjunct1] by (simp add: stepOauth2CheckTokens_def getOauth2Tokens_def validOauth2AuthToken_def Go_int_in_range
        GetOauthAccessTokenFromCache_def SaveOauth2TokensToFile_def zeroOauth2Tokens_def
        example_outside_def cached_tokens_def fresh_tokens_def check_tokens_handler_def example_step_def example_recipe_def example_credentials_def check_then_authenticate_def started_ClientAuthBrowserDriver_def)
    subgoal using o by (simp add: fresh_tokens_def)
    subgoal using b2 by (simp add: ClientAuthBrowserDriver_iteration_def ClientAuthBrowserDriver_go_def
        ClientAuthBrowserDriver_actions_def ClientAuthBrowserDriver_LastStepId_def
        select_result_def newDocumentsText_def zeroRecipeResult_def
        Itoa_def decimal.simps digit_def Let_def example_step_def example_recipe_def example_credentials_def check_then_authenticate_def started_ClientAuthBrowserDriver_def fresh_tokens_def)
    subgoal using c[THEN conjunct1] by (simp add: stepOauth2CheckTokens_def getOauth2Tokens_def validOauth2AuthToken_def Go_int_in_range
        GetOauthAccessTokenFromCache_def SaveOauth2TokensToFile_def zeroOauth2Tokens_def
        example_outside_def cached_tokens_def fresh_tokens_def check_tokens_handler_def example_step_def example_recipe_def example_credentials_def check_then_authenticate_def started_ClientAuthBrowserDriver_def)
    subgoal using c2 by (simp add: ClientAuthBrowserDriver_iteration_def ClientAuthBrowserDriver_go_def
        ClientAuthBrowserDriver_actions_def ClientAuthBrowserDriver_LastStepId_def
        select_result_def newDocumentsText_def zeroRecipeResult_def
        Itoa_def decimal.simps digit_def Let_def example_step_def example_recipe_def example_credentials_def check_then_authenticate_def started_ClientAuthBrowserDriver_def)
    done
qed

lemma stepOauth2PostAndGetItems_zero_ids:
  assumes "new_request_error (exchange w \<lparr> Method = ''POST'', Url = URL step,
                Header = set_headers b (Headers step), Payload = Body step \<rparr>) = None"
    and "do_error (exchange w \<lparr> Method = ''POST'', Url = URL step,
                Header = set_headers b (Headers step), Payload = Body step \<rparr>) = None"
    and "read_error (exchange w \<lparr> Method = ''POST'', Url = URL step,
                Header = set_headers b (Headers step), Payload = Body step \<rparr>) = None"
    and "StatusCode (exchange w \<lparr> Method = ''POST'', Url = URL step,
                Header = set_headers b (Headers step), Payload = Body step \<rparr>) = 200"
    and "unmarshal w (response_body (exchange w \<lparr> Method = ''POST'', Url = URL step,
                Header = set_headers b (Headers step), Payload = Body step \<rparr>)) = Inr jsr"
    and "extractJsonValue jsr (ExtractDocumentIds step) = []"
  shows "stepOauth2PostAndGetItems w b step
           = Inr (\<lparr> StepResult.Status = ''error'', Message = ''No content ids found'', Break = True \<rparr>,
                  b\<lparr> newFilesCount := 0 \<rparr>)"
  using assms by (simp add: stepOauth2PostAndGetItems_def Let_def)

text \<open>
  Claim C5, as the code has it. In the step \<open>oauth2-post-and-get-items\<close>, when the request
  is answered with status 200, the body unmarshals, and the path of the step extracts no
  identifier, the step resets the counter of new files and returns an error with the
  message \<open>No content ids found\<close> and with the break flag set; the dispatcher then returns
  at once with that message, and the next step does not run.
\<close>

theorem zero_ids_is_hard_failure:
  "new_request_error (exchange w \<lparr> Method = ''POST'', Url = URL step,
        Header = set_headers b (Headers step), Payload = Body step \<rparr>) = None
   \<and> do_error (exchange w \<lparr> Method = ''POST'', Url = URL step,
        Header = set_headers b (Headers step), Payload = Body step \<rparr>) = None
   \<and> read_error (exchange w \<lparr> Method = ''POST'', Url = URL step,
        Header = set_headers b (Headers step), Payload = Body step \<rparr>) = None
   \<and> StatusCode (exchange w \<lparr> Method = ''POST'', Url = URL step,
        Header = set_headers b (Headers step), Payload = Body step \<rparr>) = 200
   \<and> unmarshal w (response_body (exchange w \<lparr> Method = ''POST'', Url = URL step,
        Header = set_headers b (Headers step), Payload = Body step \<rparr>)) = Inr jsr
   \<and> extractJsonValue jsr (ExtractDocumentIds step) = []
   \<longrightarrow> stepOauth2PostAndGetItems w b step
         = Inr (\<lparr> StepResult.Status = ''error'', Message = ''No content ids found'', Break = True \<rparr>,
                b\<lparr> newFilesCount := 0 \<rparr>)
       \<and> (Action step = ''oauth2-post-and-get-items''
           \<and> handler n b step
                = \<lparr> sends = Some (t, \<lparr> StepResult.Status = ''error'', Message = ''No content ids found'',
                                        Break = True \<rparr>),
                    driver_then = b\<lparr> newFilesCount := 0 \<rparr> \<rparr>
           \<and> int t < recipeTimeout b
           \<longrightarrow> ClientAuthBrowserDriver_iteration handler textStyleBold tsc scs bcs recipe step b n result done
                 = Return
                     \<lparr> RecipeResult.Status = ''error'',
                       StatusText = Supplier recipe @ '' aborted with error.'',
                       StatusTextFormatted = ''x '' @ textStyleBold (Supplier recipe) @ '' aborted with error.'',
                       LastStepId = Supplier recipe @ ''-'' @ Version recipe @ ''-'' @ Itoa n
                                      @ ''-oauth2-post-and-get-items'',
                       LastStepDescription = Description step,
                       LastErrorMessage = ''No content ids found'',
                       NewFilesCount = 0 \<rparr>
                     (b\<lparr> newFilesCount := 0 \<rparr>)
                     (done @ [Send (ViewMsgStatusAndDescriptionUpdate
                                (''Downloading invoices from '' @ Supplier recipe @ '' ('' @ Itoa n @ ''/''
                                   @ Itoa scs @ ''):'') (Description step))]))"
proof (intro conjI impI; (elim conjE)?)
  assume "new_request_error (exchange w \<lparr> Method = ''POST'', Url = URL step,
        Header = set_headers b (Headers step), Payload = Body step \<rparr>) = None"
    and "do_error (exchange w \<lparr> Method = ''POST'', Url = URL step,
        Header = set_headers b (Headers step), Payload = Body step \<rparr>) = None"
    and "read_error (exchange w \<lparr> Method = ''POST'', Url = URL step,
        Header = set_headers b (Headers step), Payload = Body step \<rparr>) = None"
    and "StatusCode (exchange w \<lparr> Method = ''POST'', Url = URL step,
        Header = set_headers b (Headers step), Payload = Body step \<rparr>) = 200"
    and "unmarshal w (response_body (exchange w \<lparr> Method = ''POST'', Url = URL step,
        Header = set_headers b (Headers step), Payload = Body step \<rparr>)) = Inr jsr"
    and "extractJsonValue jsr (ExtractDocumentIds step) = []"
  then show "stepOauth2PostAndGetItems w b step
         = Inr (\<lparr> StepResult.Status = ''error'', Message = ''No content ids found'', Break = True \<rparr>,
                b\<lparr> newFilesCount := 0 \<rparr>)"
    by (rule stepOauth2PostAndGetItems_zero_ids)
next
  assume action: "Action step = ''oauth2-post-and-get-items''"
    and run: "handler n b step
                = \<lparr> sends = Some (t, \<lparr> StepResult.Status = ''error'', Message = ''No content ids found'',
                                        Break = True \<rparr>),
                    driver_then = b\<lparr> newFilesCount := 0 \<rparr> \<rparr>"
    and early: "int t < recipeTimeout b"
  have known: "Action step \<in> set ClientAuthBrowserDriver_actions"
    by (simp add: action ClientAuthBrowserDriver_actions_def)
  show "ClientAuthBrowserDriver_iteration handler textStyleBold tsc scs bcs recipe step b n result done
                 = Return
                     \<lparr> RecipeResult.Status = ''error'',
                       StatusText = Supplier recipe @ '' aborted with error.'',
                       StatusTextFormatted = ''x '' @ textStyleBold (Supplier recipe) @ '' aborted with error.'',
                       LastStepId = Supplier recipe @ ''-'' @ Version recipe @ ''-'' @ Itoa n
                                      @ ''-oauth2-post-and-get-items'',
                       LastStepDescription = Description step,
                       LastErrorMessage = ''No content ids found'',
                       NewFilesCount = 0 \<rparr>
                     (b\<lparr> newFilesCount := 0 \<rparr>)
                     (done @ [Send (ViewMsgStatusAndDescriptionUpdate
                                (''Downloading invoices from '' @ Supplier recipe @ '' ('' @ Itoa n @ ''/''
                                   @ Itoa scs @ ''):'') (Description step))])"
    using action
    by (simp add: ClientAuthBrowserDriver_iteration_delivered
                    [where handler = handler and n = n and c = b and step = step, OF known run early])
qed

theorem zero_ids_is_hard_failure_witness:
  "stepOauth2PostAndGetItems
       (example_outside 1051 Map.empty 200 (JObject [(''items'', JArray [JObject [(''name'', JString ''a'')]])]))
       (started_ClientAuthBrowserDriver\<lparr> newFilesCount := 3 \<rparr>) items_step
     = Inr (\<lparr> StepResult.Status = ''error'', Message = ''No content ids found'', Break = True \<rparr>,
            started_ClientAuthBrowserDriver)
   \<and> ClientAuthBrowserDriver_iteration
        (post_items_handler
           (example_outside 1051 Map.empty 200 (JObject [(''items'', JArray [JObject [(''name'', JString ''a'')]])])))
        id 2 2 0 items_recipe items_step (started_ClientAuthBrowserDriver\<lparr> newFilesCount := 3 \<rparr>) 1
        zeroRecipeResult []
     = Return
         \<lparr> RecipeResult.Status = ''error'', StatusText = ''acme aborted with error.'',
           StatusTextFormatted = ''x acme aborted with error.'',
           LastStepId = ''acme-1.0-1-oauth2-post-and-get-items'', LastStepDescription = ''items'',
           LastErrorMessage = ''No content ids found'', NewFilesCount = 0 \<rparr>
         started_ClientAuthBrowserDriver
         [Send (ViewMsgStatusAndDescriptionUpdate ''Downloading invoices from acme (1/2):'' ''items'')]"
proof -
  let ?w = "example_outside 1051 Map.empty 200 (JObject [(''items'', JArray [JObject [(''name'', JString ''a'')]])])"
  let ?b = "started_ClientAuthBrowserDriver\<lparr> newFilesCount := 3 \<rparr>"
  let ?req = "\<lparr> Method = ''POST'', Url = URL items_step,
        Header = set_headers ?b (Headers items_step), Payload = Body items_step \<rparr>"
  have answer:
    "new_request_error (exchange ?w ?req) = None
     \<and> do_error (exchange ?w ?req) = None
     \<and> read_error (exchange ?w ?req) = None
     \<and> StatusCode (exchange ?w ?req) = 200
     \<and> unmarshal ?w (response_body (exchange ?w ?req))
          = Inr (JObject [(''items'', JArray [JObject [(''name'', JString ''a'')]])])
     \<and> extractJsonValue (JObject [(''items'', JArray [JObject [(''name'', JString ''a'')]])])
          (ExtractDocumentIds items_step) = []"
    by (simp add: stepOauth2PostAndGetItems_def example_outside_def post_items_handler_def
        items_step_def items_recipe_def example_step_def example_recipe_def example_credentials_def example_startup_def extractJsonValue_def extractJsonRecursive.simps)
  note a = zero_ids_is_hard_failure
             [where handler = "post_items_handler ?w" and n = 1 and t = 1000 and textStyleBold = id
                and tsc = 2 and scs = 2 and bcs = 0 and recipe = items_recipe
                and result = zeroRecipeResult and ?done = "[]",
              THEN mp, OF answer]
  have run:
    "Action items_step = ''oauth2-post-and-get-items''
     \<and> post_items_handler ?w 1 ?b items_step
         = \<lparr> sends = Some (1000, \<lparr> StepResult.Status = ''error'', Message = ''No content ids found'',
                                    Break = True \<rparr>),
             driver_then = ?b\<lparr> newFilesCount := 0 \<rparr> \<rparr>
     \<and> int 1000 < recipeTimeout ?b"
    using a[THEN conjunct1]
    by (simp add: post_items_handler_def items_step_def example_step_def example_recipe_def example_credentials_def example_startup_def started_ClientAuthBrowserDriver_def)
  note a2 = a[THEN conjunct2, THEN mp, OF run]
  show ?thesis
    apply (intro conjI)
    subgoal using a[THEN conjunct1] by (simp add: started_ClientAuthBrowserDriver_def)
    subgoal using a2 by (simp add: ClientAuthBrowserDriver_RunRecipe_def ClientAuthBrowserDriver_start_def
        ClientAuthBrowserDriver_iteration_def ClientAuthBrowserDriver_go_def
        ClientAuthBrowserDriver_actions_def ClientAuthBrowserDriver_LastStepId_def
        NewClientAuthBrowserDriver_def
        select_result_def Second_def newDocumentsText_def zeroRecipeResult_def
        Itoa_def decimal.simps digit_def Let_def TrimSpace_def isSpace_def stepOauth2PostAndGetItems_def example_outside_def post_items_handler_def
        items_step_def items_recipe_def example_step_def example_recipe_def example_credentials_def example_startup_def started_ClientAuthBrowserDriver_def)
    done
qed

text \<open>
  Claim C5 as stated fails: the answer has status 200 and no identifier under the path
  \<open>items.id\<close>; the break flag of the result is set, and the run of a recipe with two steps
  ends after the first.
\<close>

theorem zero_ids_break:
  "extractJsonValue (JObject [(''items'', JArray [])]) (ExtractDocumentIds items_step) = []
   \<and> stepOauth2PostAndGetItems (example_outside 1051 Map.empty 200 (JObject [(''items'', JArray [])]))
         started_ClientAuthBrowserDriver items_step
     = Inr (\<lparr> StepResult.Status = ''error'', Message = ''No content ids found'', Break = True \<rparr>,
            started_ClientAuthBrowserDriver)
   \<and> ClientAuthBrowserDriver_RunRecipe example_startup
        (post_items_handler (example_outside 1051 Map.empty 200 (JObject [(''items'', JArray [])]))) id
        (NewClientAuthBrowserDriver example_credentials ''/config'' ''/home'') 2 2 0 items_recipe
     = Inr (\<lparr> RecipeResult.Status = ''error'', StatusText = ''acme aborted with error.'',
               StatusTextFormatted = ''x acme aborted with error.'',
               LastStepId = ''acme-1.0-1-oauth2-post-and-get-items'', LastStepDescription = ''items'',
               LastErrorMessage = ''No content ids found'', NewFilesCount = 0 \<rparr>,
            started_ClientAuthBrowserDriver,
            [Send (ViewMsgStatusAndDescriptionUpdate ''Downloading invoices from acme (1/2):'' ''items'')])"
  by (simp add: stepOauth2PostAndGetItems_def example_outside_def post_items_handler_def
        items_step_def items_recipe_def ClientAuthBrowserDriver_RunRecipe_def ClientAuthBrowserDriver_start_def
        ClientAuthBrowserDriver_iteration_def ClientAuthBrowserDriver_go_def
        ClientAuthBrowserDriver_actions_def ClientAuthBrowserDriver_LastStepId_def
        NewClientAuthBrowserDriver_def
        select_result_def Second_def newDocumentsText_def zeroRecipeResult_def
        Itoa_def decimal.simps digit_def Let_def TrimSpace_def isSpace_def example_step_def example_recipe_def example_credentials_def example_startup_def started_ClientAuthBrowserDriver_def
        extractJsonValue_def extractJsonRecursive.simps)

text \<open>
  Claim C7 fails on the code. The request of \<open>stepOauth2PostAndGetItems\<close> is answered with
  status 400, and with status 503: the step returns an error whose message is empty,
  and the run records an empty last error message. The token exchange, on the same
  status codes, returns the errors \<open>unauthorized error ...\<close> and \<open>unknown error ...\<close>.
\<close>

theorem items_400_empty_message:
  "stepOauth2PostAndGetItems (example_outside 1051 Map.empty 400 JNull) started_ClientAuthBrowserDriver items_step
     = Inr (\<lparr> StepResult.Status = ''error'', Message = [], Break = False \<rparr>, started_ClientAuthBrowserDriver)
   \<and> stepOauth2PostAndGetItems (example_outside 1051 Map.empty 503 JNull) started_ClientAuthBrowserDriver items_step
     = Inr (\<lparr> StepResult.Status = ''error'', Message = [], Break = False \<rparr>, started_ClientAuthBrowserDriver)
   \<and> fst (snd (getOauth2Tokens (example_outside 1051 Map.empty 400 JNull) started_ClientAuthBrowserDriver
                  (refresh_payload started_ClientAuthBrowserDriver cached_tokens) ''acme|c1''))
     = Some ''unauthorized error while trying to get oauth2 access token with refresh token''
   \<and> fst (snd (getOauth2Tokens (example_outside 1051 Map.empty 503 JNull) started_ClientAuthBrowserDriver
                  (refresh_payload started_ClientAuthBrowserDriver cached_tokens) ''acme|c1''))
     = Some ''unknown error getting oauth2 token''
   \<and> ClientAuthBrowserDriver_RunRecipe example_startup
        (post_items_handler (example_outside 1051 Map.empty 400 JNull)) id
        (NewClientAuthBrowserDriver example_credentials ''/config'' ''/home'') 1 1 0
        (example_recipe [items_step])
     = Inr (\<lparr> RecipeResult.Status = ''error'', StatusText = ''acme aborted with error.'',
               StatusTextFormatted = ''x acme aborted with error.'',
               LastStepId = ''acme-1.0-1-oauth2-post-and-get-items'', LastStepDescription = ''items'',
               LastErrorMessage = [], NewFilesCount = 0 \<rparr>,
            started_ClientAuthBrowserDriver,
            [Send (ViewMsgStatusAndDescriptionUpdate ''Downloading invoices from acme (1/1):'' ''items''),
             Send (ViewMsgProgressUpdate (Quo (Add (Float64 0) (Float64 1)) (Float64 1)))])"
  by (simp add: stepOauth2PostAndGetItems_def getOauth2Tokens_def zeroOauth2Tokens_def
        example_outside_def post_items_handler_def items_step_def ClientAuthBrowserDriver_RunRecipe_def ClientAuthBrowserDriver_start_def
        ClientAuthBrowserDriver_iteration_def ClientAuthBrowserDriver_go_def
        ClientAuthBrowserDriver_actions_def ClientAuthBrowserDriver_LastStepId_def
        NewClientAuthBrowserDriver_def
        select_result_def Second_def newDocumentsText_def zeroRecipeResult_def
        Itoa_def decimal.simps digit_def Let_def TrimSpace_def isSpace_def example_step_def example_recipe_def example_credentials_def example_startup_def started_ClientAuthBrowserDriver_def)

section \<open>Properties of the browser steps\<close>

lemma ParseUint_loop_error:
  "(snd (ParseUint_loop s n) = Some ErrSyntax \<longrightarrow> fst (ParseUint_loop s n) = 0)
   \<and> (snd (ParseUint_loop s n) = Some ErrRange \<longrightarrow> fst (ParseUint_loop s n) = maxUint64)"
  by (induction s arbitrary: n) auto

lemma ParseUint_loop_not_digits:
  "\<not> list_all isDigit s \<Longrightarrow> snd (ParseUint_loop s n) \<noteq> None"
  by (induction s arbitrary: n) auto

lemma ParseUint_error:
  "(snd (ParseUint s) = Some ErrSyntax \<longrightarrow> fst (ParseUint s) = 0)
   \<and> (snd (ParseUint s) = Some ErrRange \<longrightarrow> fst (ParseUint s) = maxUint64)"
  using ParseUint_loop_error[of s 0] by (simp add: ParseUint_def)

lemma ParseUint_not_digits:
  "s = [] \<or> \<not> list_all isDigit s \<Longrightarrow> snd (ParseUint s) \<noteq> None"
  using ParseUint_loop_not_digits[of s 0] by (auto simp: ParseUint_def)

lemma Atoi_error_value:
  "(snd (Atoi s) = Some ErrSyntax \<longrightarrow> fst (Atoi s) = 0)
   \<and> (snd (Atoi s) = Some ErrRange \<longrightarrow>
        fst (Atoi s) = 9223372036854775807 \<or> fst (Atoi s) = - 9223372036854775808)"
  by (auto simp: Atoi_def ParseInt_def Let_def)

lemma Atoi_not_decimal:
  assumes "\<not> decimal_integer s"
  shows "snd (Atoi s) \<noteq> None"
proof (cases "s = []")
  case True
  then show ?thesis by (simp add: Atoi_def ParseInt_def)
next
  case False
  define digits where "digits = (if hd s = CHR ''+'' \<or> hd s = CHR ''-'' then tl s else s)"
  from assms False have bad: "digits = [] \<or> \<not> list_all isDigit digits"
    by (auto simp: decimal_integer_def digits_def Let_def)
  then have err: "snd (ParseUint digits) \<noteq> None"
    by (rule ParseUint_not_digits)
  then obtain e where e: "snd (ParseUint digits) = Some e" by auto
  show ?thesis
  proof (cases e)
    case ErrSyntax
    with e False show ?thesis
      by (simp add: Atoi_def ParseInt_def Let_def digits_def)
  next
    case ErrRange
    with e ParseUint_error[of digits] have "fst (ParseUint digits) = maxUint64" by simp
    with e ErrRange False show ?thesis
      by (auto simp: Atoi_def ParseInt_def Let_def digits_def maxUint64_def split: if_splits)
  qed
qed

lemma Duration_seconds_at_error:
  "Duration_seconds 0 = 0"
  "Duration_seconds 9223372036854775807 = - 1000000000"
  "Duration_seconds (- 9223372036854775808) = 0"
  by (simp_all add: Duration_seconds_def Second_def)

lemma stepSleep_duration_at_error:
  assumes "snd (Atoi (Value step)) \<noteq> None"
  shows "snd (stepSleep run step) \<le> 0"
    and "snd (Atoi (Value step)) = Some ErrSyntax \<Longrightarrow> snd (stepSleep run step) = 0"
proof -
  have d: "snd (stepSleep run step) = Duration_seconds (fst (Atoi (Value step)))"
    by (simp add: stepSleep_def Let_def split: option.splits)
  from assms obtain e where e: "snd (Atoi (Value step)) = Some e" by auto
  show "snd (stepSleep run step) \<le> 0"
    using Atoi_error_value[of "Value step"] e
    by (cases e) (auto simp: d Duration_seconds_at_error)
  show "snd (stepSleep run step) = 0" if "snd (Atoi (Value step)) = Some ErrSyntax"
    using Atoi_error_value[of "Value step"] that
    by (simp add: d Duration_seconds_at_error)
qed

text \<open>
  Claim C10. For every sleep step whose value is not a decimal integer as a text,
  \<open>strconv.Atoi\<close> returns an error, and whenever it returns an error (also for a decimal
  integer that leaves the range of an \<open>int\<close>) the step ignores it: the sleep it asks the
  browser for takes zero seconds (the duration is zero for a syntax error and is never
  positive), and the step returns a success when the browser run of that sleep returns
  no error. The result of the step is decided by the browser run alone, so that no
  result of the step reports the malformed value.
\<close>

theorem sleep_ignores_malformed_duration:
  "(\<not> decimal_integer (Value step) \<longrightarrow> snd (Atoi (Value step)) \<noteq> None)
   \<and> (snd (Atoi (Value step)) \<noteq> None \<longrightarrow>
        Sleep_time (snd (stepSleep run step)) = 0
        \<and> snd (stepSleep run step) \<le> 0
        \<and> (snd (Atoi (Value step)) = Some ErrSyntax \<longrightarrow> snd (stepSleep run step) = 0)
        \<and> fst (stepSleep run step)
            = (case run (snd (stepSleep run step)) of
                 None \<Rightarrow> \<lparr> StepResult.Status = ''success'', Message = [], Break = False \<rparr>
               | Some err \<Rightarrow> \<lparr> StepResult.Status = ''error'', Message = err, Break = False \<rparr>)
        \<and> (run (snd (stepSleep run step)) = None \<longrightarrow>
             fst (stepSleep run step) = \<lparr> StepResult.Status = ''success'', Message = [], Break = False \<rparr>))"
proof (intro conjI impI)
  assume "\<not> decimal_integer (Value step)"
  then show "snd (Atoi (Value step)) \<noteq> None" by (rule Atoi_not_decimal)
next
  assume "snd (Atoi (Value step)) \<noteq> None"
  then have "snd (stepSleep run step) \<le> 0" by (rule stepSleep_duration_at_error(1))
  then show "Sleep_time (snd (stepSleep run step)) = 0" by (simp add: Sleep_time_def)
next
  assume "snd (Atoi (Value step)) \<noteq> None"
  then show "snd (stepSleep run step) \<le> 0" by (rule stepSleep_duration_at_error(1))
next
  assume "snd (Atoi (Value step)) \<noteq> None" and "snd (Atoi (Value step)) = Some ErrSyntax"
  then show "snd (stepSleep run step) = 0" by (rule stepSleep_duration_at_error(2))
next
  show "fst (stepSleep run step)
            = (case run (snd (stepSleep run step)) of
                 None \<Rightarrow> \<lparr> StepResult.Status = ''success'', Message = [], Break = False \<rparr>
               | Some err \<Rightarrow> \<lparr> StepResult.Status = ''error'', Message = err, Break = False \<rparr>)"
    by (simp add: stepSleep_def Let_def split: option.splits)
next
  assume "run (snd (stepSleep run step)) = None"
  then show "fst (stepSleep run step) = \<lparr> StepResult.Status = ''success'', Message = [], Break = False \<rparr>"
    by (simp add: stepSleep_def Let_def split: option.splits)
qed

theorem sleep_ignores_malformed_duration_witness:
  "\<not> decimal_integer ''5s''
   \<and> Atoi ''5s'' = (0, Some ErrSyntax)
   \<and> stepSleep (\<lambda>d. None) (sleep_step ''5s'')
       = (\<lparr> StepResult.Status = ''success'', Message = [], Break = False \<rparr>, 0)
   \<and> \<not> decimal_integer ''99999999999999999999x''
   \<and> Atoi ''99999999999999999999x'' = (9223372036854775807, Some ErrRange)
   \<and> stepSleep (\<lambda>d. None) (sleep_step ''99999999999999999999x'')
       = (\<lparr> StepResult.Status = ''success'', Message = [], Break = False \<rparr>, - 1000000000)
   \<and> Sleep_time (snd (stepSleep (\<lambda>d. None) (sleep_step ''99999999999999999999x''))) = 0
   \<and> stepSleep (\<lambda>d. if d \<le> 0 then None else Some ''context deadline exceeded'') (sleep_step '''')
       = (\<lparr> StepResult.Status = ''success'', Message = [], Break = False \<rparr>, 0)"
proof -
  have bad1: "\<not> decimal_integer (Value (sleep_step ''5s''))"
    by (simp add: stepSleep_def Atoi_def ParseInt_def ParseUint_def isDigit_def digitValue_def
        maxUint64_def Duration_seconds_def decimal_integer_def sleep_step_def example_step_def)
  have bad2: "\<not> decimal_integer (Value (sleep_step ''99999999999999999999x''))"
    by (simp add: stepSleep_def Atoi_def ParseInt_def ParseUint_def isDigit_def digitValue_def
        maxUint64_def Duration_seconds_def decimal_integer_def sleep_step_def example_step_def)
  have bad3: "\<not> decimal_integer (Value (sleep_step ''''))"
    by (simp add: stepSleep_def Atoi_def ParseInt_def ParseUint_def isDigit_def digitValue_def
        maxUint64_def Duration_seconds_def decimal_integer_def sleep_step_def example_step_def)
  note t1 = sleep_ignores_malformed_duration[where step = "sleep_step ''5s''" and run = "\<lambda>d. None"]
  note t2 = sleep_ignores_malformed_duration
              [where step = "sleep_step ''99999999999999999999x''" and run = "\<lambda>d. None"]
  note t3 = sleep_ignores_malformed_duration
              [where step = "sleep_step ''''"
                 and run = "\<lambda>d. if d \<le> 0 then None else Some ''context deadline exceeded''"]
  note e1 = t1[THEN conjunct1, THEN mp, OF bad1]
  note e2 = t2[THEN conjunct1, THEN mp, OF bad2]
  note e3 = t3[THEN conjunct1, THEN mp, OF bad3]
  note r1 = t1[THEN conjunct2, THEN mp, OF e1]
  note r2 = t2[THEN conjunct2, THEN mp, OF e2]
  note r3 = t3[THEN conjunct2, THEN mp, OF e3]
  have a1: "Atoi ''5s'' = (0, Some ErrSyntax)"
    by (simp add: stepSleep_def Atoi_def ParseInt_def ParseUint_def isDigit_def digitValue_def
        maxUint64_def Duration_seconds_def decimal_integer_def sleep_step_def)
  have a2: "Atoi ''99999999999999999999x'' = (9223372036854775807, Some ErrRange)"
    by (simp add: stepSleep_def Atoi_def ParseInt_def ParseUint_def isDigit_def digitValue_def
        maxUint64_def Duration_seconds_def decimal_integer_def sleep_step_def)
  have d2: "snd (stepSleep (\<lambda>d. None) (sleep_step ''99999999999999999999x'')) = - 1000000000"
    by (simp add: stepSleep_def a2 sleep_step_def example_step_def Duration_seconds_def Second_def)
  show ?thesis
    apply (intro conjI)
    subgoal using bad1 by (simp add: sleep_step_def example_step_def)
    subgoal by (rule a1)
    subgoal using r1 a1 by (simp add: prod_eq_iff sleep_step_def example_step_def)
    subgoal using bad2 by (simp add: sleep_step_def example_step_def)
    subgoal by (rule a2)
    subgoal using r2 d2 by (simp add: prod_eq_iff)
    subgoal using r2 by simp
    subgoal using r3 by (simp add: prod_eq_iff stepSleep_def Atoi_def ParseInt_def ParseUint_def isDigit_def digitValue_def
        maxUint64_def Duration_seconds_def decimal_integer_def sleep_step_def example_step_def)
    done
qed












lemma take_2_cases:
  obtains "nodes = []"
  | a where "nodes = [a]"
  | a b rest where "nodes = a # b # rest"
  by (cases nodes rule: list.exhaust; cases "tl nodes") auto










text \<open>
  Two \<open>downloadAll\<close> steps in one run: the first returns success and leaves its listener
  on the context with the counter of its wait group at zero; in the second, the first
  completed download makes that listener call \<open>Done()\<close>, and the process ends.
\<close>

lemma second_downloadAll_panics:
  "fst (stepDownloadAll
          \<lparr> found = Inr five_nodes, click_error = (\<lambda>x n. None),
            completed = (\<lambda>x. 0), completed_waiting = 2 \<rparr> [] download_step)
     = Returns (\<lparr> StepResult.Status = ''success'', Message = [], Break = False \<rparr>, [0])
   \<and> fst (stepDownloadAll
          \<lparr> found = Inr five_nodes, click_error = (\<lambda>x n. None),
            completed = (\<lambda>x. 0), completed_waiting = 2 \<rparr> [0] download_step)
     = Panics ''sync: negative WaitGroup counter''"
  by (simp add: stepDownloadAll_def download_completed_def five_nodes_def download_step_def
        example_step_def numeral_2_eq_2)



end
